theory Spec2Isabelle
  imports Complex_Main "HOL-Library.Word"
begin

unbundle bit_operations_syntax

section \<open>Numeric conventions\<close>

text \<open>
  The hex-grid subsystem (\<^verbatim>\<open>src/world/hex_world.c\<close>, \<^verbatim>\<open>include/hex.h\<close>) computes with C
  \<^verbatim>\<open>float\<close>, \<^verbatim>\<open>int\<close>, \<^verbatim>\<open>int16_t\<close>, \<^verbatim>\<open>uint16_t\<close>, \<^verbatim>\<open>uint32_t\<close> and \<^verbatim>\<open>size_t\<close>.

  \<^item> A \<^verbatim>\<open>float\<close> is modelled by the real number it denotes. A literal such as
    \<^verbatim>\<open>0.68f\<close> stands for its exact binary32 value (a dyadic rational), so that every
    comparison against a literal agrees with the C comparison. Infinities and NaN are not
    modelled. The functions that compute with \<^verbatim>\<open>float\<close> are given twice:
    \<^item> in exact arithmetic, where \<open>+\<close>, \<open>-\<close>, \<open>*\<close>, \<open>/\<close> and \<^verbatim>\<open>sqrtf\<close> are the real
      operations. This idealised model is enough where a property rests on the order of
      the tests or on integers alone;
    \<^item> with rounded operations (the definitions whose names end in \<open>_fl\<close>): every
      \<^verbatim>\<open>float\<close> operation is followed by a rounding function \<open>fl\<close>, as binary32
      arithmetic does. Whatever depends on the value a \<^verbatim>\<open>float\<close> computation returns is
      stated on this model.
  \<^item> A C \<^verbatim>\<open>int\<close> is an \<^typ>\<open>int\<close>; the casts the source writes
    (\<^verbatim>\<open>(int16_t)\<close>, \<^verbatim>\<open>(uint16_t)\<close>, \<^verbatim>\<open>(int)\<close>) are modelled with their wrap-around, and so
    are the \<^verbatim>\<open>int\<close> operations whose result can leave the range of \<^verbatim>\<open>int\<close>
    (\<^verbatim>\<open>q_max - q_min + 1\<close>, \<^verbatim>\<open>-r - s\<close>): ISO C leaves signed overflow undefined, the
    model follows the two's complement wrap-around of the compiled code.
  \<^item> \<^verbatim>\<open>uint32_t\<close> is \<^typ>\<open>32 word\<close>; \<^verbatim>\<open>size_t\<close> is a \<^typ>\<open>nat\<close> below \<open>2 ^ 64\<close>.
  \<^item> A pointer that may be \<^verbatim>\<open>NULL\<close> is an \<^typ>\<open>'a option\<close>.
\<close>

definition SQRT3 :: real where
  \<comment> \<open>\<^verbatim>\<open>#define SQRT3 1.7320508075688772f\<close>\<close>
  "SQRT3 = 14529495 / 8388608"

definition f_0_68 :: real where "f_0_68 = 11408507 / 16777216"  \<comment> \<open>\<^verbatim>\<open>0.68f\<close>\<close>
definition f_0_04 :: real where "f_0_04 = 5368709 / 134217728"  \<comment> \<open>\<^verbatim>\<open>0.04f\<close>\<close>
definition f_0_08 :: real where "f_0_08 = 5368709 / 67108864"   \<comment> \<open>\<^verbatim>\<open>0.08f\<close>\<close>
definition f_0_18 :: real where "f_0_18 = 3019899 / 16777216"   \<comment> \<open>\<^verbatim>\<open>0.18f\<close>\<close>
definition f_0_55 :: real where "f_0_55 = 9227469 / 16777216"   \<comment> \<open>\<^verbatim>\<open>0.55f\<close>\<close>
definition f_0_4 :: real where "f_0_4 = 13421773 / 33554432"    \<comment> \<open>\<^verbatim>\<open>0.4f\<close>\<close>
definition f_0_35 :: real where "f_0_35 = 11744051 / 33554432"  \<comment> \<open>\<^verbatim>\<open>0.35f\<close>\<close>
definition f_0_95 :: real where "f_0_95 = 15938355 / 16777216"  \<comment> \<open>\<^verbatim>\<open>0.95f\<close>\<close>
definition f_0_3 :: real where "f_0_3 = 5033165 / 16777216"     \<comment> \<open>\<^verbatim>\<open>0.3f\<close>\<close>
definition f_0_8 :: real where "f_0_8 = 13421773 / 16777216"    \<comment> \<open>\<^verbatim>\<open>0.8f\<close>\<close>
definition f_1_2 :: real where "f_1_2 = 5033165 / 4194304"      \<comment> \<open>\<^verbatim>\<open>1.2f\<close>\<close>

definition int16_cast :: "int \<Rightarrow> int" where
  \<comment> \<open>\<^verbatim>\<open>(int16_t)x\<close>\<close>
  "int16_cast x = (x + 32768) mod 65536 - 32768"

definition uint16_cast :: "int \<Rightarrow> nat" where
  \<comment> \<open>\<^verbatim>\<open>(uint16_t)x\<close>\<close>
  "uint16_cast x = nat (x mod 65536)"

definition int_cast :: "int \<Rightarrow> int" where
  \<comment> \<open>the \<^verbatim>\<open>int\<close> that holds \<open>x\<close>: \<^verbatim>\<open>(int)x\<close> of a \<^verbatim>\<open>long\<close>, and the result of an \<^verbatim>\<open>int\<close>
    operation whose mathematical result is \<open>x\<close>\<close>
  "int_cast x = (x + 2147483648) mod 4294967296 - 2147483648"

definition c_span :: "int \<Rightarrow> int \<Rightarrow> int" where
  \<comment> \<open>\<^verbatim>\<open>hi - lo + 1\<close> in \<^verbatim>\<open>int\<close> arithmetic\<close>
  "c_span lo hi = int_cast (int_cast (hi - lo) + 1)"

definition int_range :: "int \<Rightarrow> bool" where
  \<comment> \<open>\<^verbatim>\<open>INT_MIN <= x <= INT_MAX\<close>\<close>
  "int_range x = (- 2147483648 \<le> x \<and> x \<le> 2147483647)"

definition SIZE_MAX :: nat where
  "SIZE_MAX = 2 ^ 64 - 1"

definition lrintf :: "real \<Rightarrow> int" where
  \<comment> \<open>nearest integer, a tie to the even one (the default rounding mode)\<close>
  "lrintf x =
     (let f = \<lfloor>x\<rfloor>; d = x - of_int f
      in if d < 1 / 2 then f
         else if d > 1 / 2 then f + 1
         else if even f then f else f + 1)"

section \<open>Data model (\<^verbatim>\<open>hex.h\<close>, \<^verbatim>\<open>params.h\<close>)\<close>

datatype HexTerrain =
    HEX_TERRAIN_OPEN
  | HEX_TERRAIN_FOREST
  | HEX_TERRAIN_MOUNTAIN
  | HEX_TERRAIN_WATER
  | HEX_TERRAIN_HIVE
  | HEX_TERRAIN_FLOWERS
  | HEX_TERRAIN_ENTRANCE

definition HEX_TILE_VISIBLE :: nat where
  "HEX_TILE_VISIBLE = 1"

record HexTile =
  tile_q :: int
  tile_r :: int
  terrain :: HexTerrain
  nectar_stock :: real
  nectar_capacity :: real
  nectar_recharge_rate :: real
  flow_capacity :: real
  center_x :: real
  center_y :: real
  flags :: nat

record HexWorld =
  cell_size :: real
  origin_x :: real
  origin_y :: real
  q_min :: int
  q_max :: int
  r_min :: int
  r_max :: int
  width :: nat
  height :: nat
  count :: nat
  tiles :: "HexTile list option"

text \<open>The fields of \<^verbatim>\<open>Params\<close> that the hex subsystem reads: \<^verbatim>\<open>params->hive.*\<close> and
  \<^verbatim>\<open>params->hex.*\<close>.\<close>

record Params =
  hive_rect_x :: real
  hive_rect_y :: real
  hive_rect_w :: real
  hive_rect_h :: real
  hive_entrance_side :: int
  hive_entrance_t :: real
  hive_entrance_width :: real
  hex_enabled :: bool
  hex_cell_size :: real
  hex_origin_x :: real
  hex_origin_y :: real
  hex_q_min :: int
  hex_q_max :: int
  hex_r_min :: int
  hex_r_max :: int

section \<open>Noise field\<close>

definition clampf :: "real \<Rightarrow> real \<Rightarrow> real \<Rightarrow> real" where
  "clampf v lo hi = (if v < lo then lo else if v > hi then hi else v)"

definition noise_hash :: "int \<Rightarrow> int \<Rightarrow> 32 word" where
  \<comment> \<open>the value of \<^verbatim>\<open>h\<close> before the final mask in \<^verbatim>\<open>pseudo_noise01\<close>\<close>
  "noise_hash q r =
     (let h = (word_of_int q * 73856093) XOR (word_of_int r * 19349663);
          h = h XOR drop_bit 13 h;
          h = h * 0x5bd1e995;
          h = h XOR drop_bit 15 h
      in h)"

definition pseudo_noise01 :: "int \<Rightarrow> int \<Rightarrow> real" where
  "pseudo_noise01 q r = real (unat (noise_hash q r AND 0xFFFFFF)) / real (0x1000000 :: nat)"

text \<open>
  The same field in the words of the specification, with no machine words: every step
  is arithmetic on natural numbers modulo \<open>2 ^ 32\<close>. The two are compared below.
\<close>

definition noise_spec :: "int \<Rightarrow> int \<Rightarrow> real" where
  "noise_spec q r =
     (let a = (nat (q mod 2 ^ 32) * 73856093) mod 2 ^ 32;
          b = (nat (r mod 2 ^ 32) * 19349663) mod 2 ^ 32;
          h = a XOR b;
          h = h XOR (h div 2 ^ 13);
          h = (h * 0x5bd1e995) mod 2 ^ 32;
          h = h XOR (h div 2 ^ 15)
      in real (h mod 2 ^ 24) / 2 ^ 24)"

section \<open>Lattice lifecycle\<close>

definition hex_world_zero :: HexWorld where
  \<comment> \<open>\<^verbatim>\<open>memset(world, 0, sizeof(*world))\<close>\<close>
  "hex_world_zero =
     \<lparr>cell_size = 0, origin_x = 0, origin_y = 0, q_min = 0, q_max = 0, r_min = 0, r_max = 0,
      width = 0, height = 0, count = 0, tiles = None\<rparr>"

definition hex_world_init :: "HexWorld option \<Rightarrow> HexWorld option" where
  "hex_world_init world = (case world of None \<Rightarrow> None | Some _ \<Rightarrow> Some hex_world_zero)"

definition hex_world_destroy :: "HexWorld option \<Rightarrow> HexWorld option" where
  "hex_world_destroy world = (case world of None \<Rightarrow> None | Some _ \<Rightarrow> Some hex_world_zero)"

definition zero_tile :: HexTile where
  \<comment> \<open>an element of the array that \<^verbatim>\<open>calloc\<close> returns\<close>
  "zero_tile =
     \<lparr>tile_q = 0, tile_r = 0, terrain = HEX_TERRAIN_OPEN, nectar_stock = 0, nectar_capacity = 0,
      nectar_recharge_rate = 0, flow_capacity = 0, center_x = 0, center_y = 0, flags = 0\<rparr>"

section \<open>Terrain assignment\<close>

definition hive_enabled :: "Params \<Rightarrow> bool" where
  "hive_enabled p = (hive_rect_w p > 0 \<and> hive_rect_h p > 0)"

definition in_hive_rect :: "Params \<Rightarrow> HexTile \<Rightarrow> bool" where
  \<comment> \<open>the first test under \<^verbatim>\<open>if (hive_enabled)\<close>\<close>
  "in_hive_rect p tile =
     (center_x tile \<ge> hive_rect_x p \<and> center_x tile \<le> hive_rect_x p + hive_rect_w p \<and>
      center_y tile \<ge> hive_rect_y p \<and> center_y tile \<le> hive_rect_y p + hive_rect_h p)"

definition entrance_point :: "Params \<Rightarrow> real \<times> real" where
  \<comment> \<open>\<^verbatim>\<open>(entrance_x, entrance_y)\<close> after the \<^verbatim>\<open>switch (params->hive.entrance_side)\<close>\<close>
  "entrance_point p =
     (let rect_x = hive_rect_x p; rect_y = hive_rect_y p;
          rect_w = hive_rect_w p; rect_h = hive_rect_h p;
          side = hive_entrance_side p
      in if side = 0 then (rect_x + clampf (hive_entrance_t p) 0 1 * rect_w, rect_y)
         else if side = 1 then (rect_x + clampf (hive_entrance_t p) 0 1 * rect_w, rect_y + rect_h)
         else if side = 2 then (rect_x, rect_y + clampf (hive_entrance_t p) 0 1 * rect_h)
         else if side = 3 then (rect_x + rect_w, rect_y + clampf (hive_entrance_t p) 0 1 * rect_h)
         else (rect_x, rect_y))"

definition entrance_axial_ok :: "Params \<Rightarrow> HexWorld \<Rightarrow> HexTile \<Rightarrow> bool" where
  \<comment> \<open>\<^verbatim>\<open>axial_ok\<close>\<close>
  "entrance_axial_ok p world tile =
     (let dx = center_x tile - fst (entrance_point p);
          dy = center_y tile - snd (entrance_point p);
          axial_extent = (if hive_entrance_width p > 0 then hive_entrance_width p * 0.5
                          else cell_size world)
      in if hive_entrance_side p = 0 \<or> hive_entrance_side p = 1
         then \<bar>dx\<bar> \<le> axial_extent else \<bar>dy\<bar> \<le> axial_extent)"

definition entrance_radial_ok :: "Params \<Rightarrow> HexWorld \<Rightarrow> HexTile \<Rightarrow> bool" where
  \<comment> \<open>\<^verbatim>\<open>entrance_dist <= radial_limit\<close>\<close>
  "entrance_radial_ok p world tile =
     (let dx = center_x tile - fst (entrance_point p);
          dy = center_y tile - snd (entrance_point p);
          entrance_dist = sqrt (dx * dx + dy * dy);
          entrance_half = hive_entrance_width p * 0.5;
          radial_limit = max (cell_size world * f_1_2) entrance_half
      in entrance_dist \<le> radial_limit)"

definition origin_dist :: "HexWorld \<Rightarrow> HexTile \<Rightarrow> real" where
  \<comment> \<open>\<^verbatim>\<open>dist\<close> in \<^verbatim>\<open>assign_tile_defaults\<close>: the distance of the cell centre from the lattice
    origin\<close>
  "origin_dist world tile =
     sqrt ((center_x tile - origin_x world) * (center_x tile - origin_x world) +
           (center_y tile - origin_y world) * (center_y tile - origin_y world))"

definition assign_noise_terrain :: "HexWorld \<Rightarrow> HexTile \<Rightarrow> HexTile" where
  \<comment> \<open>\<^verbatim>\<open>assign_tile_defaults\<close> from \<^verbatim>\<open>float local_x = ...\<close> to its end\<close>
  "assign_noise_terrain world tile =
     (let dist = origin_dist world tile;
          noise = pseudo_noise01 (tile_q tile) (tile_r tile)
      in if dist > cell_size world * 8 \<and> noise > f_0_68 then
           (let cap = 240 + 60 * noise
            in tile\<lparr>terrain := HEX_TERRAIN_FLOWERS,
                    nectar_capacity := cap,
                    nectar_stock := cap * clampf (f_0_55 + f_0_4 * (noise - f_0_68)) f_0_35 f_0_95,
                    nectar_recharge_rate := 4.5 + 2 * (noise - f_0_68),
                    flow_capacity := 18\<rparr>)
         else if noise < f_0_04 then
           tile\<lparr>terrain := HEX_TERRAIN_WATER, flow_capacity := 2\<rparr>
         else if noise < f_0_08 then
           tile\<lparr>terrain := HEX_TERRAIN_MOUNTAIN, flow_capacity := 1.5\<rparr>
         else if noise < f_0_18 then
           tile\<lparr>terrain := HEX_TERRAIN_FOREST, flow_capacity := 6,
                 nectar_capacity := 30, nectar_stock := 30 * f_0_3,
                 nectar_recharge_rate := f_0_8\<rparr>
         else tile)"

text \<open>The tile pointer of \<^verbatim>\<open>assign_tile_defaults\<close> is the address of an array element and
  never \<^verbatim>\<open>NULL\<close>; the function returns the tile it has written.\<close>

definition assign_tile_defaults :: "Params option \<Rightarrow> HexWorld \<Rightarrow> HexTile \<Rightarrow> HexTile" where
  "assign_tile_defaults params world tile0 =
     (let tile = tile0\<lparr>terrain := HEX_TERRAIN_OPEN, nectar_capacity := 0, nectar_stock := 0,
                        nectar_recharge_rate := 0, flow_capacity := 8,
                        flags := HEX_TILE_VISIBLE\<rparr>
      in case params of
           None \<Rightarrow> tile
         | Some p \<Rightarrow>
             if hive_enabled p \<and> in_hive_rect p tile then
               tile\<lparr>terrain := HEX_TERRAIN_HIVE, flow_capacity := 35\<rparr>
             else if hive_enabled p \<and> entrance_axial_ok p world tile
                       \<and> entrance_radial_ok p world tile then
               tile\<lparr>terrain := HEX_TERRAIN_ENTRANCE, flow_capacity := 26\<rparr>
             else assign_noise_terrain world tile)"

section \<open>Building the lattice\<close>

definition create_tile :: "Params \<Rightarrow> HexWorld \<Rightarrow> int \<Rightarrow> int \<Rightarrow> HexTile" where
  \<comment> \<open>the body of the inner loop of \<^verbatim>\<open>hex_world_create\<close>\<close>
  "create_tile p world q r =
     (let cx = (SQRT3 * cell_size world) * (real_of_int q + real_of_int r * 0.5);
          cy = (1.5 * cell_size world) * real_of_int r;
          tile = zero_tile\<lparr>tile_q := int16_cast q, tile_r := int16_cast r,
                            center_x := origin_x world + cx,
                            center_y := origin_y world + cy\<rparr>
      in assign_tile_defaults (Some p) world tile)"

definition create_tiles :: "Params \<Rightarrow> HexWorld \<Rightarrow> HexTile list" where
  \<comment> \<open>the two nested loops: \<^verbatim>\<open>r\<close> outer, \<^verbatim>\<open>q\<close> inner, \<^verbatim>\<open>index++\<close>\<close>
  "create_tiles p world =
     concat (map (\<lambda>r. map (\<lambda>q. create_tile p world q r) [hex_q_min p..hex_q_max p])
                 [hex_r_min p..hex_r_max p])"

text \<open>\<^verbatim>\<open>hex_world_create(world, params)\<close> returns its \<^verbatim>\<open>bool\<close> and the world it leaves
  behind. The first argument says whether \<^verbatim>\<open>calloc(count, sizeof(HexTile))\<close> succeeds.
  The spans are computed in \<^verbatim>\<open>int\<close>; the product of two positive \<^verbatim>\<open>int\<close> spans does not
  wrap in a 64-bit \<^verbatim>\<open>size_t\<close>. The terrain assignment reads \<^verbatim>\<open>cell_size\<close> and the origin
  of the world only, so the loop receives the world as it is before the tile array is
  attached. The two loops are the lists \<open>[r_min..r_max]\<close> and \<open>[q_min..q_max]\<close>, which is
  what they enumerate as long as \<^verbatim>\<open>++q\<close> and \<^verbatim>\<open>++r\<close> do not overflow, that is for
  \<^verbatim>\<open>q_max\<close> and \<^verbatim>\<open>r_max\<close> below \<^verbatim>\<open>INT_MAX\<close>.\<close>

definition hex_world_create ::
  "(nat \<Rightarrow> bool) \<Rightarrow> HexWorld option \<Rightarrow> Params option \<Rightarrow> bool \<times> HexWorld option" where
  "hex_world_create calloc_ok world params =
     (case hex_world_init (hex_world_destroy world) of
        None \<Rightarrow> (False, None)
      | Some w0 \<Rightarrow>
          (case params of
             None \<Rightarrow> (True, Some w0)
           | Some p \<Rightarrow>
               if \<not> hex_enabled p then (True, Some w0)
               else
                 let q_span = c_span (hex_q_min p) (hex_q_max p);
                     r_span = c_span (hex_r_min p) (hex_r_max p)
                 in if q_span \<le> 0 \<or> r_span \<le> 0 then (False, Some w0)
                    else
                      let w1 = w0\<lparr>cell_size := hex_cell_size p,
                                   origin_x := hex_origin_x p,
                                   origin_y := hex_origin_y p,
                                   q_min := int16_cast (hex_q_min p),
                                   q_max := int16_cast (hex_q_max p),
                                   r_min := int16_cast (hex_r_min p),
                                   r_max := int16_cast (hex_r_max p),
                                   width := uint16_cast q_span,
                                   height := uint16_cast r_span,
                                   count := nat q_span * nat r_span\<rparr>
                      in if count w1 = 0 then (True, Some w1)
                         else if \<not> calloc_ok (count w1) then (False, Some w1)
                         else (True, Some (w1\<lparr>tiles := Some (create_tiles p w1)\<rparr>))))"

definition calloc_always :: "nat \<Rightarrow> bool" where
  \<comment> \<open>an allocator that never fails\<close>
  "calloc_always n = True"

definition calloc_never :: "nat \<Rightarrow> bool" where
  \<comment> \<open>an allocator that always fails\<close>
  "calloc_never n = False"

section \<open>Queries\<close>

definition hex_world_in_bounds :: "HexWorld option \<Rightarrow> int \<Rightarrow> int \<Rightarrow> bool" where
  "hex_world_in_bounds world q r =
     (case world of
        None \<Rightarrow> False
      | Some w \<Rightarrow>
          (case tiles w of
             None \<Rightarrow> False
           | Some _ \<Rightarrow> q \<ge> q_min w \<and> q \<le> q_max w \<and> r \<ge> r_min w \<and> r \<le> r_max w))"

definition in_box :: "HexWorld \<Rightarrow> int \<Rightarrow> int \<Rightarrow> bool" where
  \<comment> \<open>\<open>(q, r)\<close> lies in the bounding box: the comparison of \<^verbatim>\<open>hex_world_in_bounds\<close>\<close>
  "in_box w q r = (q_min w \<le> q \<and> q \<le> q_max w \<and> r_min w \<le> r \<and> r \<le> r_max w)"

definition hex_world_index :: "HexWorld option \<Rightarrow> int \<Rightarrow> int \<Rightarrow> nat" where
  "hex_world_index world q r =
     (if \<not> hex_world_in_bounds world q r then SIZE_MAX
      else case world of
             None \<Rightarrow> SIZE_MAX
           | Some w \<Rightarrow>
               (let qi = nat (q - q_min w); ri = nat (r - r_min w)
                in (ri * width w + qi) mod 2 ^ 64))"

definition hex_world_tile :: "HexWorld option \<Rightarrow> int \<Rightarrow> int \<Rightarrow> HexTile option" where
  \<comment> \<open>the tile that the returned pointer \<^verbatim>\<open>&world->tiles[index]\<close> addresses\<close>
  "hex_world_tile world q r =
     (let index = hex_world_index world q r
      in if index = SIZE_MAX then None
         else case world of
                None \<Rightarrow> None
              | Some w \<Rightarrow> (case tiles w of None \<Rightarrow> None | Some ts \<Rightarrow> Some (ts ! index)))"

definition hex_axial_to_world :: "HexWorld option \<Rightarrow> int \<Rightarrow> int \<Rightarrow> real \<times> real" where
  "hex_axial_to_world world q r =
     (case world of
        None \<Rightarrow> (0, 0)
      | Some w \<Rightarrow>
          (case tiles w of
             None \<Rightarrow> (0, 0)
           | Some _ \<Rightarrow>
               ((SQRT3 * cell_size w) * (real_of_int q + real_of_int r * 0.5) + origin_x w,
                (1.5 * cell_size w) * real_of_int r + origin_y w)))"

definition hex_world_to_axial_f :: "HexWorld option \<Rightarrow> real \<Rightarrow> real \<Rightarrow> real \<times> real" where
  "hex_world_to_axial_f world world_x world_y =
     (case world of
        None \<Rightarrow> (0, 0)
      | Some w \<Rightarrow>
          if cell_size w \<le> 0 then (0, 0)
          else
            let x = world_x - origin_x w;
                y = world_y - origin_y w
            in ((SQRT3 / 3 * x - 1 / 3 * y) / cell_size w, (2 / 3 * y) / cell_size w))"

definition round_coord :: "real \<Rightarrow> int" where
  \<comment> \<open>\<^verbatim>\<open>(int)lrintf(x)\<close>\<close>
  "round_coord x = int_cast (lrintf x)"

definition round_diff :: "real \<Rightarrow> real" where
  \<comment> \<open>\<^verbatim>\<open>fabsf((float)q - qf)\<close> for \<^verbatim>\<open>q = (int)lrintf(qf)\<close>\<close>
  "round_diff x = \<bar>real_of_int (round_coord x) - x\<bar>"

definition hex_axial_round :: "real \<Rightarrow> real \<Rightarrow> int \<times> int" where
  "hex_axial_round qf rf =
     (let sf = - qf - rf;
          q = round_coord qf;
          r = round_coord rf;
          s = round_coord sf;
          q_diff = round_diff qf;
          r_diff = round_diff rf;
          s_diff = round_diff sf
      in if q_diff > r_diff \<and> q_diff > s_diff then (int_cast (int_cast (- r) - s), r)
         else if r_diff > s_diff then (q, int_cast (int_cast (- q) - s))
         else (q, r))"

definition axial_round_trip :: "HexWorld option \<Rightarrow> int \<Rightarrow> int \<Rightarrow> int \<times> int" where
  \<comment> \<open>\<^verbatim>\<open>hex_axial_to_world\<close>, then \<^verbatim>\<open>hex_world_to_axial_f\<close>, then \<^verbatim>\<open>hex_axial_round\<close>\<close>
  "axial_round_trip world q r =
     (let (x, y) = hex_axial_to_world world q r;
          (qf, rf) = hex_world_to_axial_f world x y
      in hex_axial_round qf rf)"

definition sqrt3_excess :: real where
  \<comment> \<open>by how much \<^verbatim>\<open>SQRT3 / 3 * SQRT3\<close> misses 1, \<^verbatim>\<open>SQRT3\<close> being a binary32 number\<close>
  "sqrt3_excess = SQRT3 / 3 * SQRT3 - 1"

section \<open>The subsystem with rounded operations\<close>

text \<open>
  Which cell a point is picked into, whether the round trip through world coordinates
  returns the cell it started from, and what resources a cell is given depend on the
  rounding of the single operations, which the exact model above leaves out. The
  functions that compute with \<^verbatim>\<open>float\<close> are therefore given a second time, with every
  \<^verbatim>\<open>float\<close> operation, every \<^verbatim>\<open>sqrtf\<close> and every conversion \<^verbatim>\<open>(float)q\<close> followed by a
  rounding function \<open>fl\<close> (one rounding per operation, no contraction into fused
  multiply-adds); negation, \<^verbatim>\<open>fabsf\<close>, \<^verbatim>\<open>fmaxf\<close> and the comparisons are exact. The constant
  expressions \<^verbatim>\<open>SQRT3 / 3.0f\<close>, \<^verbatim>\<open>1.0f / 3.0f\<close> and \<^verbatim>\<open>2.0f / 3.0f\<close> are their binary32
  values (the first one is exact). The noise value needs no rounding: an integer below
  \<open>2 ^ 24\<close> and its quotient by \<open>2 ^ 24\<close> are binary32 numbers.

  \<open>round24\<close> rounds to the nearest number with 24 significant bits, a tie to the even
  one: the rounding of binary32 wherever the result neither overflows nor is subnormal.
\<close>

definition round24 :: "real \<Rightarrow> real" where
  "round24 x =
     (if x = 0 then 0
      else let e = \<lfloor>log 2 \<bar>x\<bar>\<rfloor> - 23; ulp = 2 powr real_of_int e
           in real_of_int (lrintf (x / ulp)) * ulp)"

definition f_1_3 :: real where "f_1_3 = 11184811 / 33554432"  \<comment> \<open>\<^verbatim>\<open>1.0f / 3.0f\<close>\<close>
definition f_2_3 :: real where "f_2_3 = 11184811 / 16777216"  \<comment> \<open>\<^verbatim>\<open>2.0f / 3.0f\<close>\<close>

definition hex_axial_to_world_fl ::
  "(real \<Rightarrow> real) \<Rightarrow> HexWorld option \<Rightarrow> int \<Rightarrow> int \<Rightarrow> real \<times> real" where
  "hex_axial_to_world_fl fl world q r =
     (case world of
        None \<Rightarrow> (0, 0)
      | Some w \<Rightarrow>
          (case tiles w of
             None \<Rightarrow> (0, 0)
           | Some _ \<Rightarrow>
               (fl (fl (fl (SQRT3 * cell_size w)
                        * fl (fl (real_of_int q) + fl (fl (real_of_int r) * 0.5)))
                    + origin_x w),
                fl (fl (fl (1.5 * cell_size w) * fl (real_of_int r)) + origin_y w))))"

definition hex_world_to_axial_f_fl ::
  "(real \<Rightarrow> real) \<Rightarrow> HexWorld option \<Rightarrow> real \<Rightarrow> real \<Rightarrow> real \<times> real" where
  "hex_world_to_axial_f_fl fl world world_x world_y =
     (case world of
        None \<Rightarrow> (0, 0)
      | Some w \<Rightarrow>
          if cell_size w \<le> 0 then (0, 0)
          else
            let x = fl (world_x - origin_x w);
                y = fl (world_y - origin_y w)
            in (fl (fl (fl (SQRT3 / 3 * x) - fl (f_1_3 * y)) / cell_size w),
                fl (fl (f_2_3 * y) / cell_size w)))"

definition hex_axial_round_fl :: "(real \<Rightarrow> real) \<Rightarrow> real \<Rightarrow> real \<Rightarrow> int \<times> int" where
  "hex_axial_round_fl fl qf rf =
     (let sf = fl (- qf - rf);
          q = round_coord qf;
          r = round_coord rf;
          s = round_coord sf;
          q_diff = \<bar>fl (fl (real_of_int q) - qf)\<bar>;
          r_diff = \<bar>fl (fl (real_of_int r) - rf)\<bar>;
          s_diff = \<bar>fl (fl (real_of_int s) - sf)\<bar>
      in if q_diff > r_diff \<and> q_diff > s_diff then (int_cast (int_cast (- r) - s), r)
         else if r_diff > s_diff then (q, int_cast (int_cast (- q) - s))
         else (q, r))"

definition axial_round_trip_fl ::
  "(real \<Rightarrow> real) \<Rightarrow> HexWorld option \<Rightarrow> int \<Rightarrow> int \<Rightarrow> int \<times> int" where
  "axial_round_trip_fl fl world q r =
     (let (x, y) = hex_axial_to_world_fl fl world q r;
          (qf, rf) = hex_world_to_axial_f_fl fl world x y
      in hex_axial_round_fl fl qf rf)"

definition round_diff_fl :: "(real \<Rightarrow> real) \<Rightarrow> real \<Rightarrow> real" where
  \<comment> \<open>\<^verbatim>\<open>fabsf((float)q - qf)\<close> for \<^verbatim>\<open>q = (int)lrintf(qf)\<close>, as \<^verbatim>\<open>hex_axial_round\<close> computes it\<close>
  "round_diff_fl fl x = \<bar>fl (fl (real_of_int (round_coord x)) - x)\<bar>"

definition cube_sf_fl :: "(real \<Rightarrow> real) \<Rightarrow> real \<Rightarrow> real \<Rightarrow> real" where
  \<comment> \<open>\<^verbatim>\<open>float sf = -qf - rf\<close>\<close>
  "cube_sf_fl fl qf rf = fl (- qf - rf)"


subsection \<open>Terrain assignment and lattice construction\<close>

definition in_hive_rect_fl :: "(real \<Rightarrow> real) \<Rightarrow> Params \<Rightarrow> HexTile \<Rightarrow> bool" where
  "in_hive_rect_fl fl p tile =
     (center_x tile \<ge> hive_rect_x p \<and> center_x tile \<le> fl (hive_rect_x p + hive_rect_w p) \<and>
      center_y tile \<ge> hive_rect_y p \<and> center_y tile \<le> fl (hive_rect_y p + hive_rect_h p))"

definition entrance_point_fl :: "(real \<Rightarrow> real) \<Rightarrow> Params \<Rightarrow> real \<times> real" where
  "entrance_point_fl fl p =
     (let rect_x = hive_rect_x p; rect_y = hive_rect_y p;
          rect_w = hive_rect_w p; rect_h = hive_rect_h p;
          side = hive_entrance_side p
      in if side = 0 then
           (fl (rect_x + fl (clampf (hive_entrance_t p) 0 1 * rect_w)), rect_y)
         else if side = 1 then
           (fl (rect_x + fl (clampf (hive_entrance_t p) 0 1 * rect_w)), fl (rect_y + rect_h))
         else if side = 2 then
           (rect_x, fl (rect_y + fl (clampf (hive_entrance_t p) 0 1 * rect_h)))
         else if side = 3 then
           (fl (rect_x + rect_w), fl (rect_y + fl (clampf (hive_entrance_t p) 0 1 * rect_h)))
         else (rect_x, rect_y))"

definition entrance_axial_ok_fl ::
  "(real \<Rightarrow> real) \<Rightarrow> Params \<Rightarrow> HexWorld \<Rightarrow> HexTile \<Rightarrow> bool" where
  "entrance_axial_ok_fl fl p world tile =
     (let dx = fl (center_x tile - fst (entrance_point_fl fl p));
          dy = fl (center_y tile - snd (entrance_point_fl fl p));
          axial_extent = (if hive_entrance_width p > 0 then fl (hive_entrance_width p * 0.5)
                          else cell_size world)
      in if hive_entrance_side p = 0 \<or> hive_entrance_side p = 1
         then \<bar>dx\<bar> \<le> axial_extent else \<bar>dy\<bar> \<le> axial_extent)"

definition entrance_radial_ok_fl ::
  "(real \<Rightarrow> real) \<Rightarrow> Params \<Rightarrow> HexWorld \<Rightarrow> HexTile \<Rightarrow> bool" where
  "entrance_radial_ok_fl fl p world tile =
     (let dx = fl (center_x tile - fst (entrance_point_fl fl p));
          dy = fl (center_y tile - snd (entrance_point_fl fl p));
          entrance_dist = fl (sqrt (fl (fl (dx * dx) + fl (dy * dy))));
          entrance_half = fl (hive_entrance_width p * 0.5);
          radial_limit = max (fl (cell_size world * f_1_2)) entrance_half
      in entrance_dist \<le> radial_limit)"

definition origin_dist_fl :: "(real \<Rightarrow> real) \<Rightarrow> HexWorld \<Rightarrow> HexTile \<Rightarrow> real" where
  \<comment> \<open>\<^verbatim>\<open>dist = sqrtf(local_x * local_x + local_y * local_y)\<close>\<close>
  "origin_dist_fl fl world tile =
     (let local_x = fl (center_x tile - origin_x world);
          local_y = fl (center_y tile - origin_y world)
      in fl (sqrt (fl (fl (local_x * local_x) + fl (local_y * local_y)))))"

definition flowers_factor_fl :: "(real \<Rightarrow> real) \<Rightarrow> real \<Rightarrow> real" where
  \<comment> \<open>\<^verbatim>\<open>0.55f + 0.4f * (noise - 0.68f)\<close>\<close>
  "flowers_factor_fl fl noise = fl (f_0_55 + fl (f_0_4 * fl (noise - f_0_68)))"

definition assign_noise_terrain_fl :: "(real \<Rightarrow> real) \<Rightarrow> HexWorld \<Rightarrow> HexTile \<Rightarrow> HexTile" where
  \<comment> \<open>\<^verbatim>\<open>assign_tile_defaults\<close> from \<^verbatim>\<open>float local_x = ...\<close> to its end\<close>
  "assign_noise_terrain_fl fl world tile =
     (let dist = origin_dist_fl fl world tile;
          noise = pseudo_noise01 (tile_q tile) (tile_r tile)
      in if dist > fl (cell_size world * 8) \<and> noise > f_0_68 then
           (let cap = fl (240 + fl (60 * noise))
            in tile\<lparr>terrain := HEX_TERRAIN_FLOWERS,
                    nectar_capacity := cap,
                    nectar_stock := fl (cap * clampf (flowers_factor_fl fl noise) f_0_35 f_0_95),
                    nectar_recharge_rate := fl (4.5 + fl (2 * fl (noise - f_0_68))),
                    flow_capacity := 18\<rparr>)
         else if noise < f_0_04 then
           tile\<lparr>terrain := HEX_TERRAIN_WATER, flow_capacity := 2\<rparr>
         else if noise < f_0_08 then
           tile\<lparr>terrain := HEX_TERRAIN_MOUNTAIN, flow_capacity := 1.5\<rparr>
         else if noise < f_0_18 then
           tile\<lparr>terrain := HEX_TERRAIN_FOREST, flow_capacity := 6,
                 nectar_capacity := 30, nectar_stock := fl (30 * f_0_3),
                 nectar_recharge_rate := f_0_8\<rparr>
         else tile)"

definition assign_tile_defaults_fl ::
  "(real \<Rightarrow> real) \<Rightarrow> Params option \<Rightarrow> HexWorld \<Rightarrow> HexTile \<Rightarrow> HexTile" where
  "assign_tile_defaults_fl fl params world tile0 =
     (let tile = tile0\<lparr>terrain := HEX_TERRAIN_OPEN, nectar_capacity := 0, nectar_stock := 0,
                        nectar_recharge_rate := 0, flow_capacity := 8,
                        flags := HEX_TILE_VISIBLE\<rparr>
      in case params of
           None \<Rightarrow> tile
         | Some p \<Rightarrow>
             if hive_enabled p \<and> in_hive_rect_fl fl p tile then
               tile\<lparr>terrain := HEX_TERRAIN_HIVE, flow_capacity := 35\<rparr>
             else if hive_enabled p \<and> entrance_axial_ok_fl fl p world tile
                       \<and> entrance_radial_ok_fl fl p world tile then
               tile\<lparr>terrain := HEX_TERRAIN_ENTRANCE, flow_capacity := 26\<rparr>
             else assign_noise_terrain_fl fl world tile)"

definition create_tile_fl :: "(real \<Rightarrow> real) \<Rightarrow> Params \<Rightarrow> HexWorld \<Rightarrow> int \<Rightarrow> int \<Rightarrow> HexTile" where
  \<comment> \<open>the body of the inner loop of \<^verbatim>\<open>hex_world_create\<close>\<close>
  "create_tile_fl fl p world q r =
     (let cx = fl (fl (SQRT3 * cell_size world)
                   * fl (fl (real_of_int q) + fl (fl (real_of_int r) * 0.5)));
          cy = fl (fl (1.5 * cell_size world) * fl (real_of_int r));
          tile = zero_tile\<lparr>tile_q := int16_cast q, tile_r := int16_cast r,
                            center_x := fl (origin_x world + cx),
                            center_y := fl (origin_y world + cy)\<rparr>
      in assign_tile_defaults_fl fl (Some p) world tile)"

definition create_tiles_fl :: "(real \<Rightarrow> real) \<Rightarrow> Params \<Rightarrow> HexWorld \<Rightarrow> HexTile list" where
  "create_tiles_fl fl p world =
     concat (map (\<lambda>r. map (\<lambda>q. create_tile_fl fl p world q r) [hex_q_min p..hex_q_max p])
                 [hex_r_min p..hex_r_max p])"

definition hex_world_create_fl ::
  "(real \<Rightarrow> real) \<Rightarrow> (nat \<Rightarrow> bool) \<Rightarrow> HexWorld option \<Rightarrow> Params option
     \<Rightarrow> bool \<times> HexWorld option" where
  "hex_world_create_fl fl calloc_ok world params =
     (case hex_world_init (hex_world_destroy world) of
        None \<Rightarrow> (False, None)
      | Some w0 \<Rightarrow>
          (case params of
             None \<Rightarrow> (True, Some w0)
           | Some p \<Rightarrow>
               if \<not> hex_enabled p then (True, Some w0)
               else
                 let q_span = c_span (hex_q_min p) (hex_q_max p);
                     r_span = c_span (hex_r_min p) (hex_r_max p)
                 in if q_span \<le> 0 \<or> r_span \<le> 0 then (False, Some w0)
                    else
                      let w1 = w0\<lparr>cell_size := hex_cell_size p,
                                   origin_x := hex_origin_x p,
                                   origin_y := hex_origin_y p,
                                   q_min := int16_cast (hex_q_min p),
                                   q_max := int16_cast (hex_q_max p),
                                   r_min := int16_cast (hex_r_min p),
                                   r_max := int16_cast (hex_r_max p),
                                   width := uint16_cast q_span,
                                   height := uint16_cast r_span,
                                   count := nat q_span * nat r_span\<rparr>
                      in if count w1 = 0 then (True, Some w1)
                         else if \<not> calloc_ok (count w1) then (False, Some w1)
                         else (True, Some (w1\<lparr>tiles := Some (create_tiles_fl fl p w1)\<rparr>))))"

definition create_defined :: "Params \<Rightarrow> bool" where
  \<comment> \<open>no \<^verbatim>\<open>int\<close> operation of \<^verbatim>\<open>hex_world_create\<close> overflows: the two spans and the loop
    increments \<^verbatim>\<open>++q\<close>, \<^verbatim>\<open>++r\<close>\<close>
  "create_defined p =
     (int_range (hex_q_min p) \<and> int_range (hex_q_max p) \<and>
      int_range (hex_r_min p) \<and> int_range (hex_r_max p) \<and>
      int_range (hex_q_max p - hex_q_min p) \<and> int_range (hex_q_max p - hex_q_min p + 1) \<and>
      int_range (hex_r_max p - hex_r_min p) \<and> int_range (hex_r_max p - hex_r_min p + 1) \<and>
      int_range (hex_q_max p + 1) \<and> int_range (hex_r_max p + 1))"

section \<open>Configuration validation (\<^verbatim>\<open>params_validate\<close>, the \<^verbatim>\<open>hex\<close> block)\<close>

definition hex_params_valid :: "Params \<Rightarrow> bool" where
  "hex_params_valid p =
     (if hex_enabled p then
        \<not> hex_cell_size p \<le> 0 \<and>
        \<not> hex_q_min p > hex_q_max p \<and>
        \<not> hex_r_min p > hex_r_max p \<and>
        \<not> (hex_q_min p < - 32768 \<or> hex_q_max p > 32767 \<or>
           hex_r_min p < - 32768 \<or> hex_r_max p > 32767) \<and>
        \<not> (hex_q_max p - hex_q_min p + 1 \<le> 0 \<or> hex_r_max p - hex_r_min p + 1 \<le> 0) \<and>
        \<not> (hex_q_max p - hex_q_min p + 1 > 65535 \<or> hex_r_max p - hex_r_min p + 1 > 65535)
      else True)"

section \<open>Example configurations\<close>

definition example_params :: Params where
  \<comment> \<open>\<^verbatim>\<open>cell_size = 48\<close>, origin \<open>(0, 0)\<close>, \<open>q, r \<in> [-2, 2]\<close>, no colony placement\<close>
  "example_params =
     \<lparr>hive_rect_x = 0, hive_rect_y = 0, hive_rect_w = 0, hive_rect_h = 0,
      hive_entrance_side = 0, hive_entrance_t = 0, hive_entrance_width = 0,
      hex_enabled = True, hex_cell_size = 48, hex_origin_x = 0, hex_origin_y = 0,
      hex_q_min = - 2, hex_q_max = 2, hex_r_min = - 2, hex_r_max = 2\<rparr>"

definition example_bare :: HexWorld where
  \<comment> \<open>the scalar fields of the world built from \<open>example_params\<close>\<close>
  "example_bare =
     \<lparr>cell_size = 48, origin_x = 0, origin_y = 0, q_min = - 2, q_max = 2, r_min = - 2, r_max = 2,
      width = 5, height = 5, count = 25, tiles = None\<rparr>"

definition example_lattice :: HexWorld where
  \<comment> \<open>the world that \<^verbatim>\<open>hex_world_create\<close> builds from \<open>example_params\<close>\<close>
  "example_lattice = example_bare\<lparr>tiles := Some (create_tiles example_params example_bare)\<rparr>"


definition colony_params :: Params where
  \<comment> \<open>colony rectangle \<open>(0, 0, 100, 100)\<close>, entrance on the bottom side at \<open>t = 0.5\<close>, width
    20; the lattice origin is placed just below the entrance\<close>
  "colony_params =
     \<lparr>hive_rect_x = 0, hive_rect_y = 0, hive_rect_w = 100, hive_rect_h = 100,
      hive_entrance_side = 1, hive_entrance_t = 1 / 2, hive_entrance_width = 20,
      hex_enabled = True, hex_cell_size = 48, hex_origin_x = 50, hex_origin_y = 110,
      hex_q_min = - 2, hex_q_max = 2, hex_r_min = - 2, hex_r_max = 2\<rparr>"

definition colony_bare :: HexWorld where
  "colony_bare =
     \<lparr>cell_size = 48, origin_x = 50, origin_y = 110, q_min = - 2, q_max = 2,
      r_min = - 2, r_max = 2, width = 5, height = 5, count = 25, tiles = None\<rparr>"

definition colony_lattice :: HexWorld where
  \<comment> \<open>the world that \<^verbatim>\<open>hex_world_create\<close> builds from \<open>colony_params\<close>\<close>
  "colony_lattice = colony_bare\<lparr>tiles := Some (create_tiles colony_params colony_bare)\<rparr>"

definition meadow_params :: Params where
  \<comment> \<open>the example configuration with rows up to \<open>r = 8\<close>, far enough for flowers\<close>
  "meadow_params = example_params\<lparr>hex_r_max := 8\<rparr>"

definition meadow_bare :: HexWorld where
  "meadow_bare =
     \<lparr>cell_size = 48, origin_x = 0, origin_y = 0, q_min = - 2, q_max = 2, r_min = - 2, r_max = 8,
      width = 5, height = 11, count = 55, tiles = None\<rparr>"

definition meadow_lattice_fl :: HexWorld where
  \<comment> \<open>the world that \<^verbatim>\<open>hex_world_create\<close> builds from \<open>meadow_params\<close> in binary32\<close>
  "meadow_lattice_fl =
     meadow_bare\<lparr>tiles := Some (create_tiles_fl round24 meadow_params meadow_bare)\<rparr>"

definition brink_params :: Params where
  \<comment> \<open>a lattice of the single cell \<open>(-907, 936)\<close>, whose noise is the least one above
    \<^verbatim>\<open>0.68f\<close>\<close>
  "brink_params =
     example_params\<lparr>hex_q_min := - 907, hex_q_max := - 907, hex_r_min := 936, hex_r_max := 936\<rparr>"

definition brink_bare :: HexWorld where
  "brink_bare =
     \<lparr>cell_size = 48, origin_x = 0, origin_y = 0, q_min = - 907, q_max = - 907,
      r_min = 936, r_max = 936, width = 1, height = 1, count = 1, tiles = None\<rparr>"

definition brink_lattice_fl :: HexWorld where
  "brink_lattice_fl =
     brink_bare\<lparr>tiles := Some (create_tiles_fl round24 brink_params brink_bare)\<rparr>"

definition far_params :: Params where
  \<comment> \<open>the example configuration with the origin at \<open>x = 1e10\<close>, a binary32 number\<close>
  "far_params = example_params\<lparr>hex_origin_x := 10000000000\<rparr>"

definition far_bare :: HexWorld where
  "far_bare =
     \<lparr>cell_size = 48, origin_x = 10000000000, origin_y = 0, q_min = - 2, q_max = 2,
      r_min = - 2, r_max = 2, width = 5, height = 5, count = 25, tiles = None\<rparr>"

definition far_lattice :: HexWorld where
  "far_lattice = far_bare\<lparr>tiles := Some (create_tiles far_params far_bare)\<rparr>"

definition resource_invariant :: "HexTile \<Rightarrow> bool" where
  \<comment> \<open>the resource invariant of a cell, in the words of the specification\<close>
  "resource_invariant t =
     (0 \<le> nectar_stock t \<and> nectar_stock t \<le> nectar_capacity t \<and>
      (nectar_capacity t = 0 \<longrightarrow> nectar_stock t = 0 \<and> nectar_recharge_rate t = 0))"

section \<open>The noise field is 32-bit modular arithmetic\<close>

lemma unat_word_of_int_32: "unat (word_of_int q :: 32 word) = nat (q mod 2 ^ 32)"
  by (simp add: unat_eq_nat_uint uint_word_of_int)

lemma unat_mult_32: "unat (x * y :: 32 word) = (unat x * unat y) mod 2 ^ 32"
  by (simp add: unat_word_ariths)

lemma unat_xor_32: "unat (x XOR y :: 32 word) = unat x XOR unat y"
  by (simp add: unsigned_xor_eq)

lemma unat_drop_bit_32: "unat (drop_bit n (x :: 32 word)) = unat x div 2 ^ n"
  unfolding unat_drop_bit_eq by (simp add: drop_bit_eq_div)

lemma unat_low_24: "unat (x AND 0xFFFFFF :: 32 word) = unat x mod 2 ^ 24"
proof -
  have m: "(0xFFFFFF :: 32 word) = mask 24"
    by (simp add: mask_eq_exp_minus_1)
  have "unat (x AND mask 24) = take_bit 24 (unat x)"
    by (simp add: unsigned_take_bit_eq flip: take_bit_eq_mask)
  then show ?thesis
    unfolding m by (simp add: take_bit_eq_mod)
qed

lemma unat_mul_q: "unat (73856093 :: 32 word) = 73856093" by simp
lemma unat_mul_r: "unat (19349663 :: 32 word) = 19349663" by simp
lemma unat_mul_mix: "unat (0x5bd1e995 :: 32 word) = 0x5bd1e995" by simp

lemma noise_hash_unat:
  "unat (noise_hash q r) =
     (let a = (nat (q mod 2 ^ 32) * 73856093) mod 2 ^ 32;
          b = (nat (r mod 2 ^ 32) * 19349663) mod 2 ^ 32;
          h = a XOR b;
          h = h XOR (h div 2 ^ 13);
          h = (h * 0x5bd1e995) mod 2 ^ 32;
          h = h XOR (h div 2 ^ 15)
      in h)"
  unfolding noise_hash_def Let_def
  by (simp only: unat_xor_32 unat_drop_bit_32 unat_mult_32 unat_word_of_int_32
      unat_mul_q unat_mul_r unat_mul_mix)

lemma real_two_24: "real (0x1000000 :: nat) = 2 ^ 24"
  by simp

lemma pseudo_noise01_unat:
  "pseudo_noise01 q r = real (unat (noise_hash q r) mod 2 ^ 24) / 2 ^ 24"
  unfolding pseudo_noise01_def unat_low_24 real_two_24 by (rule refl)

lemma pseudo_noise01_eq_spec: "pseudo_noise01 q r = noise_spec q r"
  unfolding pseudo_noise01_unat noise_spec_def noise_hash_unat Let_def by (rule refl)

lemma pseudo_noise01_range: "0 \<le> pseudo_noise01 q r \<and> pseudo_noise01 q r < 1"
proof -
  have "unat (noise_hash q r) mod 2 ^ 24 < 2 ^ 24"
    by simp
  then have "real (unat (noise_hash q r) mod 2 ^ 24) < 2 ^ 24"
    by (metis of_nat_less_iff of_nat_numeral of_nat_power)
  then show ?thesis
    unfolding pseudo_noise01_unat by simp
qed

lemma noise_hash_1_m1: "unat (noise_hash 1 (- 1)) = 3217134695"
  unfolding noise_hash_unat by (simp add: Let_def)

text \<open>
  C5. \<^verbatim>\<open>pseudo_noise01\<close> depends on \<open>q\<close> and \<open>r\<close> alone. Its value is the one obtained
  in arithmetic modulo \<open>2 ^ 32\<close>: multiply \<open>q\<close> by 73856093 and \<open>r\<close> by 19349663 (two
  distinct odd constants), combine with XOR, mix (shift right by 13 and XOR, multiply
  by \<^verbatim>\<open>0x5bd1e995\<close>, shift right by 15 and XOR), and divide the low 24 bits by \<open>2 ^ 24\<close>.
  The result lies in \<open>[0, 1)\<close>, and equal \<open>(q, r)\<close> give equal values.
\<close>

theorem pseudo_noise01_contract:
  "pseudo_noise01 q r = noise_spec q r \<and>
   0 \<le> pseudo_noise01 q r \<and> pseudo_noise01 q r < 1 \<and>
   (q = q' \<and> r = r' \<longrightarrow> pseudo_noise01 q r = pseudo_noise01 q' r') \<and>
   odd (73856093 :: nat) \<and> odd (19349663 :: nat) \<and> (73856093 :: nat) \<noteq> 19349663"
  using pseudo_noise01_eq_spec [of q r] pseudo_noise01_range [of q r] by simp

theorem pseudo_noise01_contract_witness:
  "pseudo_noise01 1 (- 1) = 12686439 / 16777216 \<and>
   noise_spec 1 (- 1) = 12686439 / 16777216 \<and>
   0 \<le> pseudo_noise01 1 (- 1) \<and> pseudo_noise01 1 (- 1) < 1"
proof -
  have v: "pseudo_noise01 1 (- 1) = 12686439 / 16777216"
    unfolding pseudo_noise01_unat noise_hash_1_m1 by simp
  show ?thesis
    using pseudo_noise01_contract [of 1 "- 1" 1 "- 1"] v by simp
qed

section \<open>Outcomes of \<^verbatim>\<open>hex_world_create\<close>\<close>

lemma sum_list_const_map: "sum_list (map (\<lambda>_. c) xs) = length xs * (c::nat)"
  by (induction xs) auto

lemma length_create_tiles:
  "length (create_tiles p w) =
     nat (hex_q_max p - hex_q_min p + 1) * nat (hex_r_max p - hex_r_min p + 1)"
  by (simp add: create_tiles_def length_concat comp_def sum_list_const_map mult.commute)

lemma length_create_tiles_fl:
  "length (create_tiles_fl fl p w) =
     nat (hex_q_max p - hex_q_min p + 1) * nat (hex_r_max p - hex_r_min p + 1)"
  by (simp add: create_tiles_fl_def length_concat comp_def sum_list_const_map mult.commute)

lemma int_cast_id: "- 2147483648 \<le> x \<Longrightarrow> x < 2147483648 \<Longrightarrow> int_cast x = x"
  by (simp add: int_cast_def)

lemma c_span_exact:
  "int_range (hi - lo) \<Longrightarrow> int_range (hi - lo + 1) \<Longrightarrow> c_span lo hi = hi - lo + 1"
  by (simp add: c_span_def int_range_def int_cast_id)

lemma create_defined_spans:
  assumes "create_defined p"
  shows "c_span (hex_q_min p) (hex_q_max p) = hex_q_max p - hex_q_min p + 1"
    and "c_span (hex_r_min p) (hex_r_max p) = hex_r_max p - hex_r_min p + 1"
  using assms by (simp_all add: create_defined_def c_span_exact)

text \<open>
  The exact model of the construction is the rounded one with the identity for \<open>fl\<close>.
\<close>

lemma in_hive_rect_exact: "in_hive_rect p t = in_hive_rect_fl (\<lambda>x. x) p t"
  by (simp add: in_hive_rect_def in_hive_rect_fl_def)

lemma entrance_point_exact: "entrance_point p = entrance_point_fl (\<lambda>x. x) p"
  unfolding entrance_point_def entrance_point_fl_def by (rule refl)

lemma entrance_axial_ok_exact: "entrance_axial_ok p w t = entrance_axial_ok_fl (\<lambda>x. x) p w t"
  unfolding entrance_axial_ok_def entrance_axial_ok_fl_def entrance_point_exact by (rule refl)

lemma entrance_radial_ok_exact: "entrance_radial_ok p w t = entrance_radial_ok_fl (\<lambda>x. x) p w t"
  unfolding entrance_radial_ok_def entrance_radial_ok_fl_def entrance_point_exact by (rule refl)

lemma origin_dist_exact: "origin_dist w t = origin_dist_fl (\<lambda>x. x) w t"
  unfolding origin_dist_def origin_dist_fl_def Let_def by (rule refl)

lemma assign_noise_terrain_exact:
  "assign_noise_terrain w t = assign_noise_terrain_fl (\<lambda>x. x) w t"
  unfolding assign_noise_terrain_def assign_noise_terrain_fl_def flowers_factor_fl_def
    origin_dist_exact by (rule refl)

lemma assign_tile_defaults_exact:
  "assign_tile_defaults ps w t = assign_tile_defaults_fl (\<lambda>x. x) ps w t"
  unfolding assign_tile_defaults_def assign_tile_defaults_fl_def in_hive_rect_exact
    entrance_axial_ok_exact entrance_radial_ok_exact assign_noise_terrain_exact by (rule refl)

lemma create_tile_exact: "create_tile p w q r = create_tile_fl (\<lambda>x. x) p w q r"
  unfolding create_tile_def create_tile_fl_def assign_tile_defaults_exact
  by (simp add: add.commute)

lemma hex_world_create_exact:
  "hex_world_create a world ps = hex_world_create_fl (\<lambda>x. x) a world ps"
proof -
  have ct: "create_tiles p w = create_tiles_fl (\<lambda>x. x) p w" for p w
    by (simp add: create_tiles_def create_tiles_fl_def create_tile_exact)
  show ?thesis
    unfolding hex_world_create_def hex_world_create_fl_def ct by (rule refl)
qed

text \<open>
  When the allocation fails the scalar fields are already written: the world has no tile
  array, but its \<open>count\<close> is the product of the spans.
\<close>

lemma hex_world_create_alloc_failure:
  "hex_world_create_fl fl calloc_never (Some hex_world_zero) (Some example_params)
     = (False, Some example_bare)"
  by (simp add: hex_world_create_fl_def hex_world_init_def hex_world_destroy_def Let_def
      hex_world_zero_def example_params_def example_bare_def calloc_never_def
      int16_cast_def uint16_cast_def c_span_def int_cast_def)

lemma example_bare_count: "count example_bare = 25 \<and> tiles example_bare = None"
  by (simp add: example_bare_def)

text \<open>
  A span that overflows \<^verbatim>\<open>int\<close> wraps around: the bounds \<^verbatim>\<open>INT_MIN\<close> and \<^verbatim>\<open>INT_MAX\<close> give
  the span 0.
\<close>

lemma c_span_wraps: "c_span (- 2147483648) 2147483647 = 0"
  by (simp add: c_span_def int_cast_def)

lemma example_create_defined: "create_defined example_params"
  by (simp add: create_defined_def int_range_def example_params_def)

text \<open>
  C7, as amended. \<^verbatim>\<open>hex_world_create\<close> returns false exactly when the world reference
  is null, when the configuration is present and enabled with a non-positive \<open>q\<close> or \<open>r\<close>
  span, or when the allocation fails. The span is the \<^verbatim>\<open>int\<close> that the code computes,
  \<open>c_span\<close>: it is \<open>max - min + 1\<close> unless that overflows, and an overflowing span wraps
  around. A null configuration, like a disabled one, is not a failure: the call returns
  true and leaves the world empty (\<open>count = 0\<close>, no cells). On non-positive spans the
  world is left empty as well. Whatever the outcome, the world either has no tile array,
  and then the call has failed or the world is the empty one, or, no \<^verbatim>\<open>int\<close> operation
  having overflowed, it has all its \<open>q_span * r_span\<close> cells: a lattice is never
  partially populated. The outcome does not depend on the rounding \<open>fl\<close>.
\<close>

theorem hex_world_create_outcomes:
  "hex_world_create_fl fl a None params = (False, None) \<and>
   hex_world_create_fl fl a (Some w) None = (True, Some hex_world_zero) \<and>
   (\<not> hex_enabled p \<longrightarrow>
      hex_world_create_fl fl a (Some w) (Some p) = (True, Some hex_world_zero)) \<and>
   (hex_enabled p \<and>
      (c_span (hex_q_min p) (hex_q_max p) \<le> 0 \<or> c_span (hex_r_min p) (hex_r_max p) \<le> 0) \<longrightarrow>
      hex_world_create_fl fl a (Some w) (Some p) = (False, Some hex_world_zero)) \<and>
   (hex_enabled p \<and> 0 < c_span (hex_q_min p) (hex_q_max p)
      \<and> 0 < c_span (hex_r_min p) (hex_r_max p) \<longrightarrow>
      fst (hex_world_create_fl fl a (Some w) (Some p))
        = a (nat (c_span (hex_q_min p) (hex_q_max p)) * nat (c_span (hex_r_min p) (hex_r_max p))) \<and>
      (case snd (hex_world_create_fl fl a (Some w) (Some p)) of
         None \<Rightarrow> False
       | Some w' \<Rightarrow>
           (case tiles w' of
              None \<Rightarrow> \<not> fst (hex_world_create_fl fl a (Some w) (Some p))
            | Some ts \<Rightarrow>
                fst (hex_world_create_fl fl a (Some w) (Some p)) \<and>
                (create_defined p \<longrightarrow>
                   length ts = nat (c_span (hex_q_min p) (hex_q_max p))
                                 * nat (c_span (hex_r_min p) (hex_r_max p)))))) \<and>
   (create_defined p \<longrightarrow>
      c_span (hex_q_min p) (hex_q_max p) = hex_q_max p - hex_q_min p + 1 \<and>
      c_span (hex_r_min p) (hex_r_max p) = hex_r_max p - hex_r_min p + 1) \<and>
   count hex_world_zero = 0 \<and> tiles hex_world_zero = None"
proof -
  have z: "count hex_world_zero = 0 \<and> tiles hex_world_zero = None"
    by (simp add: hex_world_zero_def)
  have d: "c_span (hex_q_min p) (hex_q_max p) = hex_q_max p - hex_q_min p + 1 \<and>
      c_span (hex_r_min p) (hex_r_max p) = hex_r_max p - hex_r_min p + 1" if "create_defined p"
    using create_defined_spans [OF that] by simp
  have 1: "hex_world_create_fl fl a None params = (False, None)"
    by (simp add: hex_world_create_fl_def hex_world_init_def hex_world_destroy_def)
  have 2: "hex_world_create_fl fl a (Some w) None = (True, Some hex_world_zero)"
    by (simp add: hex_world_create_fl_def hex_world_init_def hex_world_destroy_def)
  have 3: "hex_world_create_fl fl a (Some w) (Some p) = (True, Some hex_world_zero)"
    if "\<not> hex_enabled p"
    using that by (simp add: hex_world_create_fl_def hex_world_init_def hex_world_destroy_def)
  have 4: "hex_world_create_fl fl a (Some w) (Some p) = (False, Some hex_world_zero)"
    if "hex_enabled p"
      "c_span (hex_q_min p) (hex_q_max p) \<le> 0 \<or> c_span (hex_r_min p) (hex_r_max p) \<le> 0"
    using that
    by (auto simp add: hex_world_create_fl_def hex_world_init_def hex_world_destroy_def Let_def)
  have 5: "fst (hex_world_create_fl fl a (Some w) (Some p))
        = a (nat (c_span (hex_q_min p) (hex_q_max p)) * nat (c_span (hex_r_min p) (hex_r_max p))) \<and>
      (case snd (hex_world_create_fl fl a (Some w) (Some p)) of
         None \<Rightarrow> False
       | Some w' \<Rightarrow>
           (case tiles w' of
              None \<Rightarrow> \<not> fst (hex_world_create_fl fl a (Some w) (Some p))
            | Some ts \<Rightarrow>
                fst (hex_world_create_fl fl a (Some w) (Some p)) \<and>
                (create_defined p \<longrightarrow>
                   length ts = nat (c_span (hex_q_min p) (hex_q_max p))
                                 * nat (c_span (hex_r_min p) (hex_r_max p)))))"
    if "hex_enabled p" "0 < c_span (hex_q_min p) (hex_q_max p)"
      "0 < c_span (hex_r_min p) (hex_r_max p)"
    using that d
    by (auto simp add: hex_world_create_fl_def hex_world_init_def hex_world_destroy_def Let_def
        hex_world_zero_def length_create_tiles_fl)
  show ?thesis
    using z d 1 2 3 4 5 by blast
qed

theorem hex_world_create_outcomes_witness:
  "hex_enabled example_params \<and> create_defined example_params \<and>
   0 < c_span (hex_q_min example_params) (hex_q_max example_params) \<and>
   0 < c_span (hex_r_min example_params) (hex_r_max example_params) \<and>
   fst (hex_world_create_fl round24 calloc_always (Some hex_world_zero) (Some example_params))
     = True \<and>
   fst (hex_world_create_fl round24 calloc_never (Some hex_world_zero) (Some example_params))
     = False \<and>
   hex_world_create_fl round24 calloc_always (Some hex_world_zero)
       (Some (example_params\<lparr>hex_q_max := - 3\<rparr>)) = (False, Some hex_world_zero) \<and>
   hex_world_create_fl round24 calloc_always (Some hex_world_zero)
       (Some (example_params\<lparr>hex_q_min := - 2147483648, hex_q_max := 2147483647\<rparr>))
     = (False, Some hex_world_zero) \<and>
   hex_world_create_fl round24 calloc_always (Some hex_world_zero)
       (Some (example_params\<lparr>hex_enabled := False\<rparr>)) = (True, Some hex_world_zero)"
proof -
  have s: "c_span (hex_q_min example_params) (hex_q_max example_params) = 5"
    "c_span (hex_r_min example_params) (hex_r_max example_params) = 5"
    by (simp_all add: c_span_def int_cast_def example_params_def)
  have e: "hex_enabled example_params"
    by (simp add: example_params_def)
  have t: "fst (hex_world_create_fl round24 calloc_always (Some hex_world_zero)
      (Some example_params)) = True"
    using hex_world_create_outcomes [of round24 calloc_always None hex_world_zero example_params]
      e s by (simp add: calloc_always_def)
  have f: "fst (hex_world_create_fl round24 calloc_never (Some hex_world_zero)
      (Some example_params)) = False"
    using hex_world_create_outcomes [of round24 calloc_never None hex_world_zero example_params]
      e s by (simp add: calloc_never_def)
  have n: "hex_world_create_fl round24 calloc_always (Some hex_world_zero)
       (Some (example_params\<lparr>hex_q_max := - 3\<rparr>)) = (False, Some hex_world_zero)"
    using hex_world_create_outcomes
      [of round24 calloc_always None hex_world_zero "example_params\<lparr>hex_q_max := - 3\<rparr>"]
    by (simp add: example_params_def c_span_def int_cast_def)
  have o: "hex_world_create_fl round24 calloc_always (Some hex_world_zero)
       (Some (example_params\<lparr>hex_q_min := - 2147483648, hex_q_max := 2147483647\<rparr>))
     = (False, Some hex_world_zero)"
    using hex_world_create_outcomes
      [of round24 calloc_always None hex_world_zero
        "example_params\<lparr>hex_q_min := - 2147483648, hex_q_max := 2147483647\<rparr>"]
    by (simp add: example_params_def c_span_wraps)
  have d: "hex_world_create_fl round24 calloc_always (Some hex_world_zero)
       (Some (example_params\<lparr>hex_enabled := False\<rparr>)) = (True, Some hex_world_zero)"
    using hex_world_create_outcomes
      [of round24 calloc_always None hex_world_zero "example_params\<lparr>hex_enabled := False\<rparr>"]
    by (simp add: example_params_def)
  show ?thesis
    using e example_create_defined s t f n o d by simp
qed

text \<open>
  The claim as it stands fails on a null configuration, which \<^verbatim>\<open>hex_world_create\<close>
  answers with \<^verbatim>\<open>true\<close>, not with a failure.
\<close>

theorem hex_world_create_null_params_counterexample:
  "fst (hex_world_create_fl round24 calloc_always (Some hex_world_zero) None) = True"
  by (simp add: hex_world_create_fl_def hex_world_init_def hex_world_destroy_def)

section \<open>The lattice built from a validated configuration\<close>

lemma nth_concat_rows:
  "\<lbrakk>\<forall>row \<in> set rows. length row = n; j < length rows; i < n\<rbrakk>
     \<Longrightarrow> concat rows ! (j * n + i) = rows ! j ! i"
proof (induction rows arbitrary: j)
  case Nil
  then show ?case by simp
next
  case (Cons row rows)
  show ?case
  proof (cases j)
    case 0
    with Cons.prems show ?thesis by (simp add: nth_append)
  next
    case (Suc k)
    with Cons.prems have "concat rows ! (k * n + i) = rows ! k ! i"
      by (intro Cons.IH) auto
    with Suc Cons.prems show ?thesis by (simp add: nth_append)
  qed
qed

lemma nth_create_tiles:
  assumes "hex_q_min p \<le> q" "q \<le> hex_q_max p" "hex_r_min p \<le> r" "r \<le> hex_r_max p"
  shows "create_tiles p w ! (nat (r - hex_r_min p) * nat (hex_q_max p - hex_q_min p + 1)
            + nat (q - hex_q_min p)) = create_tile p w q r"
proof -
  let ?rows = "map (\<lambda>r. map (\<lambda>q. create_tile p w q r) [hex_q_min p..hex_q_max p])
                 [hex_r_min p..hex_r_max p]"
  let ?n = "nat (hex_q_max p - hex_q_min p + 1)"
  have a: "\<forall>row \<in> set ?rows. length row = ?n" by auto
  have b: "nat (r - hex_r_min p) < length ?rows" using assms by simp
  have c: "nat (q - hex_q_min p) < ?n" using assms by simp
  have "concat ?rows ! (nat (r - hex_r_min p) * ?n + nat (q - hex_q_min p))
      = ?rows ! nat (r - hex_r_min p) ! nat (q - hex_q_min p)"
    using nth_concat_rows [OF a b c] .
  also have "\<dots> = create_tile p w q r"
    using assms by simp
  finally show ?thesis by (simp add: create_tiles_def)
qed

lemma assign_noise_terrain_keeps:
  "tile_q (assign_noise_terrain w t) = tile_q t \<and> tile_r (assign_noise_terrain w t) = tile_r t \<and>
   center_x (assign_noise_terrain w t) = center_x t \<and> center_y (assign_noise_terrain w t) = center_y t"
  by (simp add: assign_noise_terrain_def Let_def)

lemma assign_tile_defaults_keeps:
  "tile_q (assign_tile_defaults ps w t) = tile_q t \<and> tile_r (assign_tile_defaults ps w t) = tile_r t \<and>
   center_x (assign_tile_defaults ps w t) = center_x t \<and> center_y (assign_tile_defaults ps w t) = center_y t"
  by (simp add: assign_tile_defaults_def Let_def assign_noise_terrain_keeps split: option.splits)

lemma int16_cast_id: "- 32768 \<le> x \<Longrightarrow> x \<le> 32767 \<Longrightarrow> int16_cast x = x"
  by (simp add: int16_cast_def)

lemma create_tile_coords:
  "tile_q (create_tile p w q r) = int16_cast q \<and> tile_r (create_tile p w q r) = int16_cast r \<and>
   center_x (create_tile p w q r) = origin_x w + (SQRT3 * cell_size w) * (real_of_int q + real_of_int r * 0.5) \<and>
   center_y (create_tile p w q r) = origin_y w + (1.5 * cell_size w) * real_of_int r"
  by (simp add: create_tile_def Let_def assign_tile_defaults_keeps)

lemma hex_world_create_built:
  assumes "hex_params_valid p" "hex_world_create a world (Some p) = (True, Some w)" "tiles w = Some ts"
  shows "hex_enabled p \<and> cell_size w = hex_cell_size p \<and> origin_x w = hex_origin_x p \<and> origin_y w = hex_origin_y p \<and>
     q_min w = hex_q_min p \<and> q_max w = hex_q_max p \<and> r_min w = hex_r_min p \<and> r_max w = hex_r_max p \<and>
     width w = nat (hex_q_max p - hex_q_min p + 1) \<and> height w = nat (hex_r_max p - hex_r_min p + 1) \<and>
     count w = width w * height w \<and> ts = create_tiles p (w\<lparr>tiles := None\<rparr>) \<and>
     0 < cell_size w \<and> - 32768 \<le> q_min w \<and> q_min w \<le> q_max w \<and> q_max w \<le> 32767 \<and>
     - 32768 \<le> r_min w \<and> r_min w \<le> r_max w \<and> r_max w \<le> 32767"
proof -
  have e: "hex_enabled p"
    using assms(2,3)
    by (auto simp add: hex_world_create_def hex_world_init_def hex_world_destroy_def
        hex_world_zero_def split: option.splits if_splits)
  have s: "c_span (hex_q_min p) (hex_q_max p) = hex_q_max p - hex_q_min p + 1"
    "c_span (hex_r_min p) (hex_r_max p) = hex_r_max p - hex_r_min p + 1"
    using assms(1) e by (simp_all add: hex_params_valid_def c_span_exact int_range_def)
  show ?thesis
    using assms e
    by (auto simp add: hex_world_create_def hex_world_init_def hex_world_destroy_def Let_def
        hex_world_zero_def hex_params_valid_def int16_cast_id uint16_cast_def s
        split: option.splits if_splits)
qed

section \<open>Index mapping\<close>

lemma index_inj:
  fixes W :: nat
  assumes "i < W" "i' < W" "j * W + i = j' * W + i'"
  shows "i = i' \<and> j = j'"
proof -
  have "(j * W + i) mod W = (j' * W + i') mod W" using assms(3) by simp
  then have e: "i = i'" using assms(1,2) by simp
  have "(j * W + i) div W = (j' * W + i') div W" using assms(3) by simp
  then have "j = j'" using assms(1,2) by simp
  with e show ?thesis by simp
qed

lemma built_index:
  assumes v: "hex_params_valid p" and c: "hex_world_create a world (Some p) = (True, Some w)"
    and t: "tiles w = Some ts" and b: "in_box w q r"
  shows "hex_world_index (Some w) q r = nat (r - r_min w) * width w + nat (q - q_min w)"
    and "hex_world_index (Some w) q r < length ts"
    and "length ts = count w"
    and "ts ! hex_world_index (Some w) q r = create_tile p (w\<lparr>tiles := None\<rparr>) q r"
    and "hex_world_index (Some w) q r \<noteq> SIZE_MAX"
proof -
  note f = hex_world_create_built [OF v c t]
  let ?W = "nat (hex_q_max p - hex_q_min p + 1)"
  let ?H = "nat (hex_r_max p - hex_r_min p + 1)"
  let ?i = "nat (r - r_min w) * width w + nat (q - q_min w)"
  have qi: "nat (q - q_min w) < ?W" and ri: "nat (r - r_min w) < ?H"
    using f b by (auto simp: in_box_def)
  have len: "length ts = ?W * ?H" using f by (simp add: length_create_tiles)
  have "?i < ?W * ?H"
  proof -
    have "?i < (nat (r - r_min w) + 1) * ?W" using qi f by simp
    also have "\<dots> \<le> ?H * ?W"
    proof -
      have "nat (r - r_min w) + 1 \<le> ?H" using ri by linarith
      then show ?thesis by (rule mult_le_mono1)
    qed
    finally show ?thesis by (simp add: mult.commute)
  qed
  moreover have "?W \<le> 65535" "?H \<le> 65535" using v f by (auto simp: hex_params_valid_def)
  then have "?W * ?H \<le> 65535 * 65535" by (rule mult_le_mono)
  ultimately have small: "?i < 2 ^ 64" and notmax: "?i \<noteq> SIZE_MAX"
    by (simp_all add: SIZE_MAX_def)
  have inb: "hex_world_in_bounds (Some w) q r"
    using b t by (simp add: hex_world_in_bounds_def in_box_def)
  show i: "hex_world_index (Some w) q r = ?i"
    using inb small by (simp add: hex_world_index_def Let_def)
  show "hex_world_index (Some w) q r < length ts"
    using i len \<open>?i < ?W * ?H\<close> by simp
  show "length ts = count w" using len f by simp
  have "create_tiles p (w\<lparr>tiles := None\<rparr>) ! (nat (r - hex_r_min p) * ?W + nat (q - hex_q_min p))
      = create_tile p (w\<lparr>tiles := None\<rparr>) q r"
    using f b by (intro nth_create_tiles) (auto simp: in_box_def)
  then show "ts ! hex_world_index (Some w) q r = create_tile p (w\<lparr>tiles := None\<rparr>) q r"
    using i f by simp
  show "hex_world_index (Some w) q r \<noteq> SIZE_MAX"
    using i notmax by simp
qed

lemma example_params_valid: "hex_params_valid example_params"
  by (simp add: hex_params_valid_def example_params_def)

lemma example_lattice_built:
  "hex_world_create calloc_always (Some hex_world_zero) (Some example_params)
     = (True, Some example_lattice)"
  by (simp add: hex_world_create_def hex_world_init_def hex_world_destroy_def Let_def
      hex_world_zero_def example_params_def example_lattice_def example_bare_def
      calloc_always_def int16_cast_def uint16_cast_def c_span_def int_cast_def)

lemma example_lattice_tiles:
  "tiles example_lattice = Some (create_tiles example_params example_bare)"
  by (simp add: example_lattice_def)

lemma example_lattice_fields:
  "cell_size example_lattice = 48" "origin_x example_lattice = 0" "origin_y example_lattice = 0"
  "q_min example_lattice = - 2" "q_max example_lattice = 2"
  "r_min example_lattice = - 2" "r_max example_lattice = 2"
  "width example_lattice = 5" "height example_lattice = 5" "count example_lattice = 25"
  by (simp_all add: example_lattice_def example_bare_def)

text \<open>
  The validation matters: \<^verbatim>\<open>hex_world_create\<close> itself accepts a span of 65536, which the
  cast to \<^verbatim>\<open>uint16_t\<close> turns into a width of 0.
\<close>

lemma unvalidated_span_width:
  "width (the (snd (hex_world_create calloc_always (Some hex_world_zero)
      (Some (example_params\<lparr>hex_q_min := - 32768, hex_q_max := 32767\<rparr>))))) = 0"
  by (simp add: hex_world_create_def hex_world_init_def hex_world_destroy_def Let_def
      hex_world_zero_def example_params_def calloc_always_def int16_cast_def uint16_cast_def c_span_def int_cast_def)

text \<open>
  C2. For a lattice built by \<^verbatim>\<open>hex_world_create\<close> from a configuration that
  \<^verbatim>\<open>params_validate\<close> accepts: \<open>count = width * height\<close>; for every \<open>(q, r)\<close> in the
  bounding box \<^verbatim>\<open>hex_world_index\<close> returns \<open>(r - r_min) * width + (q - q_min)\<close>, which is
  below \<open>count\<close>, \<^verbatim>\<open>hex_world_tile\<close> returns the tile stored there and that tile's \<open>q\<close>
  and \<open>r\<close> fields are \<open>q\<close> and \<open>r\<close>; two cells of the box with the same index are the
  same cell; and for every \<open>(q, r)\<close> outside the box \<^verbatim>\<open>hex_world_index\<close> returns
  \<^verbatim>\<open>SIZE_MAX\<close> and \<^verbatim>\<open>hex_world_tile\<close> returns \<^verbatim>\<open>NULL\<close>.
\<close>

theorem hex_world_index_bijection:
  assumes v: "hex_params_valid p" and c: "hex_world_create a world (Some p) = (True, Some w)"
    and t: "tiles w = Some ts"
  shows "count w = width w * height w \<and> length ts = count w \<and>
     int (width w) = q_max w - q_min w + 1 \<and> int (height w) = r_max w - r_min w + 1 \<and>
     (in_box w q r \<longrightarrow>
        int (hex_world_index (Some w) q r) = (r - r_min w) * int (width w) + (q - q_min w) \<and>
        hex_world_index (Some w) q r < count w \<and>
        hex_world_index (Some w) q r \<noteq> SIZE_MAX \<and>
        hex_world_tile (Some w) q r = Some (ts ! hex_world_index (Some w) q r) \<and>
        tile_q (ts ! hex_world_index (Some w) q r) = q \<and>
        tile_r (ts ! hex_world_index (Some w) q r) = r) \<and>
     (in_box w q r \<and> in_box w q' r' \<and>
        hex_world_index (Some w) q r = hex_world_index (Some w) q' r' \<longrightarrow> q = q' \<and> r = r') \<and>
     (\<not> in_box w q r \<longrightarrow>
        hex_world_index (Some w) q r = SIZE_MAX \<and> hex_world_tile (Some w) q r = None)"
proof -
  note f = hex_world_create_built [OF v c t]
  have dims: "count w = width w * height w \<and> length ts = count w \<and>
     int (width w) = q_max w - q_min w + 1 \<and> int (height w) = r_max w - r_min w + 1"
    using f by (simp add: length_create_tiles)
  have inside: "int (hex_world_index (Some w) q r) = (r - r_min w) * int (width w) + (q - q_min w) \<and>
        hex_world_index (Some w) q r < count w \<and>
        hex_world_index (Some w) q r \<noteq> SIZE_MAX \<and>
        hex_world_tile (Some w) q r = Some (ts ! hex_world_index (Some w) q r) \<and>
        tile_q (ts ! hex_world_index (Some w) q r) = q \<and>
        tile_r (ts ! hex_world_index (Some w) q r) = r" if b: "in_box w q r"
  proof -
    note i = built_index [OF v c t b]
    have lt: "hex_world_index (Some w) q r < count w" using i by simp
    have ne: "hex_world_index (Some w) q r \<noteq> SIZE_MAX"
      using i(5) .
    have "int (hex_world_index (Some w) q r) = (r - r_min w) * int (width w) + (q - q_min w)"
      using i(1) b by (simp add: in_box_def)
    moreover have "hex_world_tile (Some w) q r = Some (ts ! hex_world_index (Some w) q r)"
      using ne t by (simp add: hex_world_tile_def Let_def)
    moreover have "tile_q (ts ! hex_world_index (Some w) q r) = q"
      "tile_r (ts ! hex_world_index (Some w) q r) = r"
      using i(4) b f by (simp_all add: create_tile_coords int16_cast_id in_box_def)
    ultimately show ?thesis using lt ne by simp
  qed
  have inj: "q = q' \<and> r = r'"
    if b: "in_box w q r" and b': "in_box w q' r'"
      and e: "hex_world_index (Some w) q r = hex_world_index (Some w) q' r'"
  proof -
    have "nat (r - r_min w) * width w + nat (q - q_min w)
        = nat (r' - r_min w) * width w + nat (q' - q_min w)"
      using built_index(1) [OF v c t b] built_index(1) [OF v c t b'] e by simp
    moreover have "nat (q - q_min w) < width w" "nat (q' - q_min w) < width w"
      using f b b' by (auto simp: in_box_def)
    ultimately have "nat (q - q_min w) = nat (q' - q_min w) \<and> nat (r - r_min w) = nat (r' - r_min w)"
      by (intro index_inj) auto
    then show ?thesis using b b' by (auto simp: in_box_def)
  qed
  have outside: "hex_world_index (Some w) q r = SIZE_MAX \<and> hex_world_tile (Some w) q r = None"
    if "\<not> in_box w q r"
    using that t by (auto simp add: hex_world_index_def hex_world_tile_def hex_world_in_bounds_def in_box_def Let_def)
  show ?thesis using dims inside inj outside by blast
qed

theorem hex_world_index_bijection_witness:
  "hex_params_valid example_params \<and>
   hex_world_create calloc_always (Some hex_world_zero) (Some example_params) = (True, Some example_lattice) \<and>
   in_box example_lattice 1 (- 1) \<and>
   hex_world_index (Some example_lattice) 1 (- 1) = 8 \<and>
   (\<exists>t. hex_world_tile (Some example_lattice) 1 (- 1) = Some t \<and> tile_q t = 1 \<and> tile_r t = - 1) \<and>
   \<not> in_box example_lattice 3 0 \<and>
   hex_world_index (Some example_lattice) 3 0 = SIZE_MAX \<and>
   hex_world_tile (Some example_lattice) 3 0 = None"
proof -
  note a = hex_world_index_bijection [OF example_params_valid example_lattice_built example_lattice_tiles]
  have b: "in_box example_lattice 1 (- 1)" "\<not> in_box example_lattice 3 0"
    by (simp_all add: in_box_def example_lattice_fields)
  note a1 = a [where ?q = 1 and ?r = "- 1" and ?q' = 1 and ?r' = "- 1"]
  note a2 = a [where ?q = 3 and ?r = 0 and ?q' = 3 and ?r' = 0]
  have "int (hex_world_index (Some example_lattice) 1 (- 1)) = 8"
    using a1 b(1) by (simp add: example_lattice_fields)
  then have i: "hex_world_index (Some example_lattice) 1 (- 1) = 8"
    by linarith
  have t: "\<exists>t. hex_world_tile (Some example_lattice) 1 (- 1) = Some t \<and> tile_q t = 1 \<and> tile_r t = - 1"
    using a1 b(1) by blast
  have o: "hex_world_index (Some example_lattice) 3 0 = SIZE_MAX \<and>
      hex_world_tile (Some example_lattice) 3 0 = None"
    using a2 b(2) by blast
  show ?thesis
    using b i t o example_params_valid example_lattice_built by blast
qed

section \<open>Terrain assignment: what every branch leaves behind\<close>

lemma clampf_range: "lo \<le> hi \<Longrightarrow> lo \<le> clampf v lo hi \<and> clampf v lo hi \<le> hi"
  by (simp add: clampf_def)

lemma assign_noise_terrain_resources:
  assumes "nectar_capacity t = 0" "nectar_stock t = 0" "nectar_recharge_rate t = 0"
  shows "resource_invariant (assign_noise_terrain w t)"
proof -
  let ?n = "pseudo_noise01 (tile_q t) (tile_r t)"
  let ?c = "clampf (f_0_55 + f_0_4 * (?n - f_0_68)) f_0_35 f_0_95"
  have n: "0 \<le> ?n" using pseudo_noise01_range by simp
  have c: "f_0_35 \<le> ?c \<and> ?c \<le> f_0_95"
    by (rule clampf_range) (simp add: f_0_35_def f_0_95_def)
  then have c01: "0 \<le> ?c" "?c \<le> 1" by (simp_all add: f_0_35_def f_0_95_def)
  have cap: "0 < 240 + 60 * ?n" using n by simp
  have s0: "0 \<le> (240 + 60 * ?n) * ?c" using cap c01 by simp
  have s1: "(240 + 60 * ?n) * ?c \<le> 240 + 60 * ?n"
    using cap c01 mult_left_le [of ?c "240 + 60 * ?n"] by simp
  show ?thesis
    using assms cap s0 s1
    by (simp add: assign_noise_terrain_def resource_invariant_def Let_def f_0_3_def)
qed

lemma assign_tile_defaults_resources: "resource_invariant (assign_tile_defaults ps w t)"
proof (cases ps)
  case None
  then show ?thesis by (simp add: assign_tile_defaults_def resource_invariant_def)
next
  case (Some p)
  let ?t = "t\<lparr>terrain := HEX_TERRAIN_OPEN, nectar_capacity := 0, nectar_stock := 0,
                        nectar_recharge_rate := 0, flow_capacity := 8,
                        flags := HEX_TILE_VISIBLE\<rparr>"
  have "resource_invariant (assign_noise_terrain w ?t)"
    by (rule assign_noise_terrain_resources) simp_all
  then show ?thesis
    using Some by (simp add: assign_tile_defaults_def Let_def resource_invariant_def)
qed

lemma set_create_tiles:
  "t \<in> set (create_tiles p w) \<longleftrightarrow>
     (\<exists>q r. hex_q_min p \<le> q \<and> q \<le> hex_q_max p \<and> hex_r_min p \<le> r \<and> r \<le> hex_r_max p \<and>
            t = create_tile p w q r)"
proof
  assume "t \<in> set (create_tiles p w)"
  then obtain r q where "r \<in> {hex_r_min p..hex_r_max p}" "q \<in> {hex_q_min p..hex_q_max p}"
      "t = create_tile p w q r"
    by (auto simp add: create_tiles_def)
  then show "\<exists>q r. hex_q_min p \<le> q \<and> q \<le> hex_q_max p \<and> hex_r_min p \<le> r \<and> r \<le> hex_r_max p \<and>
            t = create_tile p w q r"
    by (intro exI [of _ q] exI [of _ r]) simp
next
  assume "\<exists>q r. hex_q_min p \<le> q \<and> q \<le> hex_q_max p \<and> hex_r_min p \<le> r \<and> r \<le> hex_r_max p \<and>
            t = create_tile p w q r"
  then obtain q r where "q \<in> {hex_q_min p..hex_q_max p}" "r \<in> {hex_r_min p..hex_r_max p}"
      "t = create_tile p w q r"
    by auto
  then have m: "q \<in> set [hex_q_min p..hex_q_max p]" "r \<in> set [hex_r_min p..hex_r_max p]"
    and e: "t = create_tile p w q r"
    by simp_all
  have "t \<in> set (map (\<lambda>q. create_tile p w q r) [hex_q_min p..hex_q_max p])"
    unfolding set_map e using m(1) by (rule imageI)
  moreover have "map (\<lambda>q. create_tile p w q r) [hex_q_min p..hex_q_max p]
      \<in> set (map (\<lambda>r. map (\<lambda>q. create_tile p w q r) [hex_q_min p..hex_q_max p])
               [hex_r_min p..hex_r_max p])"
    unfolding set_map using m(2) by (rule imageI)
  ultimately have "\<exists>row \<in> set (map (\<lambda>r. map (\<lambda>q. create_tile p w q r) [hex_q_min p..hex_q_max p])
               [hex_r_min p..hex_r_max p]). t \<in> set row"
    by (rule bexI)
  then show "t \<in> set (create_tiles p w)"
    unfolding create_tiles_def set_concat by blast
qed

lemma hex_world_create_tiles:
  assumes "hex_world_create a world ps = (ok, Some w)" "tiles w = Some ts"
  shows "\<exists>p. ps = Some p \<and> ts = create_tiles p (w\<lparr>tiles := None\<rparr>) \<and>
     cell_size w = hex_cell_size p \<and> origin_x w = hex_origin_x p \<and> origin_y w = hex_origin_y p"
  using assms
  by (auto simp add: hex_world_create_def hex_world_init_def hex_world_destroy_def Let_def
      hex_world_zero_def split: option.splits if_splits)

lemma create_tile_assign:
  "create_tile p w q r = assign_tile_defaults (Some p) w
     (zero_tile\<lparr>tile_q := int16_cast q, tile_r := int16_cast r,
        center_x := origin_x w + (SQRT3 * cell_size w) * (real_of_int q + real_of_int r * 0.5),
        center_y := origin_y w + (1.5 * cell_size w) * real_of_int r\<rparr>)"
  by (simp add: create_tile_def Let_def)

lemma in_hive_rect_cong: "center_x t = center_x t' \<Longrightarrow> center_y t = center_y t' \<Longrightarrow> in_hive_rect p t = in_hive_rect p t'"
  by (simp add: in_hive_rect_def)

lemma entrance_axial_ok_cong:
  "center_x t = center_x t' \<Longrightarrow> center_y t = center_y t' \<Longrightarrow> cell_size w = cell_size w' \<Longrightarrow>
   entrance_axial_ok p w t = entrance_axial_ok p w' t'"
  by (simp add: entrance_axial_ok_def)

lemma entrance_radial_ok_cong:
  "center_x t = center_x t' \<Longrightarrow> center_y t = center_y t' \<Longrightarrow> cell_size w = cell_size w' \<Longrightarrow>
   entrance_radial_ok p w t = entrance_radial_ok p w' t'"
  by (simp add: entrance_radial_ok_def)

lemma assign_precedence:
  assumes "hive_enabled p"
  shows "(in_hive_rect p t0 \<longrightarrow> terrain (assign_tile_defaults (Some p) w t0) = HEX_TERRAIN_HIVE) \<and>
     (\<not> in_hive_rect p t0 \<and> entrance_axial_ok p w t0 \<and> entrance_radial_ok p w t0 \<longrightarrow>
        terrain (assign_tile_defaults (Some p) w t0) = HEX_TERRAIN_ENTRANCE)"
proof -
  let ?t = "t0\<lparr>terrain := HEX_TERRAIN_OPEN, nectar_capacity := 0, nectar_stock := 0,
                        nectar_recharge_rate := 0, flow_capacity := 8,
                        flags := HEX_TILE_VISIBLE\<rparr>"
  have "in_hive_rect p ?t = in_hive_rect p t0" by (rule in_hive_rect_cong) simp_all
  moreover have "entrance_axial_ok p w ?t = entrance_axial_ok p w t0"
    by (rule entrance_axial_ok_cong) simp_all
  moreover have "entrance_radial_ok p w ?t = entrance_radial_ok p w t0"
    by (rule entrance_radial_ok_cong) simp_all
  ultimately show ?thesis
    using assms by (simp add: assign_tile_defaults_def Let_def)
qed

subsection \<open>Three built lattices\<close>

lemma create_tile_mem:
  "hex_q_min p \<le> q \<Longrightarrow> q \<le> hex_q_max p \<Longrightarrow> hex_r_min p \<le> r \<Longrightarrow> r \<le> hex_r_max p \<Longrightarrow>
   create_tile p w q r \<in> set (create_tiles p w)"
  unfolding set_create_tiles by blast

lemma colony_lattice_built:
  "hex_world_create calloc_always (Some hex_world_zero) (Some colony_params)
     = (True, Some colony_lattice)"
  by (simp add: hex_world_create_def hex_world_init_def hex_world_destroy_def Let_def
      hex_world_zero_def colony_params_def colony_lattice_def colony_bare_def
      calloc_always_def int16_cast_def uint16_cast_def c_span_def int_cast_def)

lemma noise_hash_0_0: "unat (noise_hash 0 0) = 0"
  unfolding noise_hash_unat by (simp add: Let_def)

lemma noise_hash_0_m1: "unat (noise_hash 0 (- 1)) = 4242659764"
  unfolding noise_hash_unat by (simp add: Let_def)

lemma noise_hash_0_8: "unat (noise_hash 0 8) = 2765167080"
  unfolding noise_hash_unat by (simp add: Let_def)

lemma noise_hash_m2_2: "unat (noise_hash (- 2) 2) = 3425193887"
  unfolding noise_hash_unat by (simp add: Let_def)

lemma noise_0_0: "pseudo_noise01 0 0 = 0"
  unfolding pseudo_noise01_unat noise_hash_0_0 by simp

lemma noise_0_m1: "pseudo_noise01 0 (- 1) = 14801332 / 16777216"
  unfolding pseudo_noise01_unat noise_hash_0_m1 by simp

lemma noise_m2_2: "pseudo_noise01 (- 2) 2 = 2641823 / 16777216"
  unfolding pseudo_noise01_unat noise_hash_m2_2 by simp

lemma colony_lattice_tiles:
  "tiles colony_lattice = Some (create_tiles colony_params colony_bare)"
  by (simp add: colony_lattice_def)

lemma colony_hive_enabled: "hive_enabled colony_params"
  by (simp add: hive_enabled_def colony_params_def)

lemma colony_entrance_point: "entrance_point colony_params = (50, 100)"
  by (simp add: entrance_point_def colony_params_def clampf_def Let_def)

lemma colony_centres:
  "center_x (create_tile colony_params colony_bare 0 0) = 50"
  "center_y (create_tile colony_params colony_bare 0 0) = 110"
  "center_x (create_tile colony_params colony_bare 0 (- 1)) = 50 - 24 * SQRT3"
  "center_y (create_tile colony_params colony_bare 0 (- 1)) = 38"
  by (simp_all add: create_tile_coords colony_bare_def)

subsection \<open>Colony precedence\<close>

text \<open>
  C3. When colony placement is active (\<open>rect_w > 0\<close> and \<open>rect_h > 0\<close>), every cell of a
  lattice built by \<^verbatim>\<open>hex_world_create\<close> whose centre passes the rectangle test
  (\<open>rect_x \<le> x \<le> rect_x + rect_w\<close> and \<open>rect_y \<le> y \<le> rect_y + rect_h\<close>) is Hive terrain,
  and every cell that fails it but passes both the axial and the radial entrance test is
  Entrance terrain. Neither conclusion looks at the noise value of the cell: in the
  witness the Hive cell has noise above 0.68 and the Entrance cell has noise 0, which
  would make it Water.
\<close>

theorem colony_precedence:
  assumes c: "hex_world_create a world ps = (ok, Some w)" and ts: "tiles w = Some ts"
    and t: "t \<in> set ts" and p: "ps = Some p" and h: "hive_enabled p"
  shows "(in_hive_rect p t \<longrightarrow> terrain t = HEX_TERRAIN_HIVE) \<and>
     (\<not> in_hive_rect p t \<and> entrance_axial_ok p w t \<and> entrance_radial_ok p w t \<longrightarrow>
        terrain t = HEX_TERRAIN_ENTRANCE)"
proof -
  have "ts = create_tiles p (w\<lparr>tiles := None\<rparr>)"
    using hex_world_create_tiles [OF c ts] p by auto
  then obtain q r where tq: "t = create_tile p (w\<lparr>tiles := None\<rparr>) q r"
    using t by (auto simp: set_create_tiles)
  let ?w = "w\<lparr>tiles := None\<rparr>"
  let ?t0 = "zero_tile\<lparr>tile_q := int16_cast q, tile_r := int16_cast r,
        center_x := origin_x ?w + (SQRT3 * cell_size ?w) * (real_of_int q + real_of_int r * 0.5),
        center_y := origin_y ?w + (1.5 * cell_size ?w) * real_of_int r\<rparr>"
  have e: "t = assign_tile_defaults (Some p) ?w ?t0"
    unfolding tq by (rule create_tile_assign)
  have k: "center_x t = center_x ?t0" "center_y t = center_y ?t0"
    unfolding e using assign_tile_defaults_keeps [of "Some p" ?w ?t0] by simp_all
  have 1: "in_hive_rect p t = in_hive_rect p ?t0"
    using k by (rule in_hive_rect_cong)
  have 2: "entrance_axial_ok p w t = entrance_axial_ok p ?w ?t0"
    using k by (rule entrance_axial_ok_cong) simp
  have 3: "entrance_radial_ok p w t = entrance_radial_ok p ?w ?t0"
    using k by (rule entrance_radial_ok_cong) simp
  show ?thesis
    unfolding 1 2 3 unfolding e by (rule assign_precedence [OF h])
qed

theorem colony_precedence_witness:
  "hex_world_create calloc_always (Some hex_world_zero) (Some colony_params)
     = (True, Some colony_lattice) \<and>
   tiles colony_lattice = Some (create_tiles colony_params colony_bare) \<and>
   hive_enabled colony_params \<and>
   create_tile colony_params colony_bare 0 (- 1) \<in> set (create_tiles colony_params colony_bare) \<and>
   in_hive_rect colony_params (create_tile colony_params colony_bare 0 (- 1)) \<and>
   terrain (create_tile colony_params colony_bare 0 (- 1)) = HEX_TERRAIN_HIVE \<and>
   create_tile colony_params colony_bare 0 0 \<in> set (create_tiles colony_params colony_bare) \<and>
   \<not> in_hive_rect colony_params (create_tile colony_params colony_bare 0 0) \<and>
   entrance_axial_ok colony_params colony_lattice (create_tile colony_params colony_bare 0 0) \<and>
   entrance_radial_ok colony_params colony_lattice (create_tile colony_params colony_bare 0 0) \<and>
   terrain (create_tile colony_params colony_bare 0 0) = HEX_TERRAIN_ENTRANCE \<and>
   pseudo_noise01 0 0 < f_0_04"
proof -
  have m: "create_tile colony_params colony_bare 0 (- 1) \<in> set (create_tiles colony_params colony_bare)"
    "create_tile colony_params colony_bare 0 0 \<in> set (create_tiles colony_params colony_bare)"
    by (rule create_tile_mem; simp add: colony_params_def)+
  have r1: "in_hive_rect colony_params (create_tile colony_params colony_bare 0 (- 1))"
    by (simp add: in_hive_rect_def colony_centres) (simp add: colony_params_def SQRT3_def)
  have r2: "\<not> in_hive_rect colony_params (create_tile colony_params colony_bare 0 0)"
    by (simp add: in_hive_rect_def colony_centres) (simp add: colony_params_def)
  have ax: "entrance_axial_ok colony_params colony_lattice (create_tile colony_params colony_bare 0 0)"
    by (simp add: entrance_axial_ok_def colony_centres colony_entrance_point Let_def)
      (simp add: colony_params_def)
  have "sqrt 100 \<le> 10"
    by (rule real_le_lsqrt) simp_all
  then have ra: "entrance_radial_ok colony_params colony_lattice (create_tile colony_params colony_bare 0 0)"
    by (simp add: entrance_radial_ok_def colony_centres colony_entrance_point Let_def)
      (simp add: colony_params_def)
  note a = colony_precedence [OF colony_lattice_built colony_lattice_tiles _ refl colony_hive_enabled]
  have h: "terrain (create_tile colony_params colony_bare 0 (- 1)) = HEX_TERRAIN_HIVE"
    using a [OF m(1)] r1 by blast
  have e: "terrain (create_tile colony_params colony_bare 0 0) = HEX_TERRAIN_ENTRANCE"
    using a [OF m(2)] r2 ax ra by blast
  have n: "pseudo_noise01 0 0 < f_0_04"
    by (simp add: noise_0_0 f_0_04_def)
  show ?thesis
    using colony_lattice_built colony_lattice_tiles colony_hive_enabled m r1 r2 ax ra h e n
    by blast
qed

subsection \<open>Resource invariant\<close>

text \<open>
  C4. Whatever tile, world and configuration \<^verbatim>\<open>assign_tile_defaults\<close> is given, and so
  in every branch of the classification, the tile it leaves satisfies
  \<open>0 \<le> nectar_stock \<le> nectar_capacity\<close>, and \<open>nectar_capacity = 0\<close> implies
  \<open>nectar_stock = 0\<close> and \<open>nectar_recharge_rate = 0\<close>. Hence every cell of every lattice
  that \<^verbatim>\<open>hex_world_create\<close> returns satisfies it.
\<close>

theorem resource_invariant_generated:
  "resource_invariant (assign_tile_defaults ps w0 t0) \<and>
   (hex_world_create a world ps = (ok, Some w) \<and> tiles w = Some ts \<and> t \<in> set ts \<longrightarrow>
      0 \<le> nectar_stock t \<and> nectar_stock t \<le> nectar_capacity t \<and>
      (nectar_capacity t = 0 \<longrightarrow> nectar_stock t = 0 \<and> nectar_recharge_rate t = 0))"
proof -
  have "resource_invariant t"
    if c: "hex_world_create a world ps = (ok, Some w)" and ts: "tiles w = Some ts" and t: "t \<in> set ts"
  proof -
    obtain p where "ts = create_tiles p (w\<lparr>tiles := None\<rparr>)"
      using hex_world_create_tiles [OF c ts] by blast
    then obtain q r where "t = create_tile p (w\<lparr>tiles := None\<rparr>) q r"
      using t by (auto simp: set_create_tiles)
    then show ?thesis
      by (simp add: create_tile_def Let_def assign_tile_defaults_resources)
  qed
  then show ?thesis
    using assign_tile_defaults_resources [of ps w0 t0] by (auto simp: resource_invariant_def)
qed

theorem resource_invariant_generated_witness:
  "hex_world_create calloc_always (Some hex_world_zero) (Some example_params)
     = (True, Some example_lattice) \<and>
   tiles example_lattice = Some (create_tiles example_params example_bare) \<and>
   create_tile example_params example_bare (- 2) 2 \<in> set (create_tiles example_params example_bare) \<and>
   terrain (create_tile example_params example_bare (- 2) 2) = HEX_TERRAIN_FOREST \<and>
   nectar_capacity (create_tile example_params example_bare (- 2) 2) = 30 \<and>
   0 \<le> nectar_stock (create_tile example_params example_bare (- 2) 2) \<and>
   nectar_stock (create_tile example_params example_bare (- 2) 2)
     \<le> nectar_capacity (create_tile example_params example_bare (- 2) 2)"
proof -
  have m: "create_tile example_params example_bare (- 2) 2
      \<in> set (create_tiles example_params example_bare)"
    by (rule create_tile_mem) (simp_all add: example_params_def)
  have v: "terrain (create_tile example_params example_bare (- 2) 2) = HEX_TERRAIN_FOREST"
    "nectar_capacity (create_tile example_params example_bare (- 2) 2) = 30"
    by (simp_all add: create_tile_def assign_tile_defaults_def assign_noise_terrain_def Let_def
        hive_enabled_def example_params_def zero_tile_def int16_cast_def noise_m2_2
        f_0_68_def f_0_04_def f_0_08_def f_0_18_def)
  show ?thesis
    using resource_invariant_generated [of "Some example_params" example_bare zero_tile calloc_always "Some hex_world_zero"
        True example_lattice "create_tiles example_params example_bare"
        "create_tile example_params example_bare (- 2) 2"]
      example_lattice_built example_lattice_tiles m v
    by simp
qed

section \<open>Round trip\<close>

lemma lrintf_near:
  assumes "\<bar>x - of_int n\<bar> < 1 / 2"
  shows "lrintf x = n"
proof (cases "of_int n \<le> x")
  case True
  then have "\<lfloor>x\<rfloor> = n" using assms by (intro floor_unique) auto
  then show ?thesis using assms True by (simp add: lrintf_def Let_def)
next
  case False
  then have f: "\<lfloor>x\<rfloor> = n - 1" using assms by (intro floor_unique) auto
  have "x - of_int (n - 1) > 1 / 2" using assms False by simp
  then show ?thesis using f by (simp add: lrintf_def Let_def)
qed

lemma round_coord_near:
  assumes "\<bar>d\<bar> < 1 / 2" "- 2147483648 \<le> n" "n < 2147483648"
  shows "round_coord (of_int n + d) = n" "round_diff (of_int n + d) = \<bar>d\<bar>"
proof -
  have "lrintf (of_int n + d) = n" using assms(1) by (intro lrintf_near) simp
  then show c: "round_coord (of_int n + d) = n"
    using assms(2,3) by (simp add: round_coord_def int_cast_id)
  show "round_diff (of_int n + d) = \<bar>d\<bar>"
    unfolding round_diff_def c by simp
qed

lemma hex_axial_round_near:
  assumes d: "\<bar>d\<bar> < 1 / 2" and q: "\<bar>q\<bar> \<le> 32768" and r: "\<bar>r\<bar> \<le> 32768"
  shows "hex_axial_round (of_int q + d) (of_int r) = (q, r)"
proof -
  have qq: "round_coord (of_int q + d) = q" "round_diff (of_int q + d) = \<bar>d\<bar>"
    using round_coord_near [OF d, of q] q by auto
  have rr: "round_coord (of_int r) = r" "round_diff (of_int r) = 0"
    using round_coord_near [of 0 r] r by auto
  have s: "- (of_int q + d) - of_int r = of_int (- q - r) + (- d)" by simp
  have ss: "round_diff (- (of_int q + d) - of_int r) = \<bar>d\<bar>"
    unfolding s using round_coord_near(2) [of "- d" "- q - r"] d q r by auto
  have sc: "round_coord (- (of_int q + d) - of_int r) = - q - r"
    unfolding s using round_coord_near(1) [of "- d" "- q - r"] d q r by auto
  show ?thesis
    unfolding hex_axial_round_def Let_def qq rr ss sc by simp
qed

lemma round_trip_fractional:
  assumes "0 < cell_size w" "tiles w = Some ts"
  shows "hex_world_to_axial_f (Some w) (fst (hex_axial_to_world (Some w) q r))
           (snd (hex_axial_to_world (Some w) q r))
     = (of_int q + sqrt3_excess * (of_int q + of_int r / 2), of_int r)"
  using assms
  by (simp add: hex_world_to_axial_f_def hex_axial_to_world_def sqrt3_excess_def field_simps)

lemma sqrt3_excess_small:
  assumes "\<bar>q\<bar> \<le> 32768" "\<bar>r\<bar> \<le> 32768"
  shows "\<bar>sqrt3_excess * (of_int q + of_int r / 2)\<bar> < 1 / 2"
proof -
  have e: "\<bar>sqrt3_excess\<bar> \<le> 1 / 10000000"
    by (simp add: sqrt3_excess_def SQRT3_def)
  have "\<bar>real_of_int q\<bar> \<le> 32768" "\<bar>real_of_int r\<bar> \<le> 32768"
    using assms by linarith+
  then have b: "\<bar>real_of_int q + real_of_int r / 2\<bar> \<le> 49152" by linarith
  have "\<bar>sqrt3_excess * (of_int q + of_int r / 2)\<bar> = \<bar>sqrt3_excess\<bar> * \<bar>of_int q + of_int r / 2\<bar>"
    by (rule abs_mult)
  also have "\<dots> \<le> (1 / 10000000) * 49152"
    using e b by (intro mult_mono) auto
  also have "\<dots> < 1 / 2" by simp
  finally show ?thesis .
qed

subsection \<open>Rounding to 24 bits\<close>

lemma lrintf_err: "\<bar>real_of_int (lrintf t) - t\<bar> \<le> 1 / 2"
proof -
  have "real_of_int \<lfloor>t\<rfloor> \<le> t" "t < real_of_int \<lfloor>t\<rfloor> + 1" by linarith+
  then show ?thesis by (auto simp add: lrintf_def Let_def)
qed

lemma round24_zero: "round24 0 = 0"
  by (simp add: round24_def)

lemma round24_rel: "\<bar>round24 x - x\<bar> \<le> \<bar>x\<bar> / 16777216"
proof (cases "x = 0")
  case True
  then show ?thesis by (simp add: round24_def)
next
  case False
  define k where "k = \<lfloor>log 2 \<bar>x\<bar>\<rfloor>"
  define ulp where "ulp = 2 powr real_of_int (k - 23)"
  have pos: "0 < \<bar>x\<bar>" using False by simp
  have "2 powr real_of_int k \<le> \<bar>x\<bar>"
    using floor_log_eq_powr_iff [of "\<bar>x\<bar>" 2 k] pos by (simp add: k_def)
  moreover have "2 powr real_of_int k = ulp * 8388608"
    by (simp add: ulp_def powr_diff)
  ultimately have u: "ulp * 8388608 \<le> \<bar>x\<bar>" by simp
  have up: "0 < ulp" by (simp add: ulp_def)
  have r: "round24 x = real_of_int (lrintf (x / ulp)) * ulp"
    using False by (simp add: round24_def Let_def k_def ulp_def)
  have "round24 x - x = (real_of_int (lrintf (x / ulp)) - x / ulp) * ulp"
    unfolding r using up by (simp add: field_simps)
  then have "\<bar>round24 x - x\<bar> = \<bar>real_of_int (lrintf (x / ulp)) - x / ulp\<bar> * ulp"
    using up by (simp add: abs_mult)
  also have "\<dots> \<le> (1 / 2) * ulp"
    using lrintf_err [of "x / ulp"] up by (intro mult_right_mono) auto
  also have "\<dots> \<le> \<bar>x\<bar> / 16777216" using u by simp
  finally show ?thesis .
qed

lemma round24_small:
  assumes "8388608 \<le> \<bar>x\<bar> * 2 ^ n" "\<bar>x\<bar> * 2 ^ n < 16777216"
  shows "round24 x = real_of_int (lrintf (x * 2 ^ n)) / 2 ^ n"
proof -
  have nz: "x \<noteq> 0" using assms by auto
  have "2 powr real_of_int (23 - int n) \<le> \<bar>x\<bar> \<and> \<bar>x\<bar> < 2 powr (real_of_int (23 - int n) + 1)"
    using assms by (simp add: powr_diff powr_add powr_realpow field_simps)
  then have "\<lfloor>log 2 \<bar>x\<bar>\<rfloor> = 23 - int n"
    using floor_log_eq_powr_iff [of "\<bar>x\<bar>" 2 "23 - int n"] nz by simp
  then have "real_of_int (\<lfloor>log 2 \<bar>x\<bar>\<rfloor> - 23) = - real n"
    by simp
  then have u: "2 powr real_of_int (\<lfloor>log 2 \<bar>x\<bar>\<rfloor> - 23) = 1 / 2 ^ n"
    by (simp only: powr_minus powr_realpow) (simp add: powr_realpow divide_inverse)
  show ?thesis
    using nz unfolding round24_def Let_def u by simp
qed

lemma round24_large:
  assumes "8388608 * 2 ^ n \<le> \<bar>x\<bar>" "\<bar>x\<bar> < 16777216 * 2 ^ n"
  shows "round24 x = real_of_int (lrintf (x / 2 ^ n)) * 2 ^ n"
proof -
  have nz: "x \<noteq> 0" using assms by auto
  have "2 powr real_of_int (23 + int n) \<le> \<bar>x\<bar> \<and> \<bar>x\<bar> < 2 powr (real_of_int (23 + int n) + 1)"
    using assms by (simp add: powr_add powr_realpow field_simps)
  then have "\<lfloor>log 2 \<bar>x\<bar>\<rfloor> = 23 + int n"
    using floor_log_eq_powr_iff [of "\<bar>x\<bar>" 2 "23 + int n"] nz by simp
  then have "real_of_int (\<lfloor>log 2 \<bar>x\<bar>\<rfloor> - 23) = real n"
    by simp
  then have u: "2 powr real_of_int (\<lfloor>log 2 \<bar>x\<bar>\<rfloor> - 23) = 2 ^ n"
    by (simp only: powr_realpow)
  show ?thesis
    using nz unfolding round24_def Let_def u by simp
qed
lemma round24_ok: "\<forall>x. \<bar>round24 x - x\<bar> \<le> \<bar>x\<bar> / 16777216"
  using round24_rel by blast

text \<open>
  The results of \<open>round24\<close> are the numbers \<open>m * 2^e\<close> with \<open>|m| \<le> 2^24\<close>, and \<open>round24\<close>
  leaves each of them as it is. For such a number \<open>x\<close> the nearest integer and its
  distance from \<open>x\<close> are again of this kind: converting \<^verbatim>\<open>lrintf(x)\<close> back to \<^verbatim>\<open>float\<close> and
  subtracting \<open>x\<close> are exact operations.
\<close>

lemma lrintf_of_int: "lrintf (real_of_int n) = n"
  by (simp add: lrintf_def)

lemma lrintf_bound:
  assumes "\<bar>x\<bar> \<le> real_of_int n"
  shows "\<bar>lrintf x\<bar> \<le> n"
proof -
  have "\<bar>real_of_int (lrintf x) - x\<bar> \<le> 1 / 2" by (rule lrintf_err)
  then have "\<bar>real_of_int (lrintf x)\<bar> \<le> real_of_int n + 1 / 2" using assms by linarith
  then have "real_of_int \<bar>lrintf x\<bar> < real_of_int (n + 1)" by simp
  then have "\<bar>lrintf x\<bar> < n + 1" by (simp only: of_int_less_iff)
  then show ?thesis by simp
qed

lemma round24_repr:
  "\<exists>m e. \<bar>m\<bar> \<le> 16777216 \<and> round24 x = real_of_int m * 2 powr real_of_int e"
proof (cases "x = 0")
  case True
  have "\<bar>0::int\<bar> \<le> 16777216 \<and> round24 x = real_of_int 0 * 2 powr real_of_int 0"
    using True by (simp add: round24_def)
  then show ?thesis by blast
next
  case False
  define k where "k = \<lfloor>log 2 \<bar>x\<bar>\<rfloor>"
  define ulp where "ulp = 2 powr real_of_int (k - 23)"
  have pos: "0 < \<bar>x\<bar>" using False by simp
  have "\<bar>x\<bar> < 2 powr (real_of_int k + 1)"
    using floor_log_eq_powr_iff [of "\<bar>x\<bar>" 2 k] pos by (simp add: k_def)
  moreover have "2 powr (real_of_int k + 1) = ulp * 16777216"
    by (simp add: ulp_def powr_diff powr_add)
  ultimately have u: "\<bar>x\<bar> < ulp * 16777216" by simp
  have up: "0 < ulp" by (simp add: ulp_def)
  have "\<bar>x / ulp\<bar> = \<bar>x\<bar> / ulp" using up by simp
  also have "\<dots> < 16777216" using u up by (simp add: field_simps)
  finally have "\<bar>x / ulp\<bar> \<le> real_of_int 16777216" by simp
  then have b: "\<bar>lrintf (x / ulp)\<bar> \<le> 16777216" by (rule lrintf_bound)
  have r: "round24 x = real_of_int (lrintf (x / ulp)) * 2 powr real_of_int (k - 23)"
    using False by (simp add: round24_def Let_def k_def ulp_def)
  show ?thesis using b r by blast
qed

lemma round24_fix_strict:
  assumes m: "\<bar>m\<bar> < 16777216"
  shows "round24 (real_of_int m * 2 powr real_of_int e) = real_of_int m * 2 powr real_of_int e"
proof (cases "m = 0")
  case True
  then show ?thesis by (simp add: round24_def)
next
  case False
  define x where "x = real_of_int m * 2 powr real_of_int e"
  define j where "j = \<lfloor>log 2 \<bar>real_of_int m\<bar>\<rfloor>"
  have mpos: "0 < \<bar>real_of_int m\<bar>" using False by simp
  have m1: "1 \<le> \<bar>real_of_int m\<bar>" using False by (simp flip: of_int_abs)
  have m2: "\<bar>real_of_int m\<bar> < 16777216" using m by (simp flip: of_int_abs)
  have jl: "2 powr real_of_int j \<le> \<bar>real_of_int m\<bar>"
    and ju: "\<bar>real_of_int m\<bar> < 2 powr (real_of_int j + 1)"
    using floor_log_eq_powr_iff [of "\<bar>real_of_int m\<bar>" 2 j] mpos by (simp_all add: j_def)
  have j0: "0 \<le> j"
  proof (rule ccontr)
    assume "\<not> 0 \<le> j"
    then have "real_of_int j + 1 \<le> 0" by linarith
    then have "2 powr (real_of_int j + 1) \<le> 2 powr 0" by (intro powr_mono) auto
    then show False using ju m1 by simp
  qed
  have j23: "j \<le> 23"
  proof (rule ccontr)
    assume "\<not> j \<le> 23"
    then have "24 \<le> real_of_int j" by linarith
    then have "2 powr 24 \<le> 2 powr real_of_int j" by (intro powr_mono) auto
    moreover have "(2::real) powr 24 = 16777216"
      using powr_realpow [of 2 24] by simp
    ultimately show False using jl m2 by linarith
  qed
  have ax: "\<bar>x\<bar> = \<bar>real_of_int m\<bar> * 2 powr real_of_int e"
    by (simp add: x_def abs_mult)
  have xnz: "x \<noteq> 0" using False by (simp add: x_def)
  have "2 powr real_of_int (j + e) \<le> \<bar>x\<bar>"
    unfolding ax using jl by (simp add: powr_add)
  moreover have "\<bar>x\<bar> < 2 powr (real_of_int (j + e) + 1)"
  proof -
    have "\<bar>real_of_int m\<bar> * 2 powr real_of_int e < 2 powr (real_of_int j + 1) * 2 powr real_of_int e"
      using ju by simp
    also have "\<dots> = 2 powr (real_of_int (j + e) + 1)"
      by (simp add: powr_add)
    finally show ?thesis unfolding ax .
  qed
  ultimately have fl: "\<lfloor>log 2 \<bar>x\<bar>\<rfloor> = j + e"
    using floor_log_eq_powr_iff [of "\<bar>x\<bar>" 2 "j + e"] xnz by simp
  define ulp where "ulp = 2 powr real_of_int (j + e - 23)"
  have up: "0 < ulp" by (simp add: ulp_def)
  have p: "2 powr real_of_int (23 - j) = real_of_int (2 ^ nat (23 - j))"
  proof -
    have "real_of_int (23 - j) = real (nat (23 - j))" using j23 by simp
    then have "2 powr real_of_int (23 - j) = 2 ^ nat (23 - j)"
      by (simp only: powr_realpow)
    then show ?thesis by simp
  qed
  have split: "2 powr real_of_int e = 2 powr real_of_int (23 - j) * ulp"
    unfolding ulp_def by (simp flip: powr_add)
  have q: "x / ulp = real_of_int (m * 2 ^ nat (23 - j))"
  proof -
    have "x / ulp = real_of_int m * 2 powr real_of_int (23 - j)"
      unfolding x_def split using up by simp
    then show ?thesis unfolding p by simp
  qed
  have "round24 x = real_of_int (lrintf (x / ulp)) * ulp"
    using xnz by (simp add: round24_def Let_def fl ulp_def)
  also have "\<dots> = real_of_int (m * 2 ^ nat (23 - j)) * ulp"
    unfolding q lrintf_of_int by (rule refl)
  also have "\<dots> = (x / ulp) * ulp" unfolding q by (rule refl)
  also have "\<dots> = x" using up by simp
  finally show ?thesis unfolding x_def .
qed

lemma round24_fix:
  assumes m: "\<bar>m\<bar> \<le> 16777216"
  shows "round24 (real_of_int m * 2 powr real_of_int e) = real_of_int m * 2 powr real_of_int e"
proof (cases "\<bar>m\<bar> < 16777216")
  case True
  then show ?thesis by (rule round24_fix_strict)
next
  case False
  then have "m = 16777216 \<or> m = - 16777216" using m by linarith
  then obtain h :: int where h: "m = 2 * h" "\<bar>h\<bar> < 16777216" by auto
  have "real_of_int m * 2 powr real_of_int e = real_of_int h * 2 powr real_of_int (e + 1)"
    unfolding h(1) by (simp add: powr_add)
  then show ?thesis using round24_fix_strict [OF h(2), of "e + 1"] by simp
qed

lemma round24_idem: "round24 (round24 x) = round24 x"
proof -
  obtain m e where "\<bar>m\<bar> \<le> 16777216" "round24 x = real_of_int m * 2 powr real_of_int e"
    using round24_repr by blast
  then show ?thesis using round24_fix by simp
qed

lemma round24_lrintf_exact:
  assumes "round24 x = x"
  shows "round24 (real_of_int (lrintf x)) = real_of_int (lrintf x)"
    and "round24 (real_of_int (lrintf x) - x) = real_of_int (lrintf x) - x"
proof -
  obtain m e where m: "\<bar>m\<bar> \<le> 16777216" and x: "x = real_of_int m * 2 powr real_of_int e"
    using round24_repr [of x] assms by auto
  have mr: "\<bar>real_of_int m\<bar> \<le> 16777216" using m by (simp flip: of_int_abs)
  have both: "round24 (real_of_int (lrintf x)) = real_of_int (lrintf x) \<and>
      round24 (real_of_int (lrintf x) - x) = real_of_int (lrintf x) - x"
  proof (cases "0 \<le> e")
    case True
    have "real_of_int e = real (nat e)" using True by simp
    then have "2 powr real_of_int e = 2 ^ nat e" by (simp only: powr_realpow)
    then have xi: "x = real_of_int (m * 2 ^ nat e)" unfolding x by simp
    have "lrintf x = m * 2 ^ nat e" unfolding xi by (rule lrintf_of_int)
    then have n: "real_of_int (lrintf x) = x" using xi by simp
    show ?thesis unfolding n using assms by (simp add: round24_zero)
  next
    case False
    define k where "k = nat (- e)"
    have k1: "1 \<le> k" using False by (simp add: k_def)
    have "real_of_int e = - real k" using False by (simp add: k_def)
    then have pe: "2 powr real_of_int e = 1 / 2 ^ k"
      by (simp only: powr_minus powr_realpow) (simp add: divide_inverse)
    have xk: "x = real_of_int m / 2 ^ k" unfolding x pe by simp
    have two: "(2::real) \<le> 2 ^ k"
      using power_increasing [of 1 k "2::real"] k1 by simp
    have xb: "\<bar>x\<bar> \<le> 8388608"
    proof -
      have "\<bar>x\<bar> = \<bar>real_of_int m\<bar> / 2 ^ k" unfolding xk by simp
      also have "\<dots> \<le> 16777216 / 2" using mr two by (intro frac_le) auto
      finally show ?thesis by simp
    qed
    have nb: "\<bar>lrintf x\<bar> \<le> 8388608"
      using lrintf_bound [of x 8388608] xb by simp
    have first: "round24 (real_of_int (lrintf x)) = real_of_int (lrintf x)"
      using round24_fix [of "lrintf x" 0] nb by simp
    have second: "round24 (real_of_int (lrintf x) - x) = real_of_int (lrintf x) - x"
    proof (cases "k \<le> 25")
      case True
      define M where "M = lrintf x * 2 ^ k - m"
      have d: "real_of_int (lrintf x) - x = real_of_int M * 2 powr real_of_int e"
        unfolding pe M_def xk by (simp add: field_simps)
      have "real_of_int M = (real_of_int (lrintf x) - x) * 2 ^ k"
        unfolding M_def xk by (simp add: field_simps)
      then have "\<bar>real_of_int M\<bar> = \<bar>real_of_int (lrintf x) - x\<bar> * 2 ^ k"
        by (simp add: abs_mult)
      also have "\<dots> \<le> (1 / 2) * 2 ^ k"
        using lrintf_err [of x] by (intro mult_right_mono) auto
      also have "\<dots> \<le> (1 / 2) * 2 ^ 25"
        using power_increasing [of k 25 "2::real"] True by simp
      finally have "\<bar>real_of_int M\<bar> \<le> 16777216" by simp
      then have "\<bar>M\<bar> \<le> 16777216" by (simp flip: of_int_abs)
      then show ?thesis unfolding d by (rule round24_fix)
    next
      case False
      then have "(2::real) ^ 26 \<le> 2 ^ k"
        by (intro power_increasing) auto
      then have big: "(67108864::real) \<le> 2 ^ k" by simp
      have "\<bar>x\<bar> = \<bar>real_of_int m\<bar> / 2 ^ k" unfolding xk by simp
      also have "\<dots> \<le> 16777216 / 67108864" using mr big by (intro frac_le) auto
      finally have "\<bar>x - real_of_int 0\<bar> < 1 / 2" by simp
      then have z: "lrintf x = 0" by (rule lrintf_near)
      have "- x = real_of_int (- m) * 2 powr real_of_int e" unfolding x by simp
      moreover have "\<bar>- m\<bar> \<le> 16777216" using m by simp
      ultimately have "round24 (- x) = - x" using round24_fix [of "- m" e] by simp
      then show ?thesis unfolding z by simp
    qed
    show ?thesis using first second by simp
  qed
  show "round24 (real_of_int (lrintf x)) = real_of_int (lrintf x)" using both by simp
  show "round24 (real_of_int (lrintf x) - x) = real_of_int (lrintf x) - x" using both by simp
qed

lemma round_coord_bounded:
  assumes "\<bar>x\<bar> \<le> 2147483647"
  shows "round_coord x = lrintf x"
proof -
  have "\<bar>lrintf x\<bar> \<le> 2147483647" using lrintf_bound [of x 2147483647] assms by simp
  then show ?thesis by (simp add: round_coord_def int_cast_id)
qed

lemma round_diff_round24:
  assumes "round24 x = x" "\<bar>x\<bar> \<le> 2147483647"
  shows "round_diff_fl round24 x = \<bar>real_of_int (lrintf x) - x\<bar>"
  unfolding round_diff_fl_def round_coord_bounded [OF assms(2)]
    round24_lrintf_exact [OF assms(1)] by (rule refl)

subsection \<open>A lattice whose origin absorbs the cell offset\<close>

lemma far_params_valid: "hex_params_valid far_params"
  by (simp add: hex_params_valid_def far_params_def example_params_def)

lemma far_lattice_built:
  "hex_world_create calloc_always (Some hex_world_zero) (Some far_params)
     = (True, Some far_lattice)"
  by (simp add: hex_world_create_def hex_world_init_def hex_world_destroy_def Let_def
      hex_world_zero_def far_params_def example_params_def far_lattice_def far_bare_def
      calloc_always_def int16_cast_def uint16_cast_def c_span_def int_cast_def)

lemma round24_one: "round24 1 = 1"
  using round24_small [where x = 1 and n = 23] by (simp add: lrintf_def)

lemma round24_sqrt3_48: "round24 (SQRT3 * 48) = 10897121 / 131072"
  using round24_small [where x = "SQRT3 * 48" and n = 17] by (simp add: SQRT3_def lrintf_def)

lemma round24_col: "round24 (10897121 / 131072) = 10897121 / 131072"
  using round24_small [where x = "10897121 / 131072" and n = 17] by (simp add: lrintf_def)

lemma round24_absorb: "round24 (10897121 / 131072 + 10000000000) = 10000000000"
  using round24_large [where x = "10897121 / 131072 + 10000000000" and n = 10] by (simp add: lrintf_def)

lemma round24_absorb_norm: "round24 (1310720010897121 / 131072) = 10000000000"
  using round24_absorb by simp

lemma round24_72: "round24 72 = 72"
  using round24_small [where x = 72 and n = 17] by (simp add: lrintf_def)

lemma far_forward: "hex_axial_to_world_fl round24 (Some far_lattice) 1 0 = (10000000000, 0)"
  by (simp add: hex_axial_to_world_fl_def far_lattice_def far_bare_def round24_zero round24_one
      round24_sqrt3_48 round24_col round24_absorb_norm round24_72)

lemma far_inverse: "hex_world_to_axial_f_fl round24 (Some far_lattice) 10000000000 0 = (0, 0)"
  by (simp add: hex_world_to_axial_f_fl_def far_lattice_def far_bare_def round24_zero)

lemma round_fl_origin: "hex_axial_round_fl round24 0 0 = (0, 0)"
  by (simp add: hex_axial_round_fl_def round_coord_def lrintf_def int_cast_def round24_zero)

subsection \<open>Error bounds for the rounded transforms\<close>

lemma fl_len:
  fixes fl :: "real \<Rightarrow> real" and c z v e m e' :: real
  assumes fl: "\<forall>x. \<bar>fl x - x\<bar> \<le> \<bar>x\<bar> / 16777216"
    and c: "0 \<le> c" and z: "\<bar>z - v\<bar> \<le> e * c" and v: "\<bar>v\<bar> \<le> m * c"
    and k: "e + (m + e) / 16777216 \<le> e'"
  shows "\<bar>fl z - v\<bar> \<le> e' * c"
proof -
  have "\<bar>z\<bar> \<le> \<bar>v\<bar> + \<bar>z - v\<bar>" by linarith
  then have zb: "\<bar>z\<bar> \<le> (m + e) * c" using z v by (simp add: algebra_simps)
  have "\<bar>fl z - z\<bar> \<le> \<bar>z\<bar> / 16777216" using fl by blast
  then have "\<bar>fl z - z\<bar> \<le> (m + e) * c / 16777216" using zb by simp
  then have "\<bar>fl z - v\<bar> \<le> e * c + (m + e) * c / 16777216" using z by linarith
  also have "\<dots> = (e + (m + e) / 16777216) * c" by (simp add: algebra_simps)
  also have "\<dots> \<le> e' * c" using k c by (rule mult_right_mono)
  finally show ?thesis .
qed

lemma fl_num:
  fixes fl :: "real \<Rightarrow> real" and z v e m e' :: real
  assumes fl: "\<forall>x. \<bar>fl x - x\<bar> \<le> \<bar>x\<bar> / 16777216"
    and z: "\<bar>z - v\<bar> \<le> e" and v: "\<bar>v\<bar> \<le> m"
    and k: "e + (m + e) / 16777216 \<le> e'"
  shows "\<bar>fl z - v\<bar> \<le> e'"
  using fl_len [OF fl, of 1 z v e m e'] z v k by simp

lemma prod_len:
  fixes c a a' b b' ea eb ma mb e' :: real
  assumes c: "0 \<le> c"
    and a: "\<bar>a' - a\<bar> \<le> ea * c" and ma: "\<bar>a\<bar> \<le> ma * c"
    and b: "\<bar>b' - b\<bar> \<le> eb" and mb: "\<bar>b\<bar> \<le> mb"
    and k: "ma * eb + mb * ea + ea * eb \<le> e'"
  shows "\<bar>a' * b' - a * b\<bar> \<le> e' * c"
proof -
  have id: "a' * b' - a * b = a * (b' - b) + (a' - a) * b + (a' - a) * (b' - b)"
    by (simp add: algebra_simps)
  have 1: "\<bar>a * (b' - b)\<bar> \<le> (ma * c) * eb"
    unfolding abs_mult using ma b by (intro mult_mono) auto
  have 2: "\<bar>(a' - a) * b\<bar> \<le> (ea * c) * mb"
    unfolding abs_mult using a mb by (intro mult_mono) auto
  have 3: "\<bar>(a' - a) * (b' - b)\<bar> \<le> (ea * c) * eb"
    unfolding abs_mult using a b by (intro mult_mono) auto
  have "\<bar>a' * b' - a * b\<bar> \<le> (ma * c) * eb + (ea * c) * mb + (ea * c) * eb"
    unfolding id using 1 2 3 by linarith
  also have "\<dots> = (ma * eb + mb * ea + ea * eb) * c" by (simp add: algebra_simps)
  also have "\<dots> \<le> e' * c" using k c by (rule mult_right_mono)
  finally show ?thesis .
qed

lemma len_bound:
  fixes c k K b mb :: real
  assumes "0 \<le> c" "\<bar>k\<bar> \<le> K" "\<bar>b\<bar> \<le> mb"
  shows "\<bar>k * c * b\<bar> \<le> (K * mb) * c"
proof -
  have "\<bar>k * c * b\<bar> = (\<bar>k\<bar> * \<bar>b\<bar>) * c" using assms(1) by (simp add: abs_mult)
  also have "\<dots> \<le> (K * mb) * c"
    using assms by (intro mult_right_mono mult_mono) auto
  finally show ?thesis .
qed
lemma sqrt3_excess_tiny:
  assumes "\<bar>q\<bar> \<le> 32768" "\<bar>r\<bar> \<le> 32768"
  shows "\<bar>sqrt3_excess * (real_of_int q + real_of_int r * 0.5)\<bar> \<le> 1 / 200"
proof -
  have e: "\<bar>sqrt3_excess\<bar> \<le> 1 / 10000000"
    by (simp add: sqrt3_excess_def SQRT3_def)
  have "\<bar>real_of_int q\<bar> \<le> 32768" "\<bar>real_of_int r\<bar> \<le> 32768"
    using assms by linarith+
  then have b: "\<bar>real_of_int q + real_of_int r * 0.5\<bar> \<le> 49152" by linarith
  have "\<bar>sqrt3_excess * (real_of_int q + real_of_int r * 0.5)\<bar>
      = \<bar>sqrt3_excess\<bar> * \<bar>real_of_int q + real_of_int r * 0.5\<bar>"
    by (rule abs_mult)
  also have "\<dots> \<le> (1 / 10000000) * 49152"
    using e b by (intro mult_mono) auto
  also have "\<dots> \<le> 1 / 200" by simp
  finally show ?thesis .
qed

lemma round_trip_fl_fractional:
  fixes fl :: "real \<Rightarrow> real" and c ox oy :: real and q r :: int
  assumes fl: "\<forall>x. \<bar>fl x - x\<bar> \<le> \<bar>x\<bar> / 16777216"
    and c: "0 < c"
    and ox: "\<bar>ox\<bar> \<le> 1048576 * c" and oy: "\<bar>oy\<bar> \<le> 1048576 * c"
    and q: "\<bar>q\<bar> \<le> 32768" and r: "\<bar>r\<bar> \<le> 32768"
  defines "X \<equiv> fl (fl (fl (SQRT3 * c) * fl (fl (real_of_int q) + fl (fl (real_of_int r) * 0.5))) + ox)"
    and "Y \<equiv> fl (fl (fl (1.5 * c) * fl (real_of_int r)) + oy)"
  shows "\<bar>fl (fl (fl (SQRT3 / 3 * fl (X - ox)) - fl (f_1_3 * fl (Y - oy))) / c) - real_of_int q\<bar> \<le> 1 / 10"
    and "\<bar>fl (fl (f_2_3 * fl (Y - oy)) / c) - real_of_int r\<bar> \<le> 1 / 10"
proof -
  have c0: "0 \<le> c" using c by simp
  define qr where "qr = real_of_int q"
  define rr where "rr = real_of_int r"
  have qb: "\<bar>qr\<bar> \<le> 32768" and rb: "\<bar>rr\<bar> \<le> 32768"
    using q r unfolding qr_def rr_def by linarith+
  define Cx where "Cx = qr + rr * 0.5"
  have Cxb: "\<bar>Cx\<bar> \<le> 49152" using qb rb unfolding Cx_def by linarith
  define X0 where "X0 = SQRT3 * c * Cx"
  define Y0 where "Y0 = 1.5 * c * rr"
  have X0b: "\<bar>X0\<bar> \<le> 86016 * c"
    using len_bound [OF c0 _ Cxb, of SQRT3 "7 / 4"] by (simp add: X0_def SQRT3_def)
  have Y0b: "\<bar>Y0\<bar> \<le> 49152 * c"
    using len_bound [OF c0 _ rb, of "1.5" "3 / 2"] by (simp add: Y0_def)
  \<comment> \<open>forward, the \<open>x\<close> coordinate\<close>
  define qr' where "qr' = fl qr"
  define rr' where "rr' = fl rr"
  have qr': "\<bar>qr' - qr\<bar> \<le> 1 / 512"
    unfolding qr'_def by (rule fl_num [OF fl, where e = 0 and m = 32768]) (use qb in auto)
  have rr': "\<bar>rr' - rr\<bar> \<le> 1 / 512"
    unfolding rr'_def by (rule fl_num [OF fl, where e = 0 and m = 32768]) (use rb in auto)
  define B where "B = fl (rr' * 0.5)"
  have B: "\<bar>B - rr * 0.5\<bar> \<le> 1 / 500"
  proof -
    have 1: "\<bar>rr' * 0.5 - rr * 0.5\<bar> \<le> 1 / 1024" using rr' by linarith
    have 2: "\<bar>rr * 0.5\<bar> \<le> 16384" using rb by linarith
    show ?thesis unfolding B_def by (rule fl_num [OF fl 1 2]) simp
  qed
  define C where "C = fl (qr' + B)"
  have C: "\<bar>C - Cx\<bar> \<le> 7 / 1000"
  proof -
    have 1: "\<bar>(qr' + B) - Cx\<bar> \<le> 1 / 512 + 1 / 500" using qr' B unfolding Cx_def by linarith
    show ?thesis unfolding C_def by (rule fl_num [OF fl 1 Cxb]) simp
  qed
  define A where "A = fl (SQRT3 * c)"
  have A: "\<bar>A - SQRT3 * c\<bar> \<le> (1 / 9000000) * c"
    unfolding A_def
    by (rule fl_len [OF fl c0, where e = 0 and m = "7 / 4"]) (use c0 in \<open>auto simp: SQRT3_def\<close>)
  have Ab: "\<bar>SQRT3 * c\<bar> \<le> (7 / 4) * c"
    using c0 by (simp add: SQRT3_def abs_mult)
  have P: "\<bar>A * C - X0\<bar> \<le> (9 / 500) * c"
    unfolding X0_def by (rule prod_len [OF c0 A Ab C Cxb]) simp
  define x0 where "x0 = fl (A * C)"
  have x0: "\<bar>x0 - X0\<bar> \<le> (29 / 1250) * c"
    unfolding x0_def by (rule fl_len [OF fl c0 P X0b]) simp
  have X: "\<bar>X - (X0 + ox)\<bar> \<le> (91 / 1000) * c"
  proof -
    have 1: "\<bar>(x0 + ox) - (X0 + ox)\<bar> \<le> (29 / 1250) * c" using x0 by simp
    have 2: "\<bar>X0 + ox\<bar> \<le> 1134592 * c" using X0b ox by linarith
    have "\<bar>fl (x0 + ox) - (X0 + ox)\<bar> \<le> (91 / 1000) * c"
      by (rule fl_len [OF fl c0 1 2]) simp
    then show ?thesis
      by (simp add: X_def x0_def A_def C_def B_def qr'_def rr'_def qr_def rr_def)
  qed
  define xd where "xd = fl (X - ox)"
  have xd: "\<bar>xd - X0\<bar> \<le> (481 / 5000) * c"
  proof -
    have 1: "\<bar>(X - ox) - X0\<bar> \<le> (91 / 1000) * c" using X by (simp add: algebra_simps)
    show ?thesis unfolding xd_def by (rule fl_len [OF fl c0 1 X0b]) simp
  qed
  \<comment> \<open>forward, the \<open>y\<close> coordinate\<close>
  define D where "D = fl (1.5 * c)"
  have D: "\<bar>D - 1.5 * c\<bar> \<le> (1 / 10000000) * c"
    unfolding D_def
    by (rule fl_len [OF fl c0, where e = 0 and m = "3 / 2"]) (use c0 in auto)
  have Db: "\<bar>1.5 * c\<bar> \<le> (3 / 2) * c" using c0 by simp
  have Q: "\<bar>D * rr' - Y0\<bar> \<le> (1 / 160) * c"
    unfolding Y0_def by (rule prod_len [OF c0 D Db rr' rb]) simp
  define y0 where "y0 = fl (D * rr')"
  have y0: "\<bar>y0 - Y0\<bar> \<le> (23 / 2500) * c"
    unfolding y0_def by (rule fl_len [OF fl c0 Q Y0b]) simp
  have Y: "\<bar>Y - (Y0 + oy)\<bar> \<le> (747 / 10000) * c"
  proof -
    have 1: "\<bar>(y0 + oy) - (Y0 + oy)\<bar> \<le> (23 / 2500) * c" using y0 by simp
    have 2: "\<bar>Y0 + oy\<bar> \<le> 1097728 * c" using Y0b oy by linarith
    have "\<bar>fl (y0 + oy) - (Y0 + oy)\<bar> \<le> (747 / 10000) * c"
      by (rule fl_len [OF fl c0 1 2]) simp
    then show ?thesis
      by (simp add: Y_def y0_def D_def rr'_def rr_def)
  qed
  define yd where "yd = fl (Y - oy)"
  have yd: "\<bar>yd - Y0\<bar> \<le> (777 / 10000) * c"
  proof -
    have 1: "\<bar>(Y - oy) - Y0\<bar> \<le> (747 / 10000) * c" using Y by (simp add: algebra_simps)
    show ?thesis unfolding yd_def by (rule fl_len [OF fl c0 1 Y0b]) simp
  qed
  \<comment> \<open>inverse, the fractional \<open>q\<close>\<close>
  have U: "\<bar>xd * (SQRT3 / 3) - X0 * (SQRT3 / 3)\<bar> \<le> (289 / 5000) * c"
    by (rule prod_len [OF c0 xd X0b, where eb = 0 and mb = "3 / 5"]) (simp_all add: SQRT3_def)
  have T1b: "\<bar>X0 * (SQRT3 / 3)\<bar> \<le> 51610 * c"
  proof -
    have "\<bar>X0 * (SQRT3 / 3)\<bar> = \<bar>X0\<bar> * (SQRT3 / 3)" by (simp add: abs_mult SQRT3_def)
    also have "\<dots> \<le> (86016 * c) * (3 / 5)"
      using X0b by (intro mult_mono) (auto simp: SQRT3_def)
    also have "\<dots> \<le> 51610 * c" using c0 by simp
    finally show ?thesis .
  qed
  define u1 where "u1 = fl (SQRT3 / 3 * xd)"
  have u1: "\<bar>u1 - X0 * (SQRT3 / 3)\<bar> \<le> (609 / 10000) * c"
  proof -
    have "\<bar>fl (xd * (SQRT3 / 3)) - X0 * (SQRT3 / 3)\<bar> \<le> (609 / 10000) * c"
      by (rule fl_len [OF fl c0 U T1b]) simp
    then show ?thesis by (simp add: u1_def mult.commute)
  qed
  have V: "\<bar>yd * f_1_3 - Y0 * (1 / 3)\<bar> \<le> (33 / 1250) * c"
    by (rule prod_len [OF c0 yd Y0b, where eb = "1 / 100000000" and mb = "1 / 3"])
      (simp_all add: f_1_3_def)
  have T2b: "\<bar>Y0 * (1 / 3)\<bar> \<le> 16384 * c"
    using Y0b by simp
  define v1 where "v1 = fl (f_1_3 * yd)"
  have v1: "\<bar>v1 - Y0 * (1 / 3)\<bar> \<le> (137 / 5000) * c"
  proof -
    have "\<bar>fl (yd * f_1_3) - Y0 * (1 / 3)\<bar> \<le> (137 / 5000) * c"
      by (rule fl_len [OF fl c0 V T2b]) simp
    then show ?thesis by (simp add: v1_def mult.commute)
  qed
  define T where "T = (qr + sqrt3_excess * Cx) * c"
  have Teq: "X0 * (SQRT3 / 3) - Y0 * (1 / 3) = T"
    by (simp add: T_def X0_def Y0_def Cx_def sqrt3_excess_def algebra_simps)
  have eps: "\<bar>sqrt3_excess * Cx\<bar> \<le> 1 / 200"
    using sqrt3_excess_tiny [OF q r] by (simp add: Cx_def qr_def rr_def)
  have Wb: "\<bar>qr + sqrt3_excess * Cx\<bar> \<le> 32769" using qb eps by linarith
  have Tb: "\<bar>T\<bar> \<le> 32769 * c"
  proof -
    have "\<bar>T\<bar> = \<bar>qr + sqrt3_excess * Cx\<bar> * c" using c0 by (simp add: T_def abs_mult)
    also have "\<dots> \<le> 32769 * c" using Wb c0 by (rule mult_right_mono)
    finally show ?thesis .
  qed
  have N: "\<bar>(u1 - v1) - T\<bar> \<le> (883 / 10000) * c"
  proof -
    have "\<bar>(u1 - v1) - (X0 * (SQRT3 / 3) - Y0 * (1 / 3))\<bar> \<le> (609 / 10000) * c + (137 / 5000) * c"
      using u1 v1 by linarith
    then show ?thesis unfolding Teq by simp
  qed
  define n where "n = fl (u1 - v1)"
  have n: "\<bar>n - T\<bar> \<le> (903 / 10000) * c"
    unfolding n_def by (rule fl_len [OF fl c0 N Tb]) simp
  have qf0: "\<bar>n / c - (qr + sqrt3_excess * Cx)\<bar> \<le> 903 / 10000"
  proof -
    have "n / c - (qr + sqrt3_excess * Cx) = (n - T) / c" using c by (simp add: T_def field_simps)
    then have "\<bar>n / c - (qr + sqrt3_excess * Cx)\<bar> = \<bar>n - T\<bar> / c" using c by simp
    also have "\<dots> \<le> 903 / 10000" using n c by (simp add: field_simps)
    finally show ?thesis .
  qed
  have qf: "\<bar>fl (n / c) - (qr + sqrt3_excess * Cx)\<bar> \<le> 923 / 10000"
    by (rule fl_num [OF fl qf0 Wb]) simp
  have "\<bar>fl (n / c) - qr\<bar> \<le> 1 / 10" using qf eps by linarith
  then show "\<bar>fl (fl (fl (SQRT3 / 3 * fl (X - ox)) - fl (f_1_3 * fl (Y - oy))) / c) - real_of_int q\<bar> \<le> 1 / 10"
    by (simp add: n_def u1_def v1_def xd_def yd_def qr_def)
  \<comment> \<open>inverse, the fractional \<open>r\<close>\<close>
  have M: "\<bar>yd * f_2_3 - Y0 * (2 / 3)\<bar> \<le> (33 / 625) * c"
    by (rule prod_len [OF c0 yd Y0b, where eb = "1 / 50000000" and mb = "2 / 3"])
      (simp_all add: f_2_3_def)
  have Y0eq: "Y0 * (2 / 3) = rr * c" by (simp add: Y0_def)
  have Rb: "\<bar>rr * c\<bar> \<le> 32768 * c"
    using rb c0 by (simp add: abs_mult mult_right_mono)
  have m1: "\<bar>fl (yd * f_2_3) - rr * c\<bar> \<le> (137 / 2500) * c"
    by (rule fl_len [OF fl c0 M [unfolded Y0eq] Rb]) simp
  have rf0: "\<bar>fl (yd * f_2_3) / c - rr\<bar> \<le> 137 / 2500"
  proof -
    have "fl (yd * f_2_3) / c - rr = (fl (yd * f_2_3) - rr * c) / c" using c by (simp add: field_simps)
    then have "\<bar>fl (yd * f_2_3) / c - rr\<bar> = \<bar>fl (yd * f_2_3) - rr * c\<bar> / c" using c by simp
    also have "\<dots> \<le> 137 / 2500" using m1 c by (simp add: field_simps)
    finally show ?thesis .
  qed
  have "\<bar>fl (fl (yd * f_2_3) / c) - rr\<bar> \<le> 1 / 10"
    by (rule fl_num [OF fl rf0 rb]) simp
  then show "\<bar>fl (fl (f_2_3 * fl (Y - oy)) / c) - real_of_int r\<bar> \<le> 1 / 10"
    by (simp add: yd_def rr_def mult.commute)
qed
lemma hex_axial_round_fl_near:
  fixes fl :: "real \<Rightarrow> real"
  assumes fl: "\<forall>x. \<bar>fl x - x\<bar> \<le> \<bar>x\<bar> / 16777216"
    and qf: "\<bar>qf - real_of_int q\<bar> \<le> 1 / 10" and rf: "\<bar>rf - real_of_int r\<bar> \<le> 1 / 10"
    and q: "\<bar>q\<bar> \<le> 32768" and r: "\<bar>r\<bar> \<le> 32768"
  shows "hex_axial_round_fl fl qf rf = (q, r)"
proof -
  have qc: "round_coord qf = q"
    using round_coord_near(1) [of "qf - real_of_int q" q] qf q by auto
  have rc: "round_coord rf = r"
    using round_coord_near(1) [of "rf - real_of_int r" r] rf r by auto
  have 1: "\<bar>(- qf - rf) - real_of_int (- q - r)\<bar> \<le> 1 / 5"
  proof -
    have "(- qf - rf) - real_of_int (- q - r) = - (qf - real_of_int q) - (rf - real_of_int r)"
      by simp
    then show ?thesis using qf rf by linarith
  qed
  have 2: "\<bar>real_of_int (- q - r)\<bar> \<le> 65536" using q r by simp
  have s: "\<bar>fl (- qf - rf) - real_of_int (- q - r)\<bar> \<le> 1 / 4"
    by (rule fl_num [OF fl 1 2]) simp
  have sc: "round_coord (fl (- qf - rf)) = - q - r"
    using round_coord_near(1) [of "fl (- qf - rf) - real_of_int (- q - r)" "- q - r"] s q r
    by auto
  have w: "int_cast (int_cast (- r) - (- q - r)) = q" "int_cast (int_cast (- q) - (- q - r)) = r"
    using q r by (simp_all add: int_cast_id)
  show ?thesis
    unfolding hex_axial_round_fl_def Let_def qc rc sc w by simp
qed

text \<open>
  C1, as amended. On a lattice built from a validated configuration, for every integer
  \<open>(q, r)\<close> of the bounding box, \<^verbatim>\<open>hex_axial_to_world\<close> followed by
  \<^verbatim>\<open>hex_world_to_axial_f\<close> and \<^verbatim>\<open>hex_axial_round\<close> returns \<open>(q, r)\<close>
  \<^item> in exact arithmetic, whatever the origin: the fractional coordinates are
    \<open>q + e * (q + r/2)\<close> and \<open>r\<close>, where \<open>e\<close>, about \<open>-3.6e-8\<close>, is what the binary32
    constant \<^verbatim>\<open>SQRT3\<close> leaves of \<open>SQRT3 * SQRT3 / 3 - 1\<close>;
  \<^item> with every operation rounded by any \<open>fl\<close> of relative error at most \<open>2^-24\<close> (binary32
    as long as nothing overflows or underflows), provided that \<open>|origin_x|\<close> and
    \<open>|origin_y|\<close> are at most \<open>2^20 * cell_size\<close>: both fractional coordinates are then
    within \<open>0.1\<close> of \<open>q\<close> and \<open>r\<close>.
\<close>

theorem axial_round_trip_identity:
  assumes v: "hex_params_valid p" and c: "hex_world_create a world (Some p) = (True, Some w)"
    and t: "tiles w = Some ts" and b: "in_box w q r"
  shows "axial_round_trip (Some w) q r = (q, r) \<and>
     ((\<forall>x. \<bar>fl x - x\<bar> \<le> \<bar>x\<bar> / 16777216) \<and>
      \<bar>origin_x w\<bar> \<le> 1048576 * cell_size w \<and> \<bar>origin_y w\<bar> \<le> 1048576 * cell_size w \<longrightarrow>
      axial_round_trip_fl fl (Some w) q r = (q, r))"
proof -
  note f = hex_world_create_built [OF v c t]
  have cs: "0 < cell_size w" using f by simp
  have qb: "\<bar>q\<bar> \<le> 32768" and rb: "\<bar>r\<bar> \<le> 32768"
    using f b by (auto simp: in_box_def)
  have exact: "axial_round_trip (Some w) q r = (q, r)"
  proof -
    have "axial_round_trip (Some w) q r =
        hex_axial_round (fst (hex_world_to_axial_f (Some w) (fst (hex_axial_to_world (Some w) q r))
             (snd (hex_axial_to_world (Some w) q r))))
          (snd (hex_world_to_axial_f (Some w) (fst (hex_axial_to_world (Some w) q r))
             (snd (hex_axial_to_world (Some w) q r))))"
      by (simp add: axial_round_trip_def split: prod.splits)
    also have "\<dots> = hex_axial_round (of_int q + sqrt3_excess * (of_int q + of_int r / 2)) (of_int r)"
      unfolding round_trip_fractional [OF cs t] by simp
    also have "\<dots> = (q, r)"
      using sqrt3_excess_small [OF qb rb] qb rb by (rule hex_axial_round_near)
    finally show ?thesis .
  qed
  have rounded: "axial_round_trip_fl fl (Some w) q r = (q, r)"
    if fl: "\<forall>x. \<bar>fl x - x\<bar> \<le> \<bar>x\<bar> / 16777216"
      and ox: "\<bar>origin_x w\<bar> \<le> 1048576 * cell_size w"
      and oy: "\<bar>origin_y w\<bar> \<le> 1048576 * cell_size w"
  proof -
    note e = round_trip_fl_fractional [OF fl cs ox oy qb rb]
    have "axial_round_trip_fl fl (Some w) q r =
        hex_axial_round_fl fl
          (fl (fl (fl (SQRT3 / 3 *
             fl (fl (fl (fl (SQRT3 * cell_size w)
                         * fl (fl (real_of_int q) + fl (fl (real_of_int r) * 0.5)))
                   + origin_x w) - origin_x w))
             - fl (f_1_3 * fl (fl (fl (fl (1.5 * cell_size w) * fl (real_of_int r)) + origin_y w)
                   - origin_y w))) / cell_size w))
          (fl (fl (f_2_3 * fl (fl (fl (fl (1.5 * cell_size w) * fl (real_of_int r)) + origin_y w)
                   - origin_y w)) / cell_size w))"
      using cs t
      by (simp add: axial_round_trip_fl_def hex_axial_to_world_fl_def hex_world_to_axial_f_fl_def
          Let_def)
    also have "\<dots> = (q, r)"
      using fl e qb rb by (rule hex_axial_round_fl_near)
    finally show ?thesis .
  qed
  show ?thesis using exact rounded by blast
qed

theorem axial_round_trip_identity_witness:
  "hex_params_valid example_params \<and>
   hex_world_create calloc_always (Some hex_world_zero) (Some example_params)
     = (True, Some example_lattice) \<and>
   tiles example_lattice = Some (create_tiles example_params example_bare) \<and>
   in_box example_lattice 1 (- 1) \<and>
   (\<forall>x. \<bar>round24 x - x\<bar> \<le> \<bar>x\<bar> / 16777216) \<and>
   \<bar>origin_x example_lattice\<bar> \<le> 1048576 * cell_size example_lattice \<and>
   \<bar>origin_y example_lattice\<bar> \<le> 1048576 * cell_size example_lattice \<and>
   axial_round_trip (Some example_lattice) 1 (- 1) = (1, - 1) \<and>
   axial_round_trip_fl round24 (Some example_lattice) 1 (- 1) = (1, - 1)"
proof -
  have b: "in_box example_lattice 1 (- 1)"
    by (simp add: in_box_def example_lattice_fields)
  have o: "\<bar>origin_x example_lattice\<bar> \<le> 1048576 * cell_size example_lattice"
    "\<bar>origin_y example_lattice\<bar> \<le> 1048576 * cell_size example_lattice"
    by (simp_all add: example_lattice_fields)
  note a = axial_round_trip_identity [OF example_params_valid example_lattice_built example_lattice_tiles b,
      where fl = round24]
  show ?thesis
    using a b o round24_ok example_params_valid example_lattice_built example_lattice_tiles
    by blast
qed

text \<open>
  Without the bound on the origin the claim fails in binary32. With \<^verbatim>\<open>cell_size = 48\<close> and
  \<^verbatim>\<open>origin_x = 1e10\<close>, where neighbouring binary32 numbers are 1024 apart, the world
  \<open>x\<close> of the cell \<open>(1, 0)\<close> is \<open>83.138... + 1e10\<close>, which rounds to \<open>1e10\<close>: the cell offset
  is absorbed, and the round trip returns \<open>(0, 0)\<close>.
\<close>

theorem axial_round_trip_binary32_counterexample:
  "hex_params_valid far_params \<and>
   hex_world_create calloc_always (Some hex_world_zero) (Some far_params)
     = (True, Some far_lattice) \<and>
   in_box far_lattice 1 0 \<and>
   hex_axial_to_world_fl round24 (Some far_lattice) 1 0 = (10000000000, 0) \<and>
   axial_round_trip_fl round24 (Some far_lattice) 1 0 = (0, 0) \<and>
   axial_round_trip_fl round24 (Some far_lattice) 1 0 \<noteq> (1, 0)"
  by (simp add: far_params_valid far_lattice_built axial_round_trip_fl_def far_forward far_inverse
      round_fl_origin) (simp add: in_box_def far_lattice_def far_bare_def)

section \<open>The lattice built in rounded arithmetic\<close>

lemma nth_create_tiles_fl:
  assumes "hex_q_min p \<le> q" "q \<le> hex_q_max p" "hex_r_min p \<le> r" "r \<le> hex_r_max p"
  shows "create_tiles_fl fl p w ! (nat (r - hex_r_min p) * nat (hex_q_max p - hex_q_min p + 1)
            + nat (q - hex_q_min p)) = create_tile_fl fl p w q r"
proof -
  let ?rows = "map (\<lambda>r. map (\<lambda>q. create_tile_fl fl p w q r) [hex_q_min p..hex_q_max p])
                 [hex_r_min p..hex_r_max p]"
  let ?n = "nat (hex_q_max p - hex_q_min p + 1)"
  have a: "\<forall>row \<in> set ?rows. length row = ?n" by auto
  have b: "nat (r - hex_r_min p) < length ?rows" using assms by simp
  have c: "nat (q - hex_q_min p) < ?n" using assms by simp
  have "concat ?rows ! (nat (r - hex_r_min p) * ?n + nat (q - hex_q_min p))
      = ?rows ! nat (r - hex_r_min p) ! nat (q - hex_q_min p)"
    using nth_concat_rows [OF a b c] .
  also have "\<dots> = create_tile_fl fl p w q r"
    using assms by simp
  finally show ?thesis by (simp add: create_tiles_fl_def)
qed

lemma assign_noise_terrain_fl_keeps:
  "tile_q (assign_noise_terrain_fl fl w t) = tile_q t \<and>
   tile_r (assign_noise_terrain_fl fl w t) = tile_r t \<and>
   center_x (assign_noise_terrain_fl fl w t) = center_x t \<and>
   center_y (assign_noise_terrain_fl fl w t) = center_y t"
  by (simp add: assign_noise_terrain_fl_def Let_def)

lemma assign_tile_defaults_fl_keeps:
  "tile_q (assign_tile_defaults_fl fl ps w t) = tile_q t \<and>
   tile_r (assign_tile_defaults_fl fl ps w t) = tile_r t \<and>
   center_x (assign_tile_defaults_fl fl ps w t) = center_x t \<and>
   center_y (assign_tile_defaults_fl fl ps w t) = center_y t"
  by (simp add: assign_tile_defaults_fl_def Let_def assign_noise_terrain_fl_keeps
      split: option.splits)

lemma create_tile_fl_coords:
  "tile_q (create_tile_fl fl p w q r) = int16_cast q \<and>
   tile_r (create_tile_fl fl p w q r) = int16_cast r"
  by (simp add: create_tile_fl_def Let_def assign_tile_defaults_fl_keeps)

lemma hex_world_create_fl_built:
  assumes "hex_params_valid p" "hex_world_create_fl fl a world (Some p) = (True, Some w)"
    "tiles w = Some ts"
  shows "hex_enabled p \<and> cell_size w = hex_cell_size p \<and> origin_x w = hex_origin_x p \<and>
     origin_y w = hex_origin_y p \<and>
     q_min w = hex_q_min p \<and> q_max w = hex_q_max p \<and> r_min w = hex_r_min p \<and>
     r_max w = hex_r_max p \<and>
     width w = nat (hex_q_max p - hex_q_min p + 1) \<and>
     height w = nat (hex_r_max p - hex_r_min p + 1) \<and>
     count w = width w * height w \<and> ts = create_tiles_fl fl p (w\<lparr>tiles := None\<rparr>) \<and>
     0 < cell_size w \<and> - 32768 \<le> q_min w \<and> q_min w \<le> q_max w \<and> q_max w \<le> 32767 \<and>
     - 32768 \<le> r_min w \<and> r_min w \<le> r_max w \<and> r_max w \<le> 32767"
proof -
  have e: "hex_enabled p"
    using assms(2,3)
    by (auto simp add: hex_world_create_fl_def hex_world_init_def hex_world_destroy_def
        hex_world_zero_def split: option.splits if_splits)
  have s: "c_span (hex_q_min p) (hex_q_max p) = hex_q_max p - hex_q_min p + 1"
    "c_span (hex_r_min p) (hex_r_max p) = hex_r_max p - hex_r_min p + 1"
    using assms(1) e by (simp_all add: hex_params_valid_def c_span_exact int_range_def)
  show ?thesis
    using assms e
    by (auto simp add: hex_world_create_fl_def hex_world_init_def hex_world_destroy_def Let_def
        hex_world_zero_def hex_params_valid_def int16_cast_id uint16_cast_def s
        split: option.splits if_splits)
qed

lemma built_index_fl:
  assumes v: "hex_params_valid p"
    and c: "hex_world_create_fl fl a world (Some p) = (True, Some w)"
    and t: "tiles w = Some ts" and b: "in_box w q r"
  shows "hex_world_index (Some w) q r = nat (r - r_min w) * width w + nat (q - q_min w)"
    and "hex_world_index (Some w) q r < length ts"
    and "length ts = count w"
    and "ts ! hex_world_index (Some w) q r = create_tile_fl fl p (w\<lparr>tiles := None\<rparr>) q r"
    and "hex_world_index (Some w) q r \<noteq> SIZE_MAX"
proof -
  note f = hex_world_create_fl_built [OF v c t]
  let ?W = "nat (hex_q_max p - hex_q_min p + 1)"
  let ?H = "nat (hex_r_max p - hex_r_min p + 1)"
  let ?i = "nat (r - r_min w) * width w + nat (q - q_min w)"
  have qi: "nat (q - q_min w) < ?W" and ri: "nat (r - r_min w) < ?H"
    using f b by (auto simp: in_box_def)
  have len: "length ts = ?W * ?H" using f by (simp add: length_create_tiles_fl)
  have "?i < ?W * ?H"
  proof -
    have "?i < (nat (r - r_min w) + 1) * ?W" using qi f by simp
    also have "\<dots> \<le> ?H * ?W"
    proof -
      have "nat (r - r_min w) + 1 \<le> ?H" using ri by linarith
      then show ?thesis by (rule mult_le_mono1)
    qed
    finally show ?thesis by (simp add: mult.commute)
  qed
  moreover have "?W \<le> 65535" "?H \<le> 65535" using v f by (auto simp: hex_params_valid_def)
  then have "?W * ?H \<le> 65535 * 65535" by (rule mult_le_mono)
  ultimately have small: "?i < 2 ^ 64" and notmax: "?i \<noteq> SIZE_MAX"
    by (simp_all add: SIZE_MAX_def)
  have inb: "hex_world_in_bounds (Some w) q r"
    using b t by (simp add: hex_world_in_bounds_def in_box_def)
  show i: "hex_world_index (Some w) q r = ?i"
    using inb small by (simp add: hex_world_index_def Let_def)
  show "hex_world_index (Some w) q r < length ts"
    using i len \<open>?i < ?W * ?H\<close> by simp
  show "length ts = count w" using len f by simp
  have "create_tiles_fl fl p (w\<lparr>tiles := None\<rparr>)
          ! (nat (r - hex_r_min p) * ?W + nat (q - hex_q_min p))
      = create_tile_fl fl p (w\<lparr>tiles := None\<rparr>) q r"
    using f b by (intro nth_create_tiles_fl) (auto simp: in_box_def)
  then show "ts ! hex_world_index (Some w) q r = create_tile_fl fl p (w\<lparr>tiles := None\<rparr>) q r"
    using i f by simp
  show "hex_world_index (Some w) q r \<noteq> SIZE_MAX"
    using i notmax by simp
qed




section \<open>Picking\<close>




subsection \<open>Picks on the example lattice, in binary32\<close>

























































section \<open>Flowers\<close>

lemma set_create_tiles_fl:
  "t \<in> set (create_tiles_fl fl p w) \<longleftrightarrow>
     (\<exists>q r. hex_q_min p \<le> q \<and> q \<le> hex_q_max p \<and> hex_r_min p \<le> r \<and> r \<le> hex_r_max p \<and>
            t = create_tile_fl fl p w q r)"
proof
  assume "t \<in> set (create_tiles_fl fl p w)"
  then obtain r q where "r \<in> {hex_r_min p..hex_r_max p}" "q \<in> {hex_q_min p..hex_q_max p}"
      "t = create_tile_fl fl p w q r"
    by (auto simp add: create_tiles_fl_def)
  then show "\<exists>q r. hex_q_min p \<le> q \<and> q \<le> hex_q_max p \<and> hex_r_min p \<le> r \<and> r \<le> hex_r_max p \<and>
            t = create_tile_fl fl p w q r"
    by (intro exI [of _ q] exI [of _ r]) simp
next
  assume "\<exists>q r. hex_q_min p \<le> q \<and> q \<le> hex_q_max p \<and> hex_r_min p \<le> r \<and> r \<le> hex_r_max p \<and>
            t = create_tile_fl fl p w q r"
  then obtain q r where "q \<in> {hex_q_min p..hex_q_max p}" "r \<in> {hex_r_min p..hex_r_max p}"
      "t = create_tile_fl fl p w q r"
    by auto
  then have m: "q \<in> set [hex_q_min p..hex_q_max p]" "r \<in> set [hex_r_min p..hex_r_max p]"
    and e: "t = create_tile_fl fl p w q r"
    by simp_all
  have "t \<in> set (map (\<lambda>q. create_tile_fl fl p w q r) [hex_q_min p..hex_q_max p])"
    unfolding set_map e using m(1) by (rule imageI)
  moreover have "map (\<lambda>q. create_tile_fl fl p w q r) [hex_q_min p..hex_q_max p]
      \<in> set (map (\<lambda>r. map (\<lambda>q. create_tile_fl fl p w q r) [hex_q_min p..hex_q_max p])
               [hex_r_min p..hex_r_max p])"
    unfolding set_map using m(2) by (rule imageI)
  ultimately have "\<exists>row \<in> set (map (\<lambda>r. map (\<lambda>q. create_tile_fl fl p w q r)
               [hex_q_min p..hex_q_max p]) [hex_r_min p..hex_r_max p]). t \<in> set row"
    by (rule bexI)
  then show "t \<in> set (create_tiles_fl fl p w)"
    unfolding create_tiles_fl_def set_concat by blast
qed

lemma create_tile_fl_mem:
  "hex_q_min p \<le> q \<Longrightarrow> q \<le> hex_q_max p \<Longrightarrow> hex_r_min p \<le> r \<Longrightarrow> r \<le> hex_r_max p \<Longrightarrow>
   create_tile_fl fl p w q r \<in> set (create_tiles_fl fl p w)"
  unfolding set_create_tiles_fl by blast

lemma hex_world_create_fl_tiles:
  assumes "hex_world_create_fl fl a world ps = (ok, Some w)" "tiles w = Some ts"
  shows "\<exists>p. ps = Some p \<and> ts = create_tiles_fl fl p (w\<lparr>tiles := None\<rparr>) \<and>
     cell_size w = hex_cell_size p \<and> origin_x w = hex_origin_x p \<and> origin_y w = hex_origin_y p"
  using assms
  by (auto simp add: hex_world_create_fl_def hex_world_init_def hex_world_destroy_def Let_def
      hex_world_zero_def split: option.splits if_splits)

lemma origin_dist_fl_cong:
  "center_x t = center_x t' \<Longrightarrow> center_y t = center_y t' \<Longrightarrow> origin_x w = origin_x w' \<Longrightarrow>
   origin_y w = origin_y w' \<Longrightarrow> origin_dist_fl fl w t = origin_dist_fl fl w' t'"
  by (simp add: origin_dist_fl_def)

lemma assign_noise_terrain_fl_flowers:
  assumes "terrain t0 = HEX_TERRAIN_OPEN"
    "terrain (assign_noise_terrain_fl fl w t0) = HEX_TERRAIN_FLOWERS"
  shows "origin_dist_fl fl w t0 > fl (cell_size w * 8) \<and>
     pseudo_noise01 (tile_q t0) (tile_r t0) > f_0_68 \<and>
     nectar_capacity (assign_noise_terrain_fl fl w t0)
       = fl (240 + fl (60 * pseudo_noise01 (tile_q t0) (tile_r t0))) \<and>
     nectar_stock (assign_noise_terrain_fl fl w t0) =
       fl (fl (240 + fl (60 * pseudo_noise01 (tile_q t0) (tile_r t0))) *
           clampf (flowers_factor_fl fl (pseudo_noise01 (tile_q t0) (tile_r t0))) f_0_35 f_0_95) \<and>
     nectar_recharge_rate (assign_noise_terrain_fl fl w t0) =
       fl (4.5 + fl (2 * fl (pseudo_noise01 (tile_q t0) (tile_r t0) - f_0_68)))"
  using assms by (simp add: assign_noise_terrain_fl_def Let_def split: if_splits)

lemma assign_tile_defaults_fl_flowers:
  assumes "terrain (assign_tile_defaults_fl fl ps w t0) = HEX_TERRAIN_FLOWERS"
  shows "origin_dist_fl fl w t0 > fl (cell_size w * 8) \<and>
     pseudo_noise01 (tile_q t0) (tile_r t0) > f_0_68 \<and>
     nectar_capacity (assign_tile_defaults_fl fl ps w t0)
       = fl (240 + fl (60 * pseudo_noise01 (tile_q t0) (tile_r t0))) \<and>
     nectar_stock (assign_tile_defaults_fl fl ps w t0) =
       fl (fl (240 + fl (60 * pseudo_noise01 (tile_q t0) (tile_r t0))) *
           clampf (flowers_factor_fl fl (pseudo_noise01 (tile_q t0) (tile_r t0))) f_0_35 f_0_95) \<and>
     nectar_recharge_rate (assign_tile_defaults_fl fl ps w t0) =
       fl (4.5 + fl (2 * fl (pseudo_noise01 (tile_q t0) (tile_r t0) - f_0_68)))"
proof -
  let ?t = "t0\<lparr>terrain := HEX_TERRAIN_OPEN, nectar_capacity := 0, nectar_stock := 0,
                        nectar_recharge_rate := 0, flow_capacity := 8,
                        flags := HEX_TILE_VISIBLE\<rparr>"
  have a: "assign_tile_defaults_fl fl ps w t0 = assign_noise_terrain_fl fl w ?t"
    using assms
    by (auto simp add: assign_tile_defaults_fl_def Let_def split: option.splits if_splits)
  have d: "origin_dist_fl fl w ?t = origin_dist_fl fl w t0"
    by (rule origin_dist_fl_cong) simp_all
  show ?thesis
    unfolding a using assign_noise_terrain_fl_flowers [of ?t fl w] assms d unfolding a by simp
qed

lemma generated_flowers_fl:
  assumes c: "hex_world_create_fl fl a world ps = (ok, Some w)" and ts: "tiles w = Some ts"
    and t: "t \<in> set ts" and f: "terrain t = HEX_TERRAIN_FLOWERS"
  shows "origin_dist_fl fl w t > fl (cell_size w * 8) \<and>
     pseudo_noise01 (tile_q t) (tile_r t) > f_0_68 \<and>
     nectar_capacity t = fl (240 + fl (60 * pseudo_noise01 (tile_q t) (tile_r t))) \<and>
     nectar_stock t =
       fl (nectar_capacity t *
           clampf (flowers_factor_fl fl (pseudo_noise01 (tile_q t) (tile_r t))) f_0_35 f_0_95) \<and>
     nectar_recharge_rate t =
       fl (4.5 + fl (2 * fl (pseudo_noise01 (tile_q t) (tile_r t) - f_0_68)))"
proof -
  obtain p where "ts = create_tiles_fl fl p (w\<lparr>tiles := None\<rparr>)"
    using hex_world_create_fl_tiles [OF c ts] by blast
  then obtain q r where tq: "t = create_tile_fl fl p (w\<lparr>tiles := None\<rparr>) q r"
    using t by (auto simp: set_create_tiles_fl)
  let ?w = "w\<lparr>tiles := None\<rparr>"
  obtain t0 where e: "t = assign_tile_defaults_fl fl (Some p) ?w t0"
    unfolding tq create_tile_fl_def Let_def by blast
  have k: "tile_q t = tile_q t0" "tile_r t = tile_r t0" "center_x t = center_x t0"
    "center_y t = center_y t0"
    unfolding e using assign_tile_defaults_fl_keeps [of fl "Some p" ?w t0] by simp_all
  have d: "origin_dist_fl fl w t = origin_dist_fl fl ?w t0"
    using k(3,4) by (rule origin_dist_fl_cong) simp_all
  have "terrain (assign_tile_defaults_fl fl (Some p) ?w t0) = HEX_TERRAIN_FLOWERS"
    using f e by simp
  note g = assign_tile_defaults_fl_flowers [OF this, folded e, folded k(1) k(2) d]
  then show ?thesis by simp
qed

subsection \<open>The resources of a Flowers cell, up to rounding\<close>

lemma flowers_bounds:
  fixes fl :: "real \<Rightarrow> real" and n :: real
  assumes fl: "\<forall>x. \<bar>fl x - x\<bar> \<le> \<bar>x\<bar> / 16777216"
    and n0: "f_0_68 < n" and n1: "n < 1"
  defines "cap \<equiv> fl (240 + fl (60 * n))"
    and "ct \<equiv> f_0_55 + f_0_4 * (n - f_0_68)"
  shows "\<bar>cap - (240 + 60 * n)\<bar> \<le> 1 / 40000"
    and "\<bar>flowers_factor_fl fl n - ct\<bar> \<le> 1 / 10000000"
    and "clampf (flowers_factor_fl fl n) f_0_35 f_0_95 = flowers_factor_fl fl n"
    and "\<bar>fl (cap * flowers_factor_fl fl n) - cap * ct\<bar> \<le> 1 / 20000"
    and "\<bar>fl (4.5 + fl (2 * fl (n - f_0_68))) - (4.5 + 2 * (n - f_0_68))\<bar> \<le> 1 / 2000000"
    and "f_0_55 \<le> ct" and "ct \<le> 679 / 1000"
proof -
  have nb: "\<bar>60 * n\<bar> \<le> 60" using n0 n1 by (simp add: f_0_68_def)
  have a: "\<bar>fl (60 * n) - 60 * n\<bar> \<le> 1 / 250000"
    by (rule fl_num [OF fl, where e = 0 and m = 60]) (use nb in auto)
  have cb: "\<bar>240 + 60 * n\<bar> \<le> 300" using n0 n1 by (simp add: f_0_68_def)
  show cap: "\<bar>cap - (240 + 60 * n)\<bar> \<le> 1 / 40000"
  proof -
    have 1: "\<bar>(240 + fl (60 * n)) - (240 + 60 * n)\<bar> \<le> 1 / 250000" using a by simp
    show ?thesis unfolding cap_def by (rule fl_num [OF fl 1 cb]) simp
  qed
  have vb: "\<bar>n - f_0_68\<bar> \<le> 32 / 100" using n0 n1 by (simp add: f_0_68_def)
  have d: "\<bar>fl (n - f_0_68) - (n - f_0_68)\<bar> \<le> 1 / 50000000"
    by (rule fl_num [OF fl, where e = 0 and m = "32 / 100"]) (use vb in auto)
  have p04: "0 \<le> f_0_4" "f_0_4 \<le> 401 / 1000" by (simp_all add: f_0_4_def)
  have b: "\<bar>fl (f_0_4 * fl (n - f_0_68)) - f_0_4 * (n - f_0_68)\<bar> \<le> 1 / 50000000"
  proof -
    have "\<bar>f_0_4 * fl (n - f_0_68) - f_0_4 * (n - f_0_68)\<bar>
        = f_0_4 * \<bar>fl (n - f_0_68) - (n - f_0_68)\<bar>"
      by (simp only: right_diff_distrib [symmetric] abs_mult abs_of_nonneg [OF p04(1)])
    also have "\<dots> \<le> (401 / 1000) * (1 / 50000000)"
      using d p04 by (intro mult_mono) auto
    finally have 1: "\<bar>f_0_4 * fl (n - f_0_68) - f_0_4 * (n - f_0_68)\<bar> \<le> 9 / 1000000000"
      by simp
    have "\<bar>f_0_4 * (n - f_0_68)\<bar> = f_0_4 * \<bar>n - f_0_68\<bar>"
      by (simp only: abs_mult abs_of_nonneg [OF p04(1)])
    also have "\<dots> \<le> (401 / 1000) * (32 / 100)"
      using vb p04 by (intro mult_mono) auto
    finally have 2: "\<bar>f_0_4 * (n - f_0_68)\<bar> \<le> 132 / 1000" by simp
    show ?thesis by (rule fl_num [OF fl 1 2]) simp
  qed
  have nd: "0 \<le> n - f_0_68" using n0 by simp
  have ctl: "f_0_55 \<le> ct" unfolding ct_def using nd p04 by simp
  have ctu: "ct \<le> 679 / 1000"
  proof -
    have "f_0_4 * (n - f_0_68) \<le> (401 / 1000) * (32 / 100)"
      using vb nd p04 by (intro mult_mono) auto
    moreover have "f_0_55 \<le> 5501 / 10000" by (simp add: f_0_55_def)
    ultimately show ?thesis unfolding ct_def by linarith
  qed
  show "f_0_55 \<le> ct" by (rule ctl)
  show "ct \<le> 679 / 1000" by (rule ctu)
  have ctb: "\<bar>ct\<bar> \<le> 68 / 100" using ctl ctu by (simp add: f_0_55_def)
  show c0: "\<bar>flowers_factor_fl fl n - ct\<bar> \<le> 1 / 10000000"
  proof -
    have 1: "\<bar>(f_0_55 + fl (f_0_4 * fl (n - f_0_68))) - ct\<bar> \<le> 1 / 50000000"
      unfolding ct_def using b by simp
    show ?thesis unfolding flowers_factor_fl_def by (rule fl_num [OF fl 1 ctb]) simp
  qed
  have lits: "f_0_35 \<le> 1 / 2" "55 / 100 \<le> f_0_55" "9 / 10 \<le> f_0_95"
    by (simp_all add: f_0_35_def f_0_55_def f_0_95_def)
  have c0l: "f_0_35 \<le> flowers_factor_fl fl n" and c0u: "flowers_factor_fl fl n \<le> f_0_95"
    using c0 ctl ctu lits by linarith+
  show "clampf (flowers_factor_fl fl n) f_0_35 f_0_95 = flowers_factor_fl fl n"
    using c0l c0u by (simp add: clampf_def)
  have capb: "\<bar>cap\<bar> \<le> 3001 / 10" using cap cb by linarith
  show "\<bar>fl (cap * flowers_factor_fl fl n) - cap * ct\<bar> \<le> 1 / 20000"
  proof -
    have "cap * flowers_factor_fl fl n - cap * ct = cap * (flowers_factor_fl fl n - ct)"
      by (simp add: algebra_simps)
    then have "\<bar>cap * flowers_factor_fl fl n - cap * ct\<bar>
        = \<bar>cap\<bar> * \<bar>flowers_factor_fl fl n - ct\<bar>"
      by (simp add: abs_mult)
    also have "\<dots> \<le> (3001 / 10) * (1 / 10000000)"
      using capb c0 by (intro mult_mono) auto
    finally have 1: "\<bar>cap * flowers_factor_fl fl n - cap * ct\<bar> \<le> 31 / 1000000" by simp
    have "\<bar>cap * ct\<bar> = \<bar>cap\<bar> * \<bar>ct\<bar>" by (rule abs_mult)
    also have "\<dots> \<le> (3001 / 10) * (68 / 100)"
      using capb ctb by (intro mult_mono) auto
    finally have 2: "\<bar>cap * ct\<bar> \<le> 205" by simp
    show ?thesis by (rule fl_num [OF fl 1 2]) simp
  qed
  show "\<bar>fl (4.5 + fl (2 * fl (n - f_0_68))) - (4.5 + 2 * (n - f_0_68))\<bar> \<le> 1 / 2000000"
  proof -
    have "\<bar>2 * fl (n - f_0_68) - 2 * (n - f_0_68)\<bar>
        = 2 * \<bar>fl (n - f_0_68) - (n - f_0_68)\<bar>"
      by (simp only: right_diff_distrib [symmetric] abs_mult)
    then have 1: "\<bar>2 * fl (n - f_0_68) - 2 * (n - f_0_68)\<bar> \<le> 1 / 25000000"
      using d by simp
    have 2: "\<bar>2 * (n - f_0_68)\<bar> \<le> 64 / 100" using vb nd by (simp add: abs_mult)
    have g: "\<bar>fl (2 * fl (n - f_0_68)) - 2 * (n - f_0_68)\<bar> \<le> 1 / 10000000"
      by (rule fl_num [OF fl 1 2]) simp
    have 3: "\<bar>(4.5 + fl (2 * fl (n - f_0_68))) - (4.5 + 2 * (n - f_0_68))\<bar> \<le> 1 / 10000000"
      using g by simp
    have 4: "\<bar>4.5 + 2 * (n - f_0_68)\<bar> \<le> 514 / 100" using vb nd by (simp add: abs_le_iff)
    show ?thesis by (rule fl_num [OF fl 3 4]) simp
  qed
qed

text \<open>
  C8, as amended. Every cell of a built lattice that is classified Flowers lies further
  than \<open>8 * cell_size\<close> from the lattice origin and has noise \<open>n > 0.68\<close>. With the \<^verbatim>\<open>float\<close>
  operations rounded by any \<open>fl\<close> of relative error at most \<open>2^-24\<close>:
  \<^item> its capacity is \<open>fl (240 + fl (60 * n))\<close>, which is \<open>240 + 60 * n\<close> up to \<open>2.5e-5\<close>: the
    base 240 plus 60 times the noise value itself, not its excess over 0.68, so that it
    lies between \<open>280.7999\<close> and \<open>300.0001\<close>;
  \<^item> its stock is the rounded product of the capacity and the factor
    \<open>0.55 + 0.4 * (n - 0.68)\<close> (the clamp to \<open>[0.35, 0.95]\<close> never acts), which is the
    exact product up to \<open>5e-5\<close> and lies between 54.999% and 95% of the capacity;
  \<^item> its recharge rate is \<open>fl (4.5 + fl (2 * fl (n - 0.68)))\<close>, which is
    \<open>4.5 + 2 * (n - 0.68)\<close> up to \<open>5e-7\<close> and lies between \<open>4.4999995\<close> and \<open>6.5\<close>.

  The literals are the binary32 ones. The bounds cannot be made strict: in binary32 the
  cell \<open>(-907, 936)\<close>, whose noise is the least one above \<^verbatim>\<open>0.68f\<close>, has the recharge rate
  \<open>4.5\<close> exactly and a capacity below \<open>240 + 60 * 0.68\<close>.
\<close>

theorem flowers_resource_scaling:
  fixes fl :: "real \<Rightarrow> real"
  assumes r: "\<forall>x. \<bar>fl x - x\<bar> \<le> \<bar>x\<bar> / 16777216"
    and c: "hex_world_create_fl fl a world ps = (ok, Some w)" and ts: "tiles w = Some ts"
    and t: "t \<in> set ts" and f: "terrain t = HEX_TERRAIN_FLOWERS"
  shows "origin_dist_fl fl w t > fl (cell_size w * 8) \<and>
     pseudo_noise01 (tile_q t) (tile_r t) > f_0_68 \<and>
     pseudo_noise01 (tile_q t) (tile_r t) < 1 \<and>
     nectar_capacity t = fl (240 + fl (60 * pseudo_noise01 (tile_q t) (tile_r t))) \<and>
     \<bar>nectar_capacity t - (240 + 60 * pseudo_noise01 (tile_q t) (tile_r t))\<bar> \<le> 1 / 40000 \<and>
     2807999 / 10000 < nectar_capacity t \<and> nectar_capacity t < 3000001 / 10000 \<and>
     nectar_stock t
       = fl (nectar_capacity t * flowers_factor_fl fl (pseudo_noise01 (tile_q t) (tile_r t))) \<and>
     \<bar>nectar_stock t - nectar_capacity t
         * (f_0_55 + f_0_4 * (pseudo_noise01 (tile_q t) (tile_r t) - f_0_68))\<bar> \<le> 1 / 20000 \<and>
     54999 / 100000 * nectar_capacity t \<le> nectar_stock t \<and>
     nectar_stock t \<le> f_0_95 * nectar_capacity t \<and>
     nectar_recharge_rate t
       = fl (4.5 + fl (2 * fl (pseudo_noise01 (tile_q t) (tile_r t) - f_0_68))) \<and>
     \<bar>nectar_recharge_rate t - (4.5 + 2 * (pseudo_noise01 (tile_q t) (tile_r t) - f_0_68))\<bar>
       \<le> 1 / 2000000 \<and>
     4.5 - 1 / 2000000 \<le> nectar_recharge_rate t \<and> nectar_recharge_rate t \<le> 6.5"
proof -
  define n where "n = pseudo_noise01 (tile_q t) (tile_r t)"
  define cap where "cap = nectar_capacity t"
  define ct where "ct = f_0_55 + f_0_4 * (n - f_0_68)"
  note g = generated_flowers_fl [OF c ts t f, folded n_def]
  have n0: "f_0_68 < n" using g by simp
  have n1: "n < 1" unfolding n_def using pseudo_noise01_range by simp
  have ce: "cap = fl (240 + fl (60 * n))" unfolding cap_def using g by simp
  note b = flowers_bounds [OF r n0 n1, folded ce ct_def]
  have lit: "2808 / 10 \<le> 240 + 60 * f_0_68" "55 / 100 \<le> f_0_55" "f_0_55 \<le> 551 / 1000"
    "94 / 100 \<le> f_0_95"
    by (simp_all add: f_0_68_def f_0_55_def f_0_95_def)
  note capd = b(1) [THEN abs_le_D2] b(1) [THEN abs_le_D1]
  have capl: "2807999 / 10000 < cap" using capd n0 lit by linarith
  have capu: "cap < 3000001 / 10000" using capd n1 by linarith
  have cap0: "0 \<le> cap" using capl by linarith
  have st: "nectar_stock t = fl (cap * flowers_factor_fl fl n)"
    using g b(3) by (simp add: cap_def)
  note s4 = b(4) [folded st]
  note std = s4 [THEN abs_le_D2] s4 [THEN abs_le_D1]
  have m1: "cap * f_0_55 \<le> cap * ct" using b(6) cap0 by (rule mult_left_mono)
  have m2: "cap * ct \<le> cap * (679 / 1000)" using b(7) cap0 by (rule mult_left_mono)
  have m3: "cap * (55 / 100) \<le> cap * f_0_55" using lit(2) cap0 by (rule mult_left_mono)
  have m4: "cap * (94 / 100) \<le> cap * f_0_95" using lit(4) cap0 by (rule mult_left_mono)
  have stl: "54999 / 100000 * cap \<le> nectar_stock t"
    using std(1) m1 m3 capl by linarith
  have m5: "cap * (94 / 100) \<le> f_0_95 * cap" using m4 by (simp add: mult.commute)
  have stu: "nectar_stock t \<le> f_0_95 * cap"
    using std(2) m2 m5 capl by linarith
  have re: "nectar_recharge_rate t = fl (4.5 + fl (2 * fl (n - f_0_68)))"
    using g by simp
  note r5 = b(5) [folded re]
  note red = r5 [THEN abs_le_D2] r5 [THEN abs_le_D1]
  have rel: "4.5 - 1 / 2000000 \<le> nectar_recharge_rate t" using red(1) n0 by simp
  have reu: "nectar_recharge_rate t \<le> 6.5" using red(2) n1 lit(1) by simp
  have d: "origin_dist_fl fl w t > fl (cell_size w * 8)" using g by simp
  have 1: "\<bar>cap - (240 + 60 * n)\<bar> \<le> 1 / 40000" using b(1) .
  have 2: "\<bar>nectar_stock t - cap * ct\<bar> \<le> 1 / 20000" using s4 .
  have 3: "\<bar>nectar_recharge_rate t - (4.5 + 2 * (n - f_0_68))\<bar> \<le> 1 / 2000000"
    using r5 .
  show ?thesis
    using d n0 n1 ce 1 capl capu st 2 stl stu re 3 rel reu
    unfolding n_def cap_def ct_def by blast
qed

subsection \<open>Two Flowers cells in binary32\<close>

lemma c24_1: "round24 (43588485 / 524288) = 10897121 / 131072"
  using round24_small [where x = "43588485 / 524288" and n = 17]
  by (simp add: lrintf_def floor_minus)

lemma c24_2: "round24 (8) = 8"
  using round24_small [where x = "8" and n = 20]
  by (simp add: lrintf_def floor_minus)

lemma c24_3: "round24 (4) = 4"
  using round24_small [where x = "4" and n = 21]
  by (simp add: lrintf_def floor_minus)

lemma c24_4: "round24 (10897121 / 32768) = 10897121 / 32768"
  using round24_small [where x = "10897121 / 32768" and n = 15]
  by (simp add: lrintf_def floor_minus)

lemma c24_5: "round24 (72) = 72"
  using round24_small [where x = "72" and n = 17]
  by (simp add: lrintf_def floor_minus)

lemma c24_6: "round24 (576) = 576"
  using round24_small [where x = "576" and n = 14]
  by (simp add: lrintf_def floor_minus)

lemma c24_7: "round24 (118747246088641 / 1073741824) = 14155775 / 128"
  using round24_small [where x = "118747246088641 / 1073741824" and n = 7]
  by (simp add: lrintf_def floor_minus)

lemma c24_8: "round24 (331776) = 331776"
  using round24_small [where x = "331776" and n = 5]
  by (simp add: lrintf_def floor_minus)

lemma c24_9: "round24 (56623103 / 128) = 442368"
  using round24_small [where x = "56623103 / 128" and n = 5]
  by (simp add: lrintf_def floor_minus)

lemma c24_10: "round24 (384) = 384"
  using round24_small [where x = "384" and n = 15]
  by (simp add: lrintf_def floor_minus)

lemma c24_11: "round24 (25694355 / 524288) = 6423589 / 131072"
  using round24_small [where x = "25694355 / 524288" and n = 18]
  by (simp add: lrintf_def floor_minus)

lemma c24_12: "round24 (37880869 / 131072) = 9470217 / 32768"
  using round24_small [where x = "37880869 / 131072" and n = 15]
  by (simp add: lrintf_def floor_minus)

lemma c24_13: "round24 (2295149 / 16777216) = 2295149 / 16777216"
  using round24_small [where x = "2295149 / 16777216" and n = 26]
  by (simp add: lrintf_def floor_minus)

lemma c24_14: "round24 (30804968879177 / 562949953421312) = 7344477 / 134217728"
  using round24_small [where x = "30804968879177 / 562949953421312" and n = 28]
  by (simp add: lrintf_def floor_minus)

lemma c24_15: "round24 (81164229 / 134217728) = 10145529 / 16777216"
  using round24_small [where x = "81164229 / 134217728" and n = 24]
  by (simp add: lrintf_def floor_minus)

lemma c24_16: "round24 (96080361209793 / 549755813888) = 1431709 / 8192"
  using round24_small [where x = "96080361209793 / 549755813888" and n = 16]
  by (simp add: lrintf_def floor_minus)

lemma c24_17: "round24 (2295149 / 8388608) = 2295149 / 8388608"
  using round24_small [where x = "2295149 / 8388608" and n = 25]
  by (simp add: lrintf_def floor_minus)

lemma c24_18: "round24 (40043885 / 8388608) = 10010971 / 2097152"
  using round24_small [where x = "40043885 / 8388608" and n = 21]
  by (simp add: lrintf_def floor_minus)

lemma c24_19: "round24 (- 907) = - 907"
  using round24_small [where x = "- 907" and n = 14]
  by (simp add: lrintf_def floor_minus)

lemma c24_20: "round24 (936) = 936"
  using round24_small [where x = "936" and n = 14]
  by (simp add: lrintf_def floor_minus)

lemma c24_21: "round24 (468) = 468"
  using round24_small [where x = "468" and n = 15]
  by (simp add: lrintf_def floor_minus)

lemma c24_22: "round24 (- 439) = - 439"
  using round24_small [where x = "- 439" and n = 15]
  by (simp add: lrintf_def floor_minus)

lemma c24_23: "round24 (- (4783836119 / 131072)) = - (4671715 / 128)"
  using round24_small [where x = "- (4783836119 / 131072)" and n = 8]
  by (simp add: lrintf_def floor_minus)

lemma c24_24: "round24 (67392) = 67392"
  using round24_small [where x = "67392" and n = 7]
  by (simp add: lrintf_def floor_minus)

lemma c24_25: "round24 (- (4671715 / 128)) = - (4671715 / 128)"
  using round24_small [where x = "- (4671715 / 128)" and n = 8]
  by (simp add: lrintf_def floor_minus)

lemma c24_26: "round24 (21824921041225 / 16384) = 1332087424"
  using round24_large [where x = "21824921041225 / 16384" and n = 7]
  by (simp add: lrintf_def floor_minus)

lemma c24_27: "round24 (4541681664) = 4541681664"
  using round24_large [where x = "4541681664" and n = 9]
  by (simp add: lrintf_def floor_minus)

lemma c24_28: "round24 (5873769088) = 5873768960"
  using round24_large [where x = "5873769088" and n = 9]
  by (simp add: lrintf_def floor_minus)

lemma c24_29: "round24 (42781905 / 1048576) = 2673869 / 65536"
  using round24_small [where x = "42781905 / 1048576" and n = 18]
  by (simp add: lrintf_def floor_minus)

lemma c24_30: "round24 (18402509 / 65536) = 4600627 / 16384"
  using round24_small [where x = "18402509 / 65536" and n = 15]
  by (simp add: lrintf_def floor_minus)

lemma c24_31: "round24 (1 / 16777216) = 1 / 16777216"
  using round24_small [where x = "1 / 16777216" and n = 47]
  by (simp add: lrintf_def floor_minus)

lemma c24_32: "round24 (13421773 / 562949953421312) = 13421773 / 562949953421312"
  using round24_small [where x = "13421773 / 562949953421312" and n = 49]
  by (simp add: lrintf_def floor_minus)

lemma c24_33: "round24 (309622494514381 / 562949953421312) = 9227469 / 16777216"
  using round24_small [where x = "309622494514381 / 562949953421312" and n = 24]
  by (simp add: lrintf_def floor_minus)

lemma c24_34: "round24 (42452143023063 / 274877906944) = 2530345 / 16384"
  using round24_small [where x = "42452143023063 / 274877906944" and n = 16]
  by (simp add: lrintf_def floor_minus)

lemma c24_35: "round24 (1 / 8388608) = 1 / 8388608"
  using round24_small [where x = "1 / 8388608" and n = 46]
  by (simp add: lrintf_def floor_minus)

lemma c24_36: "round24 (37748737 / 8388608) = 9 / 2"
  using round24_small [where x = "37748737 / 8388608" and n = 21]
  by (simp add: lrintf_def floor_minus)

lemmas cell_round24 = c24_1 c24_2 c24_3 c24_4 c24_5 c24_6 c24_7 c24_8 c24_9 c24_10 c24_11 c24_12 c24_13 c24_14 c24_15 c24_16 c24_17 c24_18 c24_19 c24_20 c24_21 c24_22 c24_23 c24_24 c24_25 c24_26 c24_27 c24_28 c24_29 c24_30 c24_31 c24_32 c24_33 c24_34 c24_35 c24_36


lemma round24_lower:
  assumes "0 \<le> z"
  shows "z * (16777215 / 16777216) \<le> round24 z"
proof -
  have "\<bar>round24 z - z\<bar> \<le> z / 16777216" using round24_rel [of z] assms by simp
  then have "- (round24 z - z) \<le> z / 16777216" by (rule abs_le_D2)
  then show ?thesis by (simp add: field_simps)
qed

lemma round24_sqrt_far:
  assumes "160000 \<le> S"
  shows "384 < round24 (sqrt S)"
proof -
  have "(400::real)\<^sup>2 \<le> S" using assms by simp
  then have "400 \<le> sqrt S" by (rule real_le_rsqrt)
  moreover have "sqrt S * (16777215 / 16777216) \<le> round24 (sqrt S)"
    using calculation by (intro round24_lower) linarith
  ultimately show ?thesis by linarith
qed

lemma meadow_lattice_fl_built:
  "hex_world_create_fl round24 calloc_always (Some hex_world_zero) (Some meadow_params)
     = (True, Some meadow_lattice_fl)"
  by (simp add: hex_world_create_fl_def hex_world_init_def hex_world_destroy_def Let_def
      hex_world_zero_def meadow_params_def example_params_def meadow_lattice_fl_def
      meadow_bare_def calloc_always_def int16_cast_def uint16_cast_def c_span_def int_cast_def)

lemma meadow_lattice_fl_tiles:
  "tiles meadow_lattice_fl = Some (create_tiles_fl round24 meadow_params meadow_bare)"
  by (simp add: meadow_lattice_fl_def)

lemma brink_lattice_fl_built:
  "hex_world_create_fl round24 calloc_always (Some hex_world_zero) (Some brink_params)
     = (True, Some brink_lattice_fl)"
  by (simp add: hex_world_create_fl_def hex_world_init_def hex_world_destroy_def Let_def
      hex_world_zero_def brink_params_def example_params_def brink_lattice_fl_def
      brink_bare_def calloc_always_def int16_cast_def uint16_cast_def c_span_def int_cast_def)

lemma brink_lattice_fl_tiles:
  "tiles brink_lattice_fl = Some (create_tiles_fl round24 brink_params brink_bare)"
  by (simp add: brink_lattice_fl_def)

lemma noise_hash_brink: "unat (noise_hash (- 907) 936) = 2544768124"
  unfolding noise_hash_unat by (simp add: Let_def)

lemma noise_brink: "pseudo_noise01 (- 907) 936 = 2852127 / 4194304"
  unfolding pseudo_noise01_unat noise_hash_brink by simp

lemma noise_meadow: "pseudo_noise01 0 8 = 1712957 / 2097152"
  unfolding pseudo_noise01_unat noise_hash_0_8 by simp

lemma meadow_dist_fl:
  assumes "center_x t = 10897121 / 32768" "center_y t = 576"
  shows "384 < origin_dist_fl round24 meadow_bare t"
proof -
  have "origin_dist_fl round24 meadow_bare t = round24 (sqrt 442368)"
    by (simp add: origin_dist_fl_def Let_def meadow_bare_def assms cell_round24)
  then show ?thesis using round24_sqrt_far [of 442368] by simp
qed

lemma brink_dist_fl:
  assumes "center_x t = - (4671715 / 128)" "center_y t = 67392"
  shows "384 < origin_dist_fl round24 brink_bare t"
proof -
  have "origin_dist_fl round24 brink_bare t = round24 (sqrt 5873768960)"
    by (simp add: origin_dist_fl_def Let_def brink_bare_def assms cell_round24)
  then show ?thesis using round24_sqrt_far [of 5873768960] by simp
qed

lemmas flowers_eval =
  assign_noise_terrain_fl_def flowers_factor_fl_def clampf_def Let_def
  f_0_68_def f_0_55_def f_0_4_def f_0_35_def f_0_95_def cell_round24

lemma meadow_flower_fl:
  "terrain (create_tile_fl round24 meadow_params meadow_bare 0 8) = HEX_TERRAIN_FLOWERS"
  "tile_q (create_tile_fl round24 meadow_params meadow_bare 0 8) = 0"
  "tile_r (create_tile_fl round24 meadow_params meadow_bare 0 8) = 8"
  "nectar_capacity (create_tile_fl round24 meadow_params meadow_bare 0 8) = 9470217 / 32768"
  "nectar_stock (create_tile_fl round24 meadow_params meadow_bare 0 8) = 1431709 / 8192"
  "nectar_recharge_rate (create_tile_fl round24 meadow_params meadow_bare 0 8)
     = 10010971 / 2097152"
proof -
  let ?t = "zero_tile\<lparr>tile_q := 0, tile_r := 8, center_x := 10897121 / 32768, center_y := 576,
      terrain := HEX_TERRAIN_OPEN, nectar_capacity := 0, nectar_stock := 0,
      nectar_recharge_rate := 0, flow_capacity := 8, flags := HEX_TILE_VISIBLE\<rparr>"
  have e: "create_tile_fl round24 meadow_params meadow_bare 0 8
      = assign_noise_terrain_fl round24 meadow_bare ?t"
    by (simp add: create_tile_fl_def assign_tile_defaults_fl_def Let_def hive_enabled_def
        meadow_params_def example_params_def meadow_bare_def int16_cast_def SQRT3_def
        round24_zero cell_round24)
  have d: "384 < origin_dist_fl round24 meadow_bare ?t"
    by (rule meadow_dist_fl) simp_all
  have c: "cell_size meadow_bare * 8 = 384"
    by (simp add: meadow_bare_def)
  show "terrain (create_tile_fl round24 meadow_params meadow_bare 0 8) = HEX_TERRAIN_FLOWERS"
    "tile_q (create_tile_fl round24 meadow_params meadow_bare 0 8) = 0"
    "tile_r (create_tile_fl round24 meadow_params meadow_bare 0 8) = 8"
    "nectar_capacity (create_tile_fl round24 meadow_params meadow_bare 0 8) = 9470217 / 32768"
    "nectar_stock (create_tile_fl round24 meadow_params meadow_bare 0 8) = 1431709 / 8192"
    "nectar_recharge_rate (create_tile_fl round24 meadow_params meadow_bare 0 8)
       = 10010971 / 2097152"
    unfolding e using d c by (simp_all add: flowers_eval noise_meadow)
qed

lemma brink_flower_fl:
  "terrain (create_tile_fl round24 brink_params brink_bare (- 907) 936) = HEX_TERRAIN_FLOWERS"
  "tile_q (create_tile_fl round24 brink_params brink_bare (- 907) 936) = - 907"
  "tile_r (create_tile_fl round24 brink_params brink_bare (- 907) 936) = 936"
  "nectar_capacity (create_tile_fl round24 brink_params brink_bare (- 907) 936)
     = 4600627 / 16384"
  "nectar_stock (create_tile_fl round24 brink_params brink_bare (- 907) 936) = 2530345 / 16384"
  "nectar_recharge_rate (create_tile_fl round24 brink_params brink_bare (- 907) 936) = 9 / 2"
proof -
  let ?t = "zero_tile\<lparr>tile_q := - 907, tile_r := 936, center_x := - (4671715 / 128),
      center_y := 67392,
      terrain := HEX_TERRAIN_OPEN, nectar_capacity := 0, nectar_stock := 0,
      nectar_recharge_rate := 0, flow_capacity := 8, flags := HEX_TILE_VISIBLE\<rparr>"
  have e: "create_tile_fl round24 brink_params brink_bare (- 907) 936
      = assign_noise_terrain_fl round24 brink_bare ?t"
    by (simp add: create_tile_fl_def assign_tile_defaults_fl_def Let_def hive_enabled_def
        brink_params_def example_params_def brink_bare_def int16_cast_def SQRT3_def
        round24_zero cell_round24)
  have d: "384 < origin_dist_fl round24 brink_bare ?t"
    by (rule brink_dist_fl) simp_all
  have c: "cell_size brink_bare * 8 = 384"
    by (simp add: brink_bare_def)
  show "terrain (create_tile_fl round24 brink_params brink_bare (- 907) 936) = HEX_TERRAIN_FLOWERS"
    "tile_q (create_tile_fl round24 brink_params brink_bare (- 907) 936) = - 907"
    "tile_r (create_tile_fl round24 brink_params brink_bare (- 907) 936) = 936"
    "nectar_capacity (create_tile_fl round24 brink_params brink_bare (- 907) 936)
       = 4600627 / 16384"
    "nectar_stock (create_tile_fl round24 brink_params brink_bare (- 907) 936) = 2530345 / 16384"
    "nectar_recharge_rate (create_tile_fl round24 brink_params brink_bare (- 907) 936) = 9 / 2"
    unfolding e using d c by (simp_all add: flowers_eval noise_brink)
qed

theorem flowers_resource_scaling_witness:
  "(\<forall>x. \<bar>round24 x - x\<bar> \<le> \<bar>x\<bar> / 16777216) \<and>
   hex_world_create_fl round24 calloc_always (Some hex_world_zero) (Some meadow_params)
     = (True, Some meadow_lattice_fl) \<and>
   tiles meadow_lattice_fl = Some (create_tiles_fl round24 meadow_params meadow_bare) \<and>
   create_tile_fl round24 meadow_params meadow_bare 0 8
     \<in> set (create_tiles_fl round24 meadow_params meadow_bare) \<and>
   terrain (create_tile_fl round24 meadow_params meadow_bare 0 8) = HEX_TERRAIN_FLOWERS \<and>
   pseudo_noise01 0 8 = 1712957 / 2097152 \<and>
   nectar_capacity (create_tile_fl round24 meadow_params meadow_bare 0 8) = 9470217 / 32768 \<and>
   nectar_stock (create_tile_fl round24 meadow_params meadow_bare 0 8) = 1431709 / 8192 \<and>
   nectar_recharge_rate (create_tile_fl round24 meadow_params meadow_bare 0 8)
     = 10010971 / 2097152 \<and>
   \<bar>9470217 / 32768 - (240 + 60 * (1712957 / 2097152))\<bar> \<le> (1 / 40000 :: real) \<and>
   \<bar>1431709 / 8192 - 9470217 / 32768 * (f_0_55 + f_0_4 * (1712957 / 2097152 - f_0_68))\<bar>
     \<le> (1 / 20000 :: real) \<and>
   \<bar>10010971 / 2097152 - (4.5 + 2 * (1712957 / 2097152 - f_0_68))\<bar> \<le> (1 / 2000000 :: real) \<and>
   create_tile_fl round24 brink_params brink_bare (- 907) 936
     \<in> set (create_tiles_fl round24 brink_params brink_bare) \<and>
   terrain (create_tile_fl round24 brink_params brink_bare (- 907) 936) = HEX_TERRAIN_FLOWERS \<and>
   pseudo_noise01 (- 907) 936 = f_0_68 + 1 / 16777216 \<and>
   nectar_capacity (create_tile_fl round24 brink_params brink_bare (- 907) 936)
     = 4600627 / 16384 \<and>
   (4600627 / 16384 :: real) < 240 + 60 * f_0_68 \<and> (2807999 / 10000 :: real) < 4600627 / 16384 \<and>
   nectar_recharge_rate (create_tile_fl round24 brink_params brink_bare (- 907) 936) = 4.5"
proof -
  have m: "create_tile_fl round24 meadow_params meadow_bare 0 8
      \<in> set (create_tiles_fl round24 meadow_params meadow_bare)"
    by (rule create_tile_fl_mem) (simp_all add: meadow_params_def example_params_def)
  note a = flowers_resource_scaling [OF round24_ok meadow_lattice_fl_built meadow_lattice_fl_tiles
      m meadow_flower_fl(1), unfolded meadow_flower_fl noise_meadow]
  have a1: "\<bar>9470217 / 32768 - (240 + 60 * (1712957 / 2097152))\<bar> \<le> (1 / 40000 :: real)"
    using a by blast
  have a2: "\<bar>1431709 / 8192 - 9470217 / 32768 * (f_0_55 + f_0_4 * (1712957 / 2097152 - f_0_68))\<bar>
     \<le> (1 / 20000 :: real)"
    using a by blast
  have a3: "\<bar>10010971 / 2097152 - (4.5 + 2 * (1712957 / 2097152 - f_0_68))\<bar>
      \<le> (1 / 2000000 :: real)"
    using a by blast
  have k: "create_tile_fl round24 brink_params brink_bare (- 907) 936
      \<in> set (create_tiles_fl round24 brink_params brink_bare)"
    by (rule create_tile_fl_mem) (simp_all add: brink_params_def example_params_def)
  note b = flowers_resource_scaling [OF round24_ok brink_lattice_fl_built brink_lattice_fl_tiles
      k brink_flower_fl(1), unfolded brink_flower_fl noise_brink]
  have b1: "(2807999 / 10000 :: real) < 4600627 / 16384"
    using b by blast
  have b2: "(4600627 / 16384 :: real) < 240 + 60 * f_0_68"
    by (simp add: f_0_68_def)
  have b3: "pseudo_noise01 (- 907) 936 = f_0_68 + 1 / 16777216"
    by (simp add: noise_brink f_0_68_def)
  have b4: "nectar_recharge_rate (create_tile_fl round24 brink_params brink_bare (- 907) 936) = 4.5"
    by (simp add: brink_flower_fl)
  show ?thesis
    using round24_ok meadow_lattice_fl_built meadow_lattice_fl_tiles m meadow_flower_fl
      noise_meadow a1 a2 a3 k brink_flower_fl(1,4) b1 b2 b3 b4
    by blast
qed

text \<open>
  The claim as it stands fails for the capacity, which it scales with the excess as it
  does the stock and the recharge rate. In binary32 the cell \<open>(0, 8)\<close> of the meadow
  lattice is Flowers with noise \<open>n = 0.8168...\<close>; its capacity is \<open>289.008...\<close>, the
  rounded \<open>240 + 60 * n\<close>, more than 40 away from \<open>240 + 60 * (n - 0.68) = 248.2...\<close> and
  more than 20 away from \<open>240 + 60 * (n - 0.68) / (1 - 0.68) = 265.6...\<close>.
\<close>

theorem flowers_capacity_counterexample:
  "create_tile_fl round24 meadow_params meadow_bare 0 8
     \<in> set (create_tiles_fl round24 meadow_params meadow_bare) \<and>
   tiles meadow_lattice_fl = Some (create_tiles_fl round24 meadow_params meadow_bare) \<and>
   terrain (create_tile_fl round24 meadow_params meadow_bare 0 8) = HEX_TERRAIN_FLOWERS \<and>
   pseudo_noise01 0 8 = 1712957 / 2097152 \<and>
   nectar_capacity (create_tile_fl round24 meadow_params meadow_bare 0 8) = 9470217 / 32768 \<and>
   nectar_capacity (create_tile_fl round24 meadow_params meadow_bare 0 8)
     - (240 + 60 * (pseudo_noise01 0 8 - f_0_68)) > 40 \<and>
   nectar_capacity (create_tile_fl round24 meadow_params meadow_bare 0 8)
     - (240 + 60 * ((pseudo_noise01 0 8 - f_0_68) / (1 - f_0_68))) > 20"
proof -
  have m: "create_tile_fl round24 meadow_params meadow_bare 0 8
      \<in> set (create_tiles_fl round24 meadow_params meadow_bare)"
    by (rule create_tile_fl_mem) (simp_all add: meadow_params_def example_params_def)
  have n: "(9470217 / 32768 :: real) - (240 + 60 * (1712957 / 2097152 - f_0_68)) > 40"
    "(9470217 / 32768 :: real) - (240 + 60 * ((1712957 / 2097152 - f_0_68) / (1 - f_0_68))) > 20"
    by (simp_all add: f_0_68_def)
  show ?thesis
    unfolding meadow_flower_fl noise_meadow
    using m meadow_lattice_fl_tiles n by simp
qed

section \<open>Cube rounding\<close>

lemma hex_axial_round_fl_eq:
  "hex_axial_round_fl fl qf rf =
     (if round_diff_fl fl qf > round_diff_fl fl rf
           \<and> round_diff_fl fl qf > round_diff_fl fl (cube_sf_fl fl qf rf)
      then (int_cast (int_cast (- round_coord rf) - round_coord (cube_sf_fl fl qf rf)),
            round_coord rf)
      else if round_diff_fl fl rf > round_diff_fl fl (cube_sf_fl fl qf rf)
      then (round_coord qf,
            int_cast (int_cast (- round_coord qf) - round_coord (cube_sf_fl fl qf rf)))
      else (round_coord qf, round_coord rf))"
  by (simp add: hex_axial_round_fl_def round_diff_fl_def cube_sf_fl_def Let_def)

lemma cube_sf_fl_bound:
  fixes fl :: "real \<Rightarrow> real"
  assumes fl: "\<forall>x. \<bar>fl x - x\<bar> \<le> \<bar>x\<bar> / 16777216"
    and qf: "\<bar>qf\<bar> \<le> 536870912" and rf: "\<bar>rf\<bar> \<le> 536870912"
  shows "\<bar>cube_sf_fl fl qf rf\<bar> \<le> 1073741888"
proof -
  have b: "\<bar>- qf - rf\<bar> \<le> 1073741824" using qf rf by linarith
  have "\<bar>fl (- qf - rf) - (- qf - rf)\<bar> \<le> \<bar>- qf - rf\<bar> / 16777216" using fl by blast
  moreover have "\<bar>- qf - rf\<bar> / 16777216 \<le> 64" using b by simp
  ultimately have "\<bar>fl (- qf - rf) - (- qf - rf)\<bar> \<le> 64" by linarith
  then show ?thesis unfolding cube_sf_fl_def using b by linarith
qed

lemma hex_axial_round_fl_bounded:
  fixes fl :: "real \<Rightarrow> real"
  assumes fl: "\<forall>x. \<bar>fl x - x\<bar> \<le> \<bar>x\<bar> / 16777216"
    and qf: "\<bar>qf\<bar> \<le> 536870912" and rf: "\<bar>rf\<bar> \<le> 536870912"
  shows "hex_axial_round_fl fl qf rf =
     (if round_diff_fl fl qf > round_diff_fl fl rf
           \<and> round_diff_fl fl qf > round_diff_fl fl (cube_sf_fl fl qf rf)
      then (- lrintf rf - lrintf (cube_sf_fl fl qf rf), lrintf rf)
      else if round_diff_fl fl rf > round_diff_fl fl (cube_sf_fl fl qf rf)
      then (lrintf qf, - lrintf qf - lrintf (cube_sf_fl fl qf rf))
      else (lrintf qf, lrintf rf))"
proof -
  note sb = cube_sf_fl_bound [OF fl qf rf]
  have q: "round_coord qf = lrintf qf" using qf by (intro round_coord_bounded) linarith
  have r: "round_coord rf = lrintf rf" using rf by (intro round_coord_bounded) linarith
  have s: "round_coord (cube_sf_fl fl qf rf) = lrintf (cube_sf_fl fl qf rf)"
    using sb by (intro round_coord_bounded) linarith
  have qb: "\<bar>lrintf qf\<bar> \<le> 536870912" using lrintf_bound [of qf 536870912] qf by simp
  have rb: "\<bar>lrintf rf\<bar> \<le> 536870912" using lrintf_bound [of rf 536870912] rf by simp
  have sb': "\<bar>lrintf (cube_sf_fl fl qf rf)\<bar> \<le> 1073741888"
    using lrintf_bound [of "cube_sf_fl fl qf rf" 1073741888] sb by simp
  have w1: "int_cast (int_cast (- lrintf rf) - lrintf (cube_sf_fl fl qf rf))
      = - lrintf rf - lrintf (cube_sf_fl fl qf rf)"
  proof -
    have "int_cast (- lrintf rf) = - lrintf rf" using rb by (intro int_cast_id) linarith+
    moreover have "int_cast (- lrintf rf - lrintf (cube_sf_fl fl qf rf))
        = - lrintf rf - lrintf (cube_sf_fl fl qf rf)"
      using rb sb' by (intro int_cast_id) linarith+
    ultimately show ?thesis by simp
  qed
  have w2: "int_cast (int_cast (- lrintf qf) - lrintf (cube_sf_fl fl qf rf))
      = - lrintf qf - lrintf (cube_sf_fl fl qf rf)"
  proof -
    have "int_cast (- lrintf qf) = - lrintf qf" using qb by (intro int_cast_id) linarith+
    moreover have "int_cast (- lrintf qf - lrintf (cube_sf_fl fl qf rf))
        = - lrintf qf - lrintf (cube_sf_fl fl qf rf)"
      using qb sb' by (intro int_cast_id) linarith+
    ultimately show ?thesis by simp
  qed
  show ?thesis
    unfolding hex_axial_round_fl_eq q r s w1 w2 by (rule refl)
qed

lemma round24_half: "round24 (1 / 2) = 1 / 2"
  using round24_small [where x = "1 / 2" and n = 24] by (simp add: lrintf_def)

lemma round24_minus_half: "round24 (- (1 / 2)) = - (1 / 2)"
  using round24_small [where x = "- (1 / 2)" and n = 24] by (simp add: lrintf_def floor_minus)

lemma round24_minus_one: "round24 (- 1) = - 1"
  using round24_small [where x = "- 1" and n = 23] by (simp add: lrintf_def floor_minus)

lemma lrintf_half: "lrintf (1 / 2) = 0" "lrintf (- 1) = - 1"
  by (simp_all add: lrintf_def floor_minus)

lemma cube_sf_half: "cube_sf_fl round24 (1 / 2) (1 / 2) = - 1"
  by (simp add: cube_sf_fl_def round24_minus_one)

lemma round_diff_half:
  "round_diff_fl round24 (1 / 2) = 1 / 2" "round_diff_fl round24 (- 1) = 0"
  by (simp_all add: round_diff_fl_def round_coord_def lrintf_half int_cast_def
      round24_zero round24_minus_half round24_minus_one)

lemma round24_edge_q: "round24 (4377805 / 524288) = 4377805 / 524288"
  using round24_small [where x = "4377805 / 524288" and n = 20]
  by (simp add: lrintf_def)

lemma round24_edge_r: "round24 (10040115 / 262144) = 10040115 / 262144"
  using round24_small [where x = "10040115 / 262144" and n = 18]
  by (simp add: lrintf_def)

lemma round24_edge_s: "round24 (- (24458035 / 524288)) = - (6114509 / 131072)"
  using round24_small [where x = "- (24458035 / 524288)" and n = 18]
  by (simp add: lrintf_def floor_minus)

lemma cube_sf_edge:
  "cube_sf_fl round24 (4377805 / 524288) (10040115 / 262144) = - (6114509 / 131072)"
  by (simp add: cube_sf_fl_def round24_edge_s)

lemma lrintf_edge:
  "lrintf (4377805 / 524288) = 8" "lrintf (10040115 / 262144) = 38"
  "lrintf (- (6114509 / 131072)) = - 47"
  by (simp_all add: lrintf_def floor_minus)

text \<open>
  C6, as amended. The three errors that \<^verbatim>\<open>hex_axial_round\<close> compares are
  \<^verbatim>\<open>fabsf((float)q - qf)\<close>, \<^verbatim>\<open>fabsf((float)r - rf)\<close> and \<^verbatim>\<open>fabsf((float)s - sf)\<close>, where
  \<^verbatim>\<open>sf\<close> is the rounded sum \<^verbatim>\<open>-qf - rf\<close>. For inputs of magnitude at most \<open>2^29\<close> (no
  \<^verbatim>\<open>int\<close> overflows) and any rounding of relative error at most \<open>2^-24\<close>:
  \<^item> \<open>q\<close> is recomputed as \<open>-r - s\<close> when its error is strictly larger than both others,
    and only then does the result differ from the rounded \<open>q\<close>;
  \<^item> when the errors of \<open>q\<close> and \<open>r\<close> tie above that of \<open>s\<close>, it is \<open>r\<close> that is recomputed
    as \<open>-q - s\<close>, and \<open>r\<close> is changed only if its error is strictly larger than that of
    \<open>s\<close> and the error of \<open>q\<close> is not strictly the largest;
  \<^item> when the error of \<open>s\<close> is at least as large as both others, in particular when it
    ties with the largest one, neither \<open>q\<close> nor \<open>r\<close> is touched, which is to say \<open>s\<close> takes
    the correction.

  A tie is so resolved \<open>s\<close> before \<open>r\<close>, \<open>r\<close> before \<open>q\<close>. In binary32 (\<open>round24\<close>) the
  computed errors of inputs that are binary32 numbers are the true rounding errors
  \<open>|lrintf x - x|\<close>: the conversion and the subtraction are exact, and the only rounding
  that matters is that of \<open>sf\<close>.
\<close>

theorem hex_axial_round_tie_break:
  fixes fl :: "real \<Rightarrow> real"
  assumes fl: "\<forall>x. \<bar>fl x - x\<bar> \<le> \<bar>x\<bar> / 16777216"
    and qf: "\<bar>qf\<bar> \<le> 536870912" and rf: "\<bar>rf\<bar> \<le> 536870912"
  shows "(round_diff_fl fl qf > round_diff_fl fl rf
            \<and> round_diff_fl fl qf > round_diff_fl fl (cube_sf_fl fl qf rf) \<longrightarrow>
        hex_axial_round_fl fl qf rf
          = (- lrintf rf - lrintf (cube_sf_fl fl qf rf), lrintf rf)) \<and>
     (fst (hex_axial_round_fl fl qf rf) \<noteq> lrintf qf \<longrightarrow>
        round_diff_fl fl qf > round_diff_fl fl rf
          \<and> round_diff_fl fl qf > round_diff_fl fl (cube_sf_fl fl qf rf)) \<and>
     (round_diff_fl fl qf = round_diff_fl fl rf
            \<and> round_diff_fl fl rf > round_diff_fl fl (cube_sf_fl fl qf rf) \<longrightarrow>
        hex_axial_round_fl fl qf rf
          = (lrintf qf, - lrintf qf - lrintf (cube_sf_fl fl qf rf))) \<and>
     (snd (hex_axial_round_fl fl qf rf) \<noteq> lrintf rf \<longrightarrow>
        round_diff_fl fl rf > round_diff_fl fl (cube_sf_fl fl qf rf)
          \<and> \<not> (round_diff_fl fl qf > round_diff_fl fl rf
                \<and> round_diff_fl fl qf > round_diff_fl fl (cube_sf_fl fl qf rf))) \<and>
     (round_diff_fl fl (cube_sf_fl fl qf rf) \<ge> round_diff_fl fl qf
            \<and> round_diff_fl fl (cube_sf_fl fl qf rf) \<ge> round_diff_fl fl rf \<longrightarrow>
        hex_axial_round_fl fl qf rf = (lrintf qf, lrintf rf)) \<and>
     (round24 qf = qf \<longrightarrow> round_diff_fl round24 qf = \<bar>real_of_int (lrintf qf) - qf\<bar>) \<and>
     (round24 rf = rf \<longrightarrow> round_diff_fl round24 rf = \<bar>real_of_int (lrintf rf) - rf\<bar>) \<and>
     round_diff_fl round24 (cube_sf_fl round24 qf rf)
       = \<bar>real_of_int (lrintf (cube_sf_fl round24 qf rf)) - cube_sf_fl round24 qf rf\<bar>"
proof -
  note e = hex_axial_round_fl_bounded [OF fl qf rf]
  have 1: "hex_axial_round_fl fl qf rf
          = (- lrintf rf - lrintf (cube_sf_fl fl qf rf), lrintf rf)"
    if "round_diff_fl fl qf > round_diff_fl fl rf
          \<and> round_diff_fl fl qf > round_diff_fl fl (cube_sf_fl fl qf rf)"
    unfolding e using that by simp
  have 2: "round_diff_fl fl qf > round_diff_fl fl rf
          \<and> round_diff_fl fl qf > round_diff_fl fl (cube_sf_fl fl qf rf)"
    if "fst (hex_axial_round_fl fl qf rf) \<noteq> lrintf qf"
    using that unfolding e by (simp split: if_splits)
  have 3: "hex_axial_round_fl fl qf rf
          = (lrintf qf, - lrintf qf - lrintf (cube_sf_fl fl qf rf))"
    if "round_diff_fl fl qf = round_diff_fl fl rf
            \<and> round_diff_fl fl rf > round_diff_fl fl (cube_sf_fl fl qf rf)"
    unfolding e using that by simp
  have 4: "round_diff_fl fl rf > round_diff_fl fl (cube_sf_fl fl qf rf)
          \<and> \<not> (round_diff_fl fl qf > round_diff_fl fl rf
                \<and> round_diff_fl fl qf > round_diff_fl fl (cube_sf_fl fl qf rf))"
    if "snd (hex_axial_round_fl fl qf rf) \<noteq> lrintf rf"
    using that unfolding e by (simp split: if_splits)
  have 5: "hex_axial_round_fl fl qf rf = (lrintf qf, lrintf rf)"
    if "round_diff_fl fl (cube_sf_fl fl qf rf) \<ge> round_diff_fl fl qf
            \<and> round_diff_fl fl (cube_sf_fl fl qf rf) \<ge> round_diff_fl fl rf"
    unfolding e using that by simp
  have 6: "round_diff_fl round24 qf = \<bar>real_of_int (lrintf qf) - qf\<bar>" if "round24 qf = qf"
    using that qf by (intro round_diff_round24) linarith+
  have 7: "round_diff_fl round24 rf = \<bar>real_of_int (lrintf rf) - rf\<bar>" if "round24 rf = rf"
    using that rf by (intro round_diff_round24) linarith+
  have 8: "round_diff_fl round24 (cube_sf_fl round24 qf rf)
       = \<bar>real_of_int (lrintf (cube_sf_fl round24 qf rf)) - cube_sf_fl round24 qf rf\<bar>"
  proof (rule round_diff_round24)
    show "round24 (cube_sf_fl round24 qf rf) = cube_sf_fl round24 qf rf"
      unfolding cube_sf_fl_def by (rule round24_idem)
    show "\<bar>cube_sf_fl round24 qf rf\<bar> \<le> 2147483647"
      using cube_sf_fl_bound [OF round24_ok qf rf] by linarith
  qed
  show ?thesis
    using 1 2 3 4 5 6 7 8 by blast
qed

theorem hex_axial_round_tie_break_witness:
  "(\<forall>x. \<bar>round24 x - x\<bar> \<le> \<bar>x\<bar> / 16777216) \<and>
   \<bar>1 / 2 :: real\<bar> \<le> 536870912 \<and> round24 (1 / 2) = 1 / 2 \<and>
   round_diff_fl round24 (1 / 2) = 1 / 2 \<and>
   cube_sf_fl round24 (1 / 2) (1 / 2) = - 1 \<and>
   round_diff_fl round24 (cube_sf_fl round24 (1 / 2) (1 / 2)) = 0 \<and>
   hex_axial_round_fl round24 (1 / 2) (1 / 2) = (0, 1) \<and>
   \<bar>4377805 / 524288 :: real\<bar> \<le> 536870912 \<and> \<bar>10040115 / 262144 :: real\<bar> \<le> 536870912 \<and>
   round_diff_fl round24 (4377805 / 524288) = 183501 / 524288 \<and>
   round_diff_fl round24 (10040115 / 262144) = 78643 / 262144 \<and>
   round_diff_fl round24 (cube_sf_fl round24 (4377805 / 524288) (10040115 / 262144))
     = 45875 / 131072 \<and>
   hex_axial_round_fl round24 (4377805 / 524288) (10040115 / 262144) = (9, 38)"
proof -
  have b: "\<bar>1 / 2 :: real\<bar> \<le> 536870912" "\<bar>4377805 / 524288 :: real\<bar> \<le> 536870912"
    "\<bar>10040115 / 262144 :: real\<bar> \<le> 536870912"
    by simp_all
  note t = hex_axial_round_tie_break [OF round24_ok b(1) b(1)]
  have t1: "round_diff_fl round24 (1 / 2) = 1 / 2"
    using t round24_half by (simp add: lrintf_half)
  have t2: "round_diff_fl round24 (cube_sf_fl round24 (1 / 2) (1 / 2)) = 0"
    using t by (simp add: cube_sf_half lrintf_half)
  have t3: "hex_axial_round_fl round24 (1 / 2) (1 / 2) = (0, 1)"
    using t t1 t2 by (simp add: cube_sf_half lrintf_half)
  note v = hex_axial_round_tie_break [OF round24_ok b(2) b(3)]
  have v1: "round_diff_fl round24 (4377805 / 524288) = 183501 / 524288"
    using v round24_edge_q by (simp add: lrintf_edge)
  have v2: "round_diff_fl round24 (10040115 / 262144) = 78643 / 262144"
    using v round24_edge_r by (simp add: lrintf_edge)
  have v3: "round_diff_fl round24 (cube_sf_fl round24 (4377805 / 524288) (10040115 / 262144))
     = 45875 / 131072"
    using v by (simp add: cube_sf_edge lrintf_edge)
  have v4: "hex_axial_round_fl round24 (4377805 / 524288) (10040115 / 262144) = (9, 38)"
    using v v1 v2 v3 by (simp add: cube_sf_edge lrintf_edge)
  show ?thesis
    using round24_ok b round24_half t1 t2 t3 v1 v2 v3 v4 cube_sf_half by simp
qed

text \<open>
  The claim as it stands fails at \<open>(qf, rf) = (1/2, 1/2)\<close>, two binary32 numbers whose sum
  is exact: the three coordinates round to \<open>0, 0, -1\<close>, the errors of \<open>q\<close> and \<open>r\<close> tie at
  \<open>1/2\<close> above the error \<open>0\<close> of \<open>s\<close>, and the result is \<open>(0, 1)\<close> (\<open>r\<close> recomputed),
  not \<open>(1, 0)\<close> (\<open>q\<close> recomputed).
\<close>

theorem hex_axial_round_tie_counterexample:
  "round_diff_fl round24 (1 / 2) = 1 / 2 \<and>
   round_diff_fl round24 (cube_sf_fl round24 (1 / 2) (1 / 2)) = 0 \<and>
   round_coord (1 / 2) = 0 \<and> round_coord (cube_sf_fl round24 (1 / 2) (1 / 2)) = - 1 \<and>
   hex_axial_round_fl round24 (1 / 2) (1 / 2) = (0, 1) \<and>
   hex_axial_round_fl round24 (1 / 2) (1 / 2) \<noteq>
     (- round_coord (1 / 2) - round_coord (cube_sf_fl round24 (1 / 2) (1 / 2)),
      round_coord (1 / 2))"
proof -
  have c: "round_coord (1 / 2) = 0" "round_coord (- 1) = - 1"
    by (simp_all add: round_coord_def lrintf_half int_cast_def)
  have "hex_axial_round_fl round24 (1 / 2) (1 / 2) = (0, 1)"
    unfolding hex_axial_round_fl_eq cube_sf_half round_diff_half c
    by (simp add: int_cast_def)
  then show ?thesis
    by (simp add: cube_sf_half round_diff_half c)
qed

section \<open>The lattice properties with rounded operations\<close>

text \<open>
  The index mapping, the colony precedence, the resource invariant and the round trip were
  stated above for the lattice that the exact model builds. None of them depends on that
  idealisation: they hold as well for the lattice built with rounded operations, the
  first two for any rounding \<open>fl\<close>, the last two for any \<open>fl\<close> of relative error at most
  \<open>2^-24\<close>.
\<close>

lemma hex_world_index_bijection_fl:
  assumes v: "hex_params_valid p"
    and c: "hex_world_create_fl fl a world (Some p) = (True, Some w)"
    and t: "tiles w = Some ts"
  shows "count w = width w * height w \<and> length ts = count w \<and>
     int (width w) = q_max w - q_min w + 1 \<and> int (height w) = r_max w - r_min w + 1 \<and>
     (in_box w q r \<longrightarrow>
        int (hex_world_index (Some w) q r) = (r - r_min w) * int (width w) + (q - q_min w) \<and>
        hex_world_index (Some w) q r < count w \<and>
        hex_world_index (Some w) q r \<noteq> SIZE_MAX \<and>
        hex_world_tile (Some w) q r = Some (ts ! hex_world_index (Some w) q r) \<and>
        tile_q (ts ! hex_world_index (Some w) q r) = q \<and>
        tile_r (ts ! hex_world_index (Some w) q r) = r) \<and>
     (in_box w q r \<and> in_box w q' r' \<and>
        hex_world_index (Some w) q r = hex_world_index (Some w) q' r' \<longrightarrow> q = q' \<and> r = r') \<and>
     (\<not> in_box w q r \<longrightarrow>
        hex_world_index (Some w) q r = SIZE_MAX \<and> hex_world_tile (Some w) q r = None)"
proof -
  note f = hex_world_create_fl_built [OF v c t]
  have dims: "count w = width w * height w \<and> length ts = count w \<and>
     int (width w) = q_max w - q_min w + 1 \<and> int (height w) = r_max w - r_min w + 1"
    using f by (simp add: length_create_tiles_fl)
  have inside: "int (hex_world_index (Some w) q r) = (r - r_min w) * int (width w) + (q - q_min w) \<and>
        hex_world_index (Some w) q r < count w \<and>
        hex_world_index (Some w) q r \<noteq> SIZE_MAX \<and>
        hex_world_tile (Some w) q r = Some (ts ! hex_world_index (Some w) q r) \<and>
        tile_q (ts ! hex_world_index (Some w) q r) = q \<and>
        tile_r (ts ! hex_world_index (Some w) q r) = r" if b: "in_box w q r"
  proof -
    note i = built_index_fl [OF v c t b]
    have lt: "hex_world_index (Some w) q r < count w" using i by simp
    have ne: "hex_world_index (Some w) q r \<noteq> SIZE_MAX"
      using i(5) .
    have "int (hex_world_index (Some w) q r) = (r - r_min w) * int (width w) + (q - q_min w)"
      using i(1) b by (simp add: in_box_def)
    moreover have "hex_world_tile (Some w) q r = Some (ts ! hex_world_index (Some w) q r)"
      using ne t by (simp add: hex_world_tile_def Let_def)
    moreover have "tile_q (ts ! hex_world_index (Some w) q r) = q"
      "tile_r (ts ! hex_world_index (Some w) q r) = r"
      using i(4) b f by (simp_all add: create_tile_fl_coords int16_cast_id in_box_def)
    ultimately show ?thesis using lt ne by simp
  qed
  have inj: "q = q' \<and> r = r'"
    if b: "in_box w q r" and b': "in_box w q' r'"
      and e: "hex_world_index (Some w) q r = hex_world_index (Some w) q' r'"
  proof -
    have "nat (r - r_min w) * width w + nat (q - q_min w)
        = nat (r' - r_min w) * width w + nat (q' - q_min w)"
      using built_index_fl(1) [OF v c t b] built_index_fl(1) [OF v c t b'] e by simp
    moreover have "nat (q - q_min w) < width w" "nat (q' - q_min w) < width w"
      using f b b' by (auto simp: in_box_def)
    ultimately have "nat (q - q_min w) = nat (q' - q_min w) \<and> nat (r - r_min w) = nat (r' - r_min w)"
      by (intro index_inj) auto
    then show ?thesis using b b' by (auto simp: in_box_def)
  qed
  have outside: "hex_world_index (Some w) q r = SIZE_MAX \<and> hex_world_tile (Some w) q r = None"
    if "\<not> in_box w q r"
    using that t
    by (auto simp add: hex_world_index_def hex_world_tile_def hex_world_in_bounds_def in_box_def
        Let_def)
  show ?thesis using dims inside inj outside by blast
qed

lemma assign_precedence_fl:
  assumes "hive_enabled p"
  shows "(in_hive_rect_fl fl p t0 \<longrightarrow>
        terrain (assign_tile_defaults_fl fl (Some p) w t0) = HEX_TERRAIN_HIVE) \<and>
     (\<not> in_hive_rect_fl fl p t0 \<and> entrance_axial_ok_fl fl p w t0
          \<and> entrance_radial_ok_fl fl p w t0 \<longrightarrow>
        terrain (assign_tile_defaults_fl fl (Some p) w t0) = HEX_TERRAIN_ENTRANCE)"
proof -
  let ?t = "t0\<lparr>terrain := HEX_TERRAIN_OPEN, nectar_capacity := 0, nectar_stock := 0,
                        nectar_recharge_rate := 0, flow_capacity := 8,
                        flags := HEX_TILE_VISIBLE\<rparr>"
  have "in_hive_rect_fl fl p ?t = in_hive_rect_fl fl p t0"
    by (simp add: in_hive_rect_fl_def)
  moreover have "entrance_axial_ok_fl fl p w ?t = entrance_axial_ok_fl fl p w t0"
    by (simp add: entrance_axial_ok_fl_def)
  moreover have "entrance_radial_ok_fl fl p w ?t = entrance_radial_ok_fl fl p w t0"
    by (simp add: entrance_radial_ok_fl_def)
  ultimately show ?thesis
    using assms by (simp add: assign_tile_defaults_fl_def Let_def)
qed

lemma colony_precedence_fl:
  assumes c: "hex_world_create_fl fl a world ps = (ok, Some w)" and ts: "tiles w = Some ts"
    and t: "t \<in> set ts" and p: "ps = Some p" and h: "hive_enabled p"
  shows "(in_hive_rect_fl fl p t \<longrightarrow> terrain t = HEX_TERRAIN_HIVE) \<and>
     (\<not> in_hive_rect_fl fl p t \<and> entrance_axial_ok_fl fl p w t
          \<and> entrance_radial_ok_fl fl p w t \<longrightarrow>
        terrain t = HEX_TERRAIN_ENTRANCE)"
proof -
  have "ts = create_tiles_fl fl p (w\<lparr>tiles := None\<rparr>)"
    using hex_world_create_fl_tiles [OF c ts] p by auto
  then obtain q r where tq: "t = create_tile_fl fl p (w\<lparr>tiles := None\<rparr>) q r"
    using t by (auto simp: set_create_tiles_fl)
  let ?w = "w\<lparr>tiles := None\<rparr>"
  obtain t0 where e: "t = assign_tile_defaults_fl fl (Some p) ?w t0"
    unfolding tq create_tile_fl_def Let_def by blast
  have k: "center_x t = center_x t0" "center_y t = center_y t0"
    unfolding e using assign_tile_defaults_fl_keeps [of fl "Some p" ?w t0] by simp_all
  have 1: "in_hive_rect_fl fl p t = in_hive_rect_fl fl p t0"
    using k by (simp add: in_hive_rect_fl_def)
  have 2: "entrance_axial_ok_fl fl p w t = entrance_axial_ok_fl fl p ?w t0"
    using k by (simp add: entrance_axial_ok_fl_def)
  have 3: "entrance_radial_ok_fl fl p w t = entrance_radial_ok_fl fl p ?w t0"
    using k by (simp add: entrance_radial_ok_fl_def)
  show ?thesis
    unfolding 1 2 3 unfolding e by (rule assign_precedence_fl [OF h])
qed

lemma flowers_stock_range:
  fixes fl :: "real \<Rightarrow> real" and n :: real
  assumes fl: "\<forall>x. \<bar>fl x - x\<bar> \<le> \<bar>x\<bar> / 16777216"
    and n0: "f_0_68 < n" and n1: "n < 1"
  shows "0 < fl (240 + fl (60 * n))"
    and "0 \<le> fl (fl (240 + fl (60 * n)) * clampf (flowers_factor_fl fl n) f_0_35 f_0_95)"
    and "fl (fl (240 + fl (60 * n)) * clampf (flowers_factor_fl fl n) f_0_35 f_0_95)
           \<le> fl (240 + fl (60 * n))"
proof -
  define cap where "cap = fl (240 + fl (60 * n))"
  define ct where "ct = f_0_55 + f_0_4 * (n - f_0_68)"
  define st where "st = fl (cap * flowers_factor_fl fl n)"
  note b = flowers_bounds [OF fl n0 n1, folded cap_def ct_def]
  have lit: "2808 / 10 \<le> 240 + 60 * f_0_68" "55 / 100 \<le> f_0_55" "f_0_95 \<le> 1"
    by (simp_all add: f_0_68_def f_0_55_def f_0_95_def)
  note capd = b(1) [THEN abs_le_D2] b(1) [THEN abs_le_D1]
  have capl: "2807999 / 10000 < cap" using capd n0 lit by linarith
  have cap0: "0 \<le> cap" using capl by linarith
  note s4 = b(4) [folded st_def]
  note std = s4 [THEN abs_le_D2] s4 [THEN abs_le_D1]
  have m1: "cap * f_0_55 \<le> cap * ct" using b(6) cap0 by (rule mult_left_mono)
  have m2: "cap * ct \<le> cap * (679 / 1000)" using b(7) cap0 by (rule mult_left_mono)
  have m3: "cap * (55 / 100) \<le> cap * f_0_55" using lit(2) cap0 by (rule mult_left_mono)
  have stl: "0 \<le> st" using std(1) m1 m3 capl by linarith
  have stu: "st \<le> cap" using std(2) m2 capl by linarith
  show "0 < fl (240 + fl (60 * n))" using capl unfolding cap_def by linarith
  show "0 \<le> fl (fl (240 + fl (60 * n)) * clampf (flowers_factor_fl fl n) f_0_35 f_0_95)"
    unfolding b(3) using stl unfolding st_def cap_def .
  show "fl (fl (240 + fl (60 * n)) * clampf (flowers_factor_fl fl n) f_0_35 f_0_95)
           \<le> fl (240 + fl (60 * n))"
    unfolding b(3) using stu unfolding st_def cap_def .
qed

lemma forest_stock_range:
  fixes fl :: "real \<Rightarrow> real"
  assumes fl: "\<forall>x. \<bar>fl x - x\<bar> \<le> \<bar>x\<bar> / 16777216"
  shows "0 \<le> fl (30 * f_0_3)" and "fl (30 * f_0_3) \<le> 30"
proof -
  have v: "\<bar>30 * f_0_3\<bar> \<le> 10" "9 \<le> 30 * f_0_3" by (simp_all add: f_0_3_def)
  have e: "\<bar>fl (30 * f_0_3) - 30 * f_0_3\<bar> \<le> 1 / 1000000"
    by (rule fl_num [OF fl, where e = 0 and m = 10]) (use v in auto)
  note d = e [THEN abs_le_D2] e [THEN abs_le_D1]
  show "0 \<le> fl (30 * f_0_3)" using d(1) v by linarith
  show "fl (30 * f_0_3) \<le> 30" using d(2) v by (simp add: abs_le_iff)
qed

lemma assign_noise_terrain_fl_resources:
  fixes fl :: "real \<Rightarrow> real"
  assumes fl: "\<forall>x. \<bar>fl x - x\<bar> \<le> \<bar>x\<bar> / 16777216"
    and z: "nectar_capacity t = 0" "nectar_stock t = 0" "nectar_recharge_rate t = 0"
  shows "resource_invariant (assign_noise_terrain_fl fl w t)"
proof (cases "origin_dist_fl fl w t > fl (cell_size w * 8)
    \<and> pseudo_noise01 (tile_q t) (tile_r t) > f_0_68")
  case True
  have n1: "pseudo_noise01 (tile_q t) (tile_r t) < 1" using pseudo_noise01_range by simp
  note s = flowers_stock_range [OF fl conjunct2 [OF True] n1]
  show ?thesis
    using True s by (simp add: assign_noise_terrain_fl_def resource_invariant_def Let_def)
next
  case False
  show ?thesis
    using False z forest_stock_range [OF fl]
    by (auto simp add: assign_noise_terrain_fl_def resource_invariant_def Let_def)
qed

lemma resource_invariant_fl:
  fixes fl :: "real \<Rightarrow> real"
  assumes fl: "\<forall>x. \<bar>fl x - x\<bar> \<le> \<bar>x\<bar> / 16777216"
    and c: "hex_world_create_fl fl a world ps = (ok, Some w)" and ts: "tiles w = Some ts"
    and t: "t \<in> set ts"
  shows "resource_invariant t"
proof -
  obtain p where "ts = create_tiles_fl fl p (w\<lparr>tiles := None\<rparr>)"
    using hex_world_create_fl_tiles [OF c ts] by blast
  then obtain q r where tq: "t = create_tile_fl fl p (w\<lparr>tiles := None\<rparr>) q r"
    using t by (auto simp: set_create_tiles_fl)
  obtain t0 where e: "t = assign_tile_defaults_fl fl (Some p) (w\<lparr>tiles := None\<rparr>) t0"
    unfolding tq create_tile_fl_def Let_def by blast
  let ?t = "t0\<lparr>terrain := HEX_TERRAIN_OPEN, nectar_capacity := 0, nectar_stock := 0,
                        nectar_recharge_rate := 0, flow_capacity := 8,
                        flags := HEX_TILE_VISIBLE\<rparr>"
  have "resource_invariant (assign_noise_terrain_fl fl (w\<lparr>tiles := None\<rparr>) ?t)"
    by (rule assign_noise_terrain_fl_resources [OF fl]) simp_all
  then show ?thesis
    unfolding e by (simp add: assign_tile_defaults_fl_def Let_def resource_invariant_def)
qed

lemma axial_round_trip_fl_built:
  fixes fl :: "real \<Rightarrow> real"
  assumes v: "hex_params_valid p"
    and c: "hex_world_create_fl fl' a world (Some p) = (True, Some w)"
    and t: "tiles w = Some ts" and b: "in_box w q r"
    and fl: "\<forall>x. \<bar>fl x - x\<bar> \<le> \<bar>x\<bar> / 16777216"
    and ox: "\<bar>origin_x w\<bar> \<le> 1048576 * cell_size w"
    and oy: "\<bar>origin_y w\<bar> \<le> 1048576 * cell_size w"
  shows "axial_round_trip_fl fl (Some w) q r = (q, r)"
proof -
  note f = hex_world_create_fl_built [OF v c t]
  have cs: "0 < cell_size w" using f by simp
  have qb: "\<bar>q\<bar> \<le> 32768" and rb: "\<bar>r\<bar> \<le> 32768"
    using f b by (auto simp: in_box_def)
  note e = round_trip_fl_fractional [OF fl cs ox oy qb rb]
  have "axial_round_trip_fl fl (Some w) q r =
      hex_axial_round_fl fl
        (fl (fl (fl (SQRT3 / 3 *
           fl (fl (fl (fl (SQRT3 * cell_size w)
                       * fl (fl (real_of_int q) + fl (fl (real_of_int r) * 0.5)))
                 + origin_x w) - origin_x w))
           - fl (f_1_3 * fl (fl (fl (fl (1.5 * cell_size w) * fl (real_of_int r)) + origin_y w)
                 - origin_y w))) / cell_size w))
        (fl (fl (f_2_3 * fl (fl (fl (fl (1.5 * cell_size w) * fl (real_of_int r)) + origin_y w)
                 - origin_y w)) / cell_size w))"
    using cs t
    by (simp add: axial_round_trip_fl_def hex_axial_to_world_fl_def hex_world_to_axial_f_fl_def
        Let_def)
  also have "\<dots> = (q, r)"
    using fl e qb rb by (rule hex_axial_round_fl_near)
  finally show ?thesis .
qed

section \<open>The degenerate cases of the affine transform\<close>

text \<open>
  C10. \<^verbatim>\<open>hex_axial_to_world\<close> returns \<open>(0, 0)\<close> for every \<open>(q, r)\<close> when the world
  pointer is null or the world has no tile array, whatever \<^verbatim>\<open>cell_size\<close> and the origin
  are; the affine transform \<open>x = origin_x + cell_size * SQRT3 * (q + r/2)\<close>,
  \<open>y = origin_y + cell_size * 1.5 * r\<close> is applied only when the tile array is there.
\<close>

theorem hex_axial_to_world_empty:
  "hex_axial_to_world None q r = (0, 0) \<and>
   (tiles w = None \<longrightarrow> hex_axial_to_world (Some w) q r = (0, 0)) \<and>
   (tiles w \<noteq> None \<longrightarrow> hex_axial_to_world (Some w) q r =
      (origin_x w + cell_size w * SQRT3 * (real_of_int q + real_of_int r / 2),
       origin_y w + cell_size w * (3 / 2) * real_of_int r))"
  by (auto simp: hex_axial_to_world_def split: option.splits)

theorem hex_axial_to_world_empty_witness:
  "tiles (hex_world_zero\<lparr>cell_size := 48, origin_x := 7, origin_y := 9\<rparr>) = None \<and>
   hex_axial_to_world (Some (hex_world_zero\<lparr>cell_size := 48, origin_x := 7, origin_y := 9\<rparr>)) 3 (- 2)
     = (0, 0) \<and>
   tiles (hex_world_zero\<lparr>cell_size := 48, origin_x := 7, origin_y := 9, tiles := Some []\<rparr>) \<noteq> None \<and>
   hex_axial_to_world
     (Some (hex_world_zero\<lparr>cell_size := 48, origin_x := 7, origin_y := 9, tiles := Some []\<rparr>)) 3 (- 2)
     = (7 + 48 * SQRT3 * 2, - 135)"
  using hex_axial_to_world_empty
      [of 3 "- 2" "hex_world_zero\<lparr>cell_size := 48, origin_x := 7, origin_y := 9\<rparr>"]
    hex_axial_to_world_empty
      [of 3 "- 2" "hex_world_zero\<lparr>cell_size := 48, origin_x := 7, origin_y := 9, tiles := Some []\<rparr>"]
  by (simp add: hex_world_zero_def)

end
